theory Spec2Isabelle
  imports Main "HOL-Library.AList" "HOL-Library.Code_Target_Numeral"
begin

section \<open>Errors and JSON values\<close>

text \<open>
  The edge function signals failure by throwing. A thrown value is either a plain
  \<^verbatim>\<open>Error\<close> (or a store error object) carrying a message, or the function's own
  \<^verbatim>\<open>IdempotencyError\<close>. Every function that can throw returns \<open>error + 'a\<close>.
\<close>

datatype error = Error string | IdempotencyError string

datatype json =
    JNull
  | JBool bool
  | JNum int
  | JStr string
  | JArr "json list"
  | JObj "(string \<times> json) list"

text \<open>JavaScript truthiness of an optional string: \<^verbatim>\<open>undefined\<close> and \<^verbatim>\<open>""\<close> are falsy.\<close>

fun truthy :: "string option \<Rightarrow> bool" where
  "truthy None = False"
| "truthy (Some s) = (s \<noteq> [])"

section \<open>The semver package\<close>

text \<open>
  Modelled from the spec: the npm package \<^verbatim>\<open>semver\<close> (\<^verbatim>\<open>semver.valid\<close>, \<^verbatim>\<open>semver.lt\<close>,
  \<^verbatim>\<open>semver.rcompare\<close>) is imported by the function and is not part of the repository.
  The definitions below follow the SemVer precedence that the specification names
  (numeric major.minor.patch, a pre-release is lower than its release, pre-release
  identifiers compared numerically or lexically), in the strict mode that the calls use:
  an optional leading \<^verbatim>\<open>v\<close>, three numeric identifiers without leading zeros, an optional
  pre-release and optional build metadata. Identifiers are compared as exact naturals.
\<close>

datatype ident = Num nat | Alpha string

record SemVer =
  major :: nat
  minor :: nat
  patch :: nat
  prerelease :: "ident list"
  build :: "string list"

definition is_digit :: "char \<Rightarrow> bool" where
  "is_digit c = (c \<in> set ''0123456789'')"

definition is_letter_dash_number :: "char \<Rightarrow> bool" where
  "is_letter_dash_number c =
     (c \<in> set ''0123456789abcdefghijklmnopqrstuvwxyzABCDEFGHIJKLMNOPQRSTUVWXYZ-'')"

definition is_space :: "char \<Rightarrow> bool" where
  "is_space c = (c \<in> {CHR '' '', CHR 0x09, CHR 0x0A, CHR 0x0B, CHR 0x0C, CHR 0x0D})"

definition trim :: "string \<Rightarrow> string" where
  "trim s = rev (dropWhile is_space (rev (dropWhile is_space s)))"

text \<open>\<^verbatim>\<open>String.prototype.split\<close> on a one-character separator.\<close>

fun split_on :: "char \<Rightarrow> string \<Rightarrow> string list" where
  "split_on d [] = [[]]"
| "split_on d (c # cs) =
     (if c = d then [] # split_on d cs
      else (case split_on d cs of
              [] \<Rightarrow> [[c]]
            | w # ws \<Rightarrow> (c # w) # ws))"

definition digit_val :: "char \<Rightarrow> nat" where
  "digit_val c = of_char c - 48"

definition nat_of_digits :: "string \<Rightarrow> nat" where
  "nat_of_digits s = foldl (\<lambda>n c. 10 * n + digit_val c) 0 s"

definition MAX_SAFE_INTEGER :: nat where
  "MAX_SAFE_INTEGER = 9007199254740991"

definition MAX_LENGTH :: nat where
  "MAX_LENGTH = 256"

text \<open>\<^verbatim>\<open>0|[1-9]\d*\<close>\<close>

definition numeric_identifier :: "string \<Rightarrow> bool" where
  "numeric_identifier s =
     (s \<noteq> [] \<and> list_all is_digit s \<and> (s = ''0'' \<or> hd s \<noteq> CHR ''0''))"

text \<open>A pre-release identifier: numeric, or \<^verbatim>\<open>\d*[a-zA-Z-][a-zA-Z0-9-]*\<close>.\<close>

definition prerelease_identifier :: "string \<Rightarrow> bool" where
  "prerelease_identifier s =
     (s \<noteq> [] \<and> list_all is_letter_dash_number s \<and>
      (list_all is_digit s \<longrightarrow> numeric_identifier s))"

definition build_identifier :: "string \<Rightarrow> bool" where
  "build_identifier s = (s \<noteq> [] \<and> list_all is_letter_dash_number s)"

definition to_ident :: "string \<Rightarrow> ident" where
  "to_ident s = (if list_all is_digit s then Num (nat_of_digits s) else Alpha s)"

text \<open>
  The text after the three numbers: nothing, \<^verbatim>\<open>-pre\<close>, \<^verbatim>\<open>+build\<close> or \<^verbatim>\<open>-pre+build\<close>.
  The result is the pair of dot-separated identifier lists, or \<open>None\<close> when the
  text does not have that shape.
\<close>

definition parse_build :: "string \<Rightarrow> string list option" where
  "parse_build r =
     (case r of
        [] \<Rightarrow> Some []
      | c # b \<Rightarrow>
          (if c = CHR ''+'' \<and> list_all build_identifier (split_on CHR ''.'' b)
           then Some (split_on CHR ''.'' b) else None))"

definition parse_tail :: "string \<Rightarrow> (ident list \<times> string list) option" where
  "parse_tail r =
     (case r of
        [] \<Rightarrow> Some ([], [])
      | c # r' \<Rightarrow>
          (if c = CHR ''-'' then
             (let pre = takeWhile (\<lambda>x. x \<noteq> CHR ''+'') r';
                  rest = dropWhile (\<lambda>x. x \<noteq> CHR ''+'') r'
              in if list_all prerelease_identifier (split_on CHR ''.'' pre)
                 then (case parse_build rest of
                         None \<Rightarrow> None
                       | Some b \<Rightarrow> Some (map to_ident (split_on CHR ''.'' pre), b))
                 else None)
           else (case parse_build r of
                   None \<Rightarrow> None
                 | Some b \<Rightarrow> Some ([], b))))"

text \<open>\<^verbatim>\<open>new SemVer(version)\<close>; \<open>None\<close> stands for the \<^verbatim>\<open>TypeError\<close> it throws.\<close>

definition parse_semver :: "string \<Rightarrow> SemVer option" where
  "parse_semver version =
     (if length version > MAX_LENGTH then None
      else
        (let t = trim version;
             s = (case t of [] \<Rightarrow> [] | c # cs \<Rightarrow> if c = CHR ''v'' then cs else t);
             main = takeWhile (\<lambda>c. is_digit c \<or> c = CHR ''.'') s;
             rest = dropWhile (\<lambda>c. is_digit c \<or> c = CHR ''.'') s
         in (case split_on CHR ''.'' main of
               [a, b, c] \<Rightarrow>
                 (if numeric_identifier a \<and> numeric_identifier b \<and> numeric_identifier c
                     \<and> nat_of_digits a \<le> MAX_SAFE_INTEGER
                     \<and> nat_of_digits b \<le> MAX_SAFE_INTEGER
                     \<and> nat_of_digits c \<le> MAX_SAFE_INTEGER
                  then (case parse_tail rest of
                          None \<Rightarrow> None
                        | Some (pre, bld) \<Rightarrow>
                            Some \<lparr> major = nat_of_digits a, minor = nat_of_digits b,
                                   patch = nat_of_digits c, prerelease = pre, build = bld \<rparr>)
                  else None)
             | _ \<Rightarrow> None)))"

text \<open>\<^verbatim>\<open>semver.valid(v)\<close> is truthy exactly when the version parses.\<close>

definition semver_valid :: "string \<Rightarrow> bool" where
  "semver_valid v = (parse_semver v \<noteq> None)"

text \<open>JavaScript's \<^verbatim>\<open><\<close> on strings: lexicographic on character codes.\<close>

fun str_lt :: "string \<Rightarrow> string \<Rightarrow> bool" where
  "str_lt [] [] = False"
| "str_lt [] (y # ys) = True"
| "str_lt (x # xs) [] = False"
| "str_lt (x # xs) (y # ys) =
     (if x = y then str_lt xs ys else (of_char x :: nat) < of_char y)"

definition cmp_nat :: "nat \<Rightarrow> nat \<Rightarrow> int" where
  "cmp_nat a b = (if a = b then 0 else if a < b then -1 else 1)"

fun compareIdentifiers :: "ident \<Rightarrow> ident \<Rightarrow> int" where
  "compareIdentifiers (Num a) (Num b) = cmp_nat a b"
| "compareIdentifiers (Num a) (Alpha b) = -1"
| "compareIdentifiers (Alpha a) (Num b) = 1"
| "compareIdentifiers (Alpha a) (Alpha b) =
     (if a = b then 0 else if str_lt a b then -1 else 1)"

fun comparePreLoop :: "ident list \<Rightarrow> ident list \<Rightarrow> int" where
  "comparePreLoop [] [] = 0"
| "comparePreLoop (a # as) [] = 1"
| "comparePreLoop [] (b # bs) = -1"
| "comparePreLoop (a # as) (b # bs) =
     (if a = b then comparePreLoop as bs else compareIdentifiers a b)"

definition comparePre :: "SemVer \<Rightarrow> SemVer \<Rightarrow> int" where
  "comparePre x y =
     (if prerelease x \<noteq> [] \<and> prerelease y = [] then -1
      else if prerelease x = [] \<and> prerelease y \<noteq> [] then 1
      else if prerelease x = [] \<and> prerelease y = [] then 0
      else comparePreLoop (prerelease x) (prerelease y))"

definition compareMain :: "SemVer \<Rightarrow> SemVer \<Rightarrow> int" where
  "compareMain x y =
     (if cmp_nat (major x) (major y) \<noteq> 0 then cmp_nat (major x) (major y)
      else if cmp_nat (minor x) (minor y) \<noteq> 0 then cmp_nat (minor x) (minor y)
      else cmp_nat (patch x) (patch y))"

definition compare_sv :: "SemVer \<Rightarrow> SemVer \<Rightarrow> int" where
  "compare_sv x y = (if compareMain x y \<noteq> 0 then compareMain x y else comparePre x y)"

text \<open>\<^verbatim>\<open>semver.compare(a, b)\<close> parses both arguments and throws on an invalid one.\<close>

definition semver_compare :: "string \<Rightarrow> string \<Rightarrow> error + int" where
  "semver_compare a b =
     (case parse_semver a of
        None \<Rightarrow> Inl (Error (''Invalid Version: '' @ a))
      | Some x \<Rightarrow>
          (case parse_semver b of
             None \<Rightarrow> Inl (Error (''Invalid Version: '' @ b))
           | Some y \<Rightarrow> Inr (compare_sv x y)))"

definition semver_lt :: "string \<Rightarrow> string \<Rightarrow> error + bool" where
  "semver_lt a b =
     (case semver_compare a b of Inl e \<Rightarrow> Inl e | Inr n \<Rightarrow> Inr (n < 0))"

text \<open>
  \<^verbatim>\<open>semver.rcompare\<close> as the comparator handed to \<^verbatim>\<open>Array.prototype.sort\<close>. The source
  applies it only to strings that passed \<^verbatim>\<open>semver.valid\<close>, where it cannot throw.
\<close>

definition semver_rcompare :: "string \<Rightarrow> string \<Rightarrow> int" where
  "semver_rcompare a b =
     (case semver_compare b a of Inl e \<Rightarrow> 0 | Inr n \<Rightarrow> n)"

text \<open>\<^verbatim>\<open>Array.prototype.sort(cmp)\<close>: a stable sort, here by insertion.\<close>

fun insert_by :: "('a \<Rightarrow> 'a \<Rightarrow> int) \<Rightarrow> 'a \<Rightarrow> 'a list \<Rightarrow> 'a list" where
  "insert_by cmp x [] = [x]"
| "insert_by cmp x (y # ys) =
     (if cmp x y < 0 then x # y # ys else y # insert_by cmp x ys)"

definition sort_by :: "('a \<Rightarrow> 'a \<Rightarrow> int) \<Rightarrow> 'a list \<Rightarrow> 'a list" where
  "sort_by cmp xs = foldl (\<lambda>acc x. insert_by cmp x acc) [] xs"

text \<open>\<open>a\<close> does not come after \<open>b\<close> in SemVer precedence (both valid).\<close>

definition semver_le :: "string \<Rightarrow> string \<Rightarrow> bool" where
  "semver_le a b = (case semver_compare a b of Inl e \<Rightarrow> False | Inr n \<Rightarrow> n \<le> 0)"

section \<open>SemverGate: assessSemver\<close>

datatype assessment = Allowed | Rejected string

definition assessSemver :: "string \<Rightarrow> string list \<Rightarrow> error + assessment" where
  "assessSemver nextVersion existing =
     (if nextVersion \<in> set existing then Inr (Rejected ''Version already published'')
      else
        (case sort_by semver_rcompare (filter semver_valid existing) of
           [] \<Rightarrow> Inr Allowed
         | latest # _ \<Rightarrow>
             (case semver_lt nextVersion latest of
                Inl e \<Rightarrow> Inl e
              | Inr lower \<Rightarrow>
                  (if lower
                   then Inr (Rejected (''Version '' @ nextVersion @ '' is lower than latest '' @ latest))
                   else Inr Allowed))))"

section \<open>Agent files and migration plans\<close>

text \<open>
  The TypeScript interfaces \<^verbatim>\<open>MigrationStep\<close>, \<^verbatim>\<open>MigrationSpec\<close> and \<^verbatim>\<open>AgentFile\<close>.
  A field typed as a required string is a \<open>string\<close>, with the empty string as its one
  falsy value; a field marked optional is an \<open>option\<close>. The steps of a migration are
  an \<open>option\<close> as well: \<^verbatim>\<open>validateAgentFile\<close> accepts a migration without \<^verbatim>\<open>steps\<close>, so
  such a migration can be stored and reach the planner. The keyword-named fields
  \<^verbatim>\<open>type\<close>, \<^verbatim>\<open>from\<close>, \<^verbatim>\<open>to\<close> carry a prefix. Of \<^verbatim>\<open>persona.variables_schema\<close> the
  function reads the list \<^verbatim>\<open>required\<close> only, which is \<open>None\<close> when the schema or the list
  is absent.
\<close>

datatype step_type = json_patch | script

record MigrationStep =
  step_type :: step_type
  step_description :: "string option"
  step_patch :: "json option"
  step_script :: "string option"

record MigrationSpec =
  m_from :: string
  m_to :: string
  m_steps :: "MigrationStep list option"

record AgentFile =
  af_version :: string
  template_id :: string
  template_name :: string
  template_version :: string
  engine_model :: string
  engine_embedding :: string
  engine_hyperparams :: "json option"
  persona_system_prompt :: string
  persona_variables_required :: "string list option"
  tools :: "json option"
  init_messages :: "json option"
  migrations :: "MigrationSpec list option"

text \<open>Truthiness of an optional JSON value (\<^verbatim>\<open>!step.patch\<close>).\<close>

fun json_truthy :: "json option \<Rightarrow> bool" where
  "json_truthy None = False"
| "json_truthy (Some JNull) = False"
| "json_truthy (Some (JBool b)) = b"
| "json_truthy (Some (JNum n)) = (n \<noteq> 0)"
| "json_truthy (Some (JStr s)) = (s \<noteq> [])"
| "json_truthy (Some (JArr xs)) = True"
| "json_truthy (Some (JObj kvs)) = True"

subsection \<open>MigrationPlanner: buildMigrationPlan\<close>

text \<open>
  The \<^verbatim>\<open>while\<close> loop of \<^verbatim>\<open>buildMigrationPlan\<close>, with its three variables: the current
  \<open>version\<close>, the \<open>guard\<close> set (as the list of versions added so far) and the \<open>path\<close>
  collected so far. Spreading the steps of a migration that has none throws a
  \<^verbatim>\<open>TypeError\<close>. Each round that continues adds to \<open>guard\<close> a version that some
  migration starts from and that was not in \<open>guard\<close> before, which bounds the number of
  rounds by the number of migrations.
\<close>

function plan_loop ::
  "MigrationSpec list \<Rightarrow> string \<Rightarrow> string \<Rightarrow> string list \<Rightarrow> MigrationStep list
     \<Rightarrow> error + MigrationStep list" where
  "plan_loop migs targetVersion version guard path =
     (if version \<noteq> targetVersion then
        (if version \<in> set guard then Inl (Error ''Circular migration plan detected'')
         else
           (case find (\<lambda>m. m_from m = version) migs of
              None \<Rightarrow>
                Inl (Error (''No migration step found from '' @ version @ '' towards '' @ targetVersion))
            | Some step \<Rightarrow>
                (case m_steps step of
                   None \<Rightarrow>
                     Inl (Error ''Spread syntax requires ...iterable[Symbol.iterator] to be a function'')
                 | Some steps \<Rightarrow>
                     plan_loop migs targetVersion (m_to step) (version # guard) (path @ steps))))
      else Inr path)"
  by pat_completeness auto
termination
proof (relation "measure (\<lambda>(migs, targetVersion, version, guard, path).
                   card (m_from ` set migs - set guard))")
  show "wf (measure (\<lambda>(migs, targetVersion, version, guard, path).
                   card (m_from ` set migs - set guard)))"
    by simp
next
  fix migs :: "MigrationSpec list" and targetVersion version :: string
    and guard :: "string list" and path steps :: "MigrationStep list" and step :: MigrationSpec
  assume fresh: "version \<notin> set guard"
    and found: "find (\<lambda>m. m_from m = version) migs = Some step"
  from found have "version \<in> m_from ` set migs"
    by (auto simp: find_Some_iff)
  with fresh have "m_from ` set migs - set (version # guard) \<subset> m_from ` set migs - set guard"
    by auto
  then have "card (m_from ` set migs - set (version # guard)) < card (m_from ` set migs - set guard)"
    by (intro psubset_card_mono) auto
  then show "((migs, targetVersion, m_to step, version # guard, path @ steps),
              (migs, targetVersion, version, guard, path))
             \<in> measure (\<lambda>(migs, targetVersion, version, guard, path).
                   card (m_from ` set migs - set guard))"
    by simp
qed

definition buildMigrationPlan ::
  "string \<Rightarrow> string \<Rightarrow> MigrationSpec list \<Rightarrow> error + MigrationStep list" where
  "buildMigrationPlan currentVersion targetVersion migs =
     (if currentVersion = targetVersion then Inr []
      else plan_loop migs targetVersion currentVersion [] [])"

text \<open>
  The walk that the planner takes, as a relation: \<open>follow migs t v vis steps u\<close> says that
  the walk from \<open>v\<close> towards the target \<open>t\<close> leaves the versions \<open>vis\<close> in this order,
  each of them other than \<open>t\<close> and each by the first migration that starts from it,
  which carries a list of steps, that it collects \<open>steps\<close> on the way, and that it stands
  at \<open>u\<close> then.
\<close>

inductive follow ::
  "MigrationSpec list \<Rightarrow> string \<Rightarrow> string \<Rightarrow> string list \<Rightarrow> MigrationStep list \<Rightarrow> string
     \<Rightarrow> bool" for migs :: "MigrationSpec list" and t :: string where
  follow_here: "follow migs t v [] [] v"
| follow_step:
    "v \<noteq> t \<Longrightarrow> find (\<lambda>m. m_from m = v) migs = Some m \<Longrightarrow> m_steps m = Some steps
     \<Longrightarrow> follow migs t (m_to m) vis rest u
     \<Longrightarrow> follow migs t v (v # vis) (steps @ rest) u"

code_pred follow .


subsection \<open>DryRunEngine: performDryRun\<close>

text \<open>
  An agent configuration is a JSON object: its members in order. Assigning a member
  replaces the value in place or appends the member (\<open>AList.update\<close>).

  \<^verbatim>\<open>applyPatch\<close> of the package \<^verbatim>\<open>fast-json-patch\<close> is an import, not code of the
  repository; \<^verbatim>\<open>performDryRun\<close> takes it as the parameter \<open>applyPatch\<close>, which returns the
  patched document or the error it throws.
\<close>

type_synonym config = "(string \<times> json) list"

record DryRunResult =
  diff :: "json list"
  warnings :: "string list"
  updatedConfig :: config

text \<open>\<^verbatim>\<open>step.patch ?? []\<close>\<close>

definition patch_or_empty :: "json option \<Rightarrow> json" where
  "patch_or_empty p = (case p of None \<Rightarrow> JArr [] | Some JNull \<Rightarrow> JArr [] | Some j \<Rightarrow> j)"

fun dry_run_steps ::
  "(config \<Rightarrow> json \<Rightarrow> error + config) \<Rightarrow> MigrationStep list \<Rightarrow> config \<Rightarrow> string list
     \<Rightarrow> error + (config \<times> string list)" where
  "dry_run_steps applyPatch [] cfg warns = Inr (cfg, warns)"
| "dry_run_steps applyPatch (step # plan) cfg warns =
     (case step_type step of
        json_patch \<Rightarrow>
          (case applyPatch cfg (patch_or_empty (step_patch step)) of
             Inl e \<Rightarrow> Inl e
           | Inr cfg' \<Rightarrow> dry_run_steps applyPatch plan cfg' warns)
      | script \<Rightarrow>
          dry_run_steps applyPatch plan cfg
            (warns @ [''Script step executed in dry-run only: '' @
                      (case step_description step of
                         None \<Rightarrow> ''no description''
                       | Some d \<Rightarrow> d)]))"

text \<open>A template literal renders an unset variable as \<^verbatim>\<open>undefined\<close>.\<close>

definition billing_endpoint :: "string option \<Rightarrow> string \<Rightarrow> string" where
  "billing_endpoint zuplo userId =
     (case zuplo of None \<Rightarrow> ''undefined'' | Some u \<Rightarrow> u) @ ''/api/v1/agents/'' @ userId @ ''/messages''"

definition set_entry :: "string \<Rightarrow> string \<Rightarrow> json" where
  "set_entry path v = JObj [(''op'', JStr ''set''), (''path'', JStr path), (''value'', JStr v)]"

definition performDryRun ::
  "(config \<Rightarrow> json \<Rightarrow> error + config) \<Rightarrow> string option \<Rightarrow> MigrationStep list \<Rightarrow> config
     \<Rightarrow> string \<Rightarrow> error + DryRunResult" where
  "performDryRun applyPatch zuplo plan currentConfig userId =
     (case dry_run_steps applyPatch plan currentConfig [] of
        Inl e \<Rightarrow> Inl e
      | Inr (cfg, warns) \<Rightarrow>
          (let endpoint = billing_endpoint zuplo userId
           in Inr \<lparr> diff = [set_entry ''/model_endpoint'' endpoint,
                             set_entry ''/embedding_endpoint'' endpoint],
                    warnings = warns,
                    updatedConfig =
                      AList.update ''embedding_endpoint'' (JStr endpoint)
                        (AList.update ''model_endpoint'' (JStr endpoint) cfg) \<rparr>))"

section \<open>The store and the external services\<close>

text \<open>
  The tables of the relational store, with the columns the function reads or writes
  (the timestamp columns are filled by the database clock and are left out). A table is
  the list of its rows in insertion order. The primary keys of the schema are
  \<open>(template_id, version)\<close> on \<^verbatim>\<open>af_versions\<close>, \<open>agent_id\<close> on \<^verbatim>\<open>agent_instances\<close> and
  \<open>idempotency_key\<close> on \<^verbatim>\<open>request_dedup\<close>. Store calls fail only by violating a
  constraint: outages of the store are outside the model.
\<close>

record version_row =
  v_template_id :: string
  v_version :: string
  v_af_source :: string
  v_checksum :: string
  v_is_latest :: bool
  v_published_by :: "string option"

record instance_row =
  i_agent_id :: string
  i_user_id :: string
  i_template_id :: string
  i_version :: string
  i_variables :: json

record migration_row =
  g_agent_id :: string
  g_from_version :: string
  g_to_version :: string
  g_dry_run :: bool
  g_plan :: "MigrationStep list"
  g_diff :: "json list"
  g_status :: string
  g_error :: "string option"

record upgrade_job =
  j_agent_id :: string
  j_user_id :: string
  j_from_version :: string
  j_to_version :: string
  j_plan :: "MigrationStep list"

record user_profile_row =
  u_id :: string
  u_letta_agent_id :: "string option"

text \<open>
  The payload of a create or an upgrade request: the request body as it was parsed
  (\<open>p_body\<close>, \<open>u_body\<close>), which is what the handlers fingerprint, and the fields of it
  that the handlers read.
\<close>

record CreateAgentInput =
  p_body :: json
  p_template_id :: string
  p_version :: "string option"
  p_use_latest :: "bool option"
  p_variables :: "(string \<times> json) list option"
  p_agent_name :: "string option"

record UpgradeAgentInput =
  u_body :: json
  target_version :: "string option"
  use_latest :: "bool option"
  allow_minor_auto :: "bool option"
  dry_run :: "bool option"
  use_queue :: "bool option"

text \<open>
  The state the handlers run in: the configuration read from the environment at start-up,
  the tables (with the ids of \<^verbatim>\<open>auth.users\<close>, which \<^verbatim>\<open>user_profiles\<close> refers to), the queue
  \<^verbatim>\<open>upgrade_jobs\<close>, the storage bucket \<^verbatim>\<open>af-templates\<close>, and the lists of \<^verbatim>\<open>POST\<close> and
  \<^verbatim>\<open>PATCH\<close> requests sent to the remote agent API so far.
\<close>

record world =
  supabase_client :: bool
  ZUPLO_BASE_URL :: "string option"
  LETTA_API_KEY :: "string option"
  af_templates :: "string list"
  af_versions :: "version_row list"
  agent_instances :: "instance_row list"
  agent_migrations :: "migration_row list"
  request_dedup :: "(string \<times> string) list"
  upgrade_jobs :: "upgrade_job list"
  af_cache :: "(string \<times> string) list"
  user_profiles :: "user_profile_row list"
  auth_users :: "string list"
  letta_creates :: "config list"
  letta_updates :: "(string \<times> config) list"

text \<open>
  What the function imports or calls over the network, as parameters: the SHA-256 digest,
  the JSON and YAML parsers (\<open>None\<close> from \<open>JSON_parse\<close> is its \<^verbatim>\<open>SyntaxError\<close>; a parsed value
  that is not an object is \<open>None\<close> inside), \<^verbatim>\<open>JSON.stringify\<close>, \<^verbatim>\<open>applyPatch\<close>, and the
  answers of the remote agent API (a created agent is answered with its id and its JSON).
\<close>

datatype 'a http_result = HttpOk 'a | HttpNotOk nat string | HttpFailed string

record ext =
  sha256 :: "string \<Rightarrow> string"
  JSON_parse :: "string \<Rightarrow> AgentFile option option"
  YAML_parse :: "string \<Rightarrow> error + AgentFile option"
  JSON_stringify :: "json \<Rightarrow> string"
  applyPatch :: "config \<Rightarrow> json \<Rightarrow> error + config"
  letta_post :: "config \<Rightarrow> (string \<times> json) http_result"
  letta_get :: "string \<Rightarrow> config http_result"
  letta_patch :: "string \<Rightarrow> config \<Rightarrow> json http_result"

text \<open>What a handler answers: \<^verbatim>\<open>jsonResponse(body, status)\<close>.\<close>

datatype response =
    ErrorResponse nat string
  | ValidationFailed "string list"
  | PublishResponse string string string string bool
  | CreateResponse json string
  | DryRunResponse "MigrationStep list" "json list" "string list"
  | QueuedResponse "MigrationStep list"
  | AppliedResponse json "MigrationStep list" "json list"

text \<open>
  \<^verbatim>\<open>JSON.stringify({ payload, userId })\<close> and \<^verbatim>\<open>JSON.stringify({ payload, agentId })\<close>, the
  texts that the create and the upgrade handler fingerprint.
\<close>

definition JSON_stringify_create :: "ext \<Rightarrow> CreateAgentInput \<Rightarrow> string \<Rightarrow> string" where
  "JSON_stringify_create x payload userId =
     JSON_stringify x (JObj [(''payload'', p_body payload), (''userId'', JStr userId)])"

definition JSON_stringify_upgrade :: "ext \<Rightarrow> UpgradeAgentInput \<Rightarrow> string \<Rightarrow> string" where
  "JSON_stringify_upgrade x payload agentId =
     JSON_stringify x (JObj [(''payload'', u_body payload), (''agentId'', JStr agentId)])"

text \<open>The \<^verbatim>\<open>catch\<close> block shared by the handlers.\<close>

definition catch_response :: "error \<Rightarrow> response" where
  "catch_response e =
     (case e of
        IdempotencyError m \<Rightarrow> ErrorResponse 409 m
      | Error m \<Rightarrow> ErrorResponse 500 m)"

fun string_of_nat :: "nat \<Rightarrow> string" where
  "string_of_nat n =
     (if n < 10 then [char_of (48 + n)]
      else string_of_nat (n div 10) @ [char_of (48 + n mod 10)])"

subsection \<open>IdempotencyGuard: ensureIdempotency\<close>

definition ensureIdempotency :: "ext \<Rightarrow> world \<Rightarrow> string option \<Rightarrow> string \<Rightarrow> error + world" where
  "ensureIdempotency x w key payloadHashSource =
     (if \<not> supabase_client w then Inr w
      else if \<not> truthy key then Inr w
      else
        (let checksum = sha256 x payloadHashSource
         in (case map_of (request_dedup w) (the key) of
               Some stored \<Rightarrow>
                 (if stored \<noteq> checksum
                  then Inl (IdempotencyError ''Idempotency key re-used with different payload'')
                  else Inl (IdempotencyError ''Duplicate request''))
             | None \<Rightarrow> Inr (w\<lparr>request_dedup := request_dedup w @ [(the key, checksum)]\<rparr>))))"

subsection \<open>parseAgentFile and validateAgentFile\<close>

definition parseAgentFile :: "ext \<Rightarrow> string \<Rightarrow> error + (string \<times> AgentFile \<times> string)" where
  "parseAgentFile x rawBody =
     (if rawBody = [] then Inl (Error ''Empty body'')
      else
        (case (case JSON_parse x rawBody of
                 Some parsed \<Rightarrow> Inr (parsed, ''json'')
               | None \<Rightarrow>
                   (case YAML_parse x rawBody of
                      Inl e \<Rightarrow> Inl e
                    | Inr parsed \<Rightarrow> Inr (parsed, ''yaml''))) of
           Inl e \<Rightarrow> Inl e
         | Inr (None, format) \<Rightarrow> Inl (Error ''Invalid Agent File content'')
         | Inr (Some agentFile, format) \<Rightarrow> Inr (rawBody, agentFile, format)))"

definition step_errors :: "MigrationSpec \<Rightarrow> MigrationStep \<Rightarrow> string list" where
  "step_errors migration step =
     (if step_type step = json_patch \<and> \<not> json_truthy (step_patch step)
      then [''Migration '' @ m_from migration @ ''->'' @ m_to migration @ '' missing patch'']
      else []) @
     (if step_type step = script \<and> \<not> truthy (step_script step)
      then [''Migration '' @ m_from migration @ ''->'' @ m_to migration @ '' missing script'']
      else [])"

definition migration_errors :: "MigrationSpec \<Rightarrow> string list" where
  "migration_errors migration =
     (if m_from migration = [] \<or> m_to migration = []
      then [''Migration entries must include from and to versions''] else []) @
     (case m_steps migration of
        None \<Rightarrow> []
      | Some steps \<Rightarrow> concat (map (step_errors migration) steps))"

record validation =
  valid :: bool
  errors :: "string list"
  publishedBy :: "string option"

definition validateAgentFile :: "AgentFile \<Rightarrow> validation" where
  "validateAgentFile agentFile =
     (let errs =
        (if af_version agentFile = [] then [''af_version is required''] else []) @
        (if template_id agentFile = [] then [''template.id is required''] else []) @
        (if template_version agentFile = [] then [''template.version is required''] else []) @
        (if persona_system_prompt agentFile = [] then [''persona.system_prompt is required''] else []) @
        (if engine_model agentFile = [] then [''engine.model is required''] else []) @
        (if engine_embedding agentFile = [] then [''engine.embedding is required''] else []) @
        (if template_version agentFile \<noteq> [] \<and> \<not> semver_valid (template_version agentFile)
         then [''template.version '' @ template_version agentFile @ '' is not valid SemVer'']
         else []) @
        (case migrations agentFile of
           None \<Rightarrow> []
         | Some ms \<Rightarrow> concat (map migration_errors ms))
      in \<lparr> valid = (errs = []), errors = errs, publishedBy = None \<rparr>)"

subsection \<open>VersionStore: resolveTemplateVersion and handlePublishTemplate\<close>

text \<open>
  \<^verbatim>\<open>maybeSingle()\<close> yields no data for an empty result, the row for a single one, and
  an error for several rows.
\<close>

definition resolveTemplateVersion ::
  "ext \<Rightarrow> world \<Rightarrow> string \<Rightarrow> string option \<Rightarrow> bool \<Rightarrow> error + (AgentFile \<times> string)" where
  "resolveTemplateVersion x w templateId version useLatest =
     (if \<not> supabase_client w then Inl (Error ''Supabase not initialised'')
      else
        (case (if truthy version
               then Inr (filter (\<lambda>r. v_template_id r = templateId \<and> v_version r = the version)
                           (af_versions w))
               else if useLatest
               then Inr (filter (\<lambda>r. v_template_id r = templateId \<and> v_is_latest r)
                           (af_versions w))
               else Inl (Error ''Either version or use_latest must be provided'')) of
           Inl e \<Rightarrow> Inl e
         | Inr [] \<Rightarrow> Inl (Error ''Template version not found'')
         | Inr [row] \<Rightarrow>
             (case parseAgentFile x (v_af_source row) of
                Inl e \<Rightarrow> Inl e
              | Inr (raw, parsed, format) \<Rightarrow> Inr (parsed, v_af_source row))
         | Inr (row # row' # rows) \<Rightarrow>
             Inl (Error ''JSON object requested, multiple (or no) rows returned'')))"

definition cacheAgentFile :: "world \<Rightarrow> string \<Rightarrow> string \<Rightarrow> string \<Rightarrow> world" where
  "cacheAgentFile w templateId version raw =
     (if \<not> supabase_client w then w
      else w\<lparr>af_cache := AList.update (templateId @ ''/'' @ version @ ''.af'') raw (af_cache w)\<rparr>)"

text \<open>
  The part of \<^verbatim>\<open>handlePublishTemplate\<close> that follows the idempotency guard: validation,
  the SemVer gate, and the writes to the store and the cache.
\<close>

definition publishAfterGuard ::
  "ext \<Rightarrow> world \<Rightarrow> string \<Rightarrow> AgentFile \<Rightarrow> string \<Rightarrow> world \<times> response" where
  "publishAfterGuard x w1 raw agentFile format =
     (let validation = validateAgentFile agentFile in
      if \<not> valid validation then (w1, ValidationFailed (errors validation))
      else
        (let templateId = template_id agentFile;
             version = template_version agentFile;
             existingVersions =
               map v_version (filter (\<lambda>r. v_template_id r = templateId) (af_versions w1))
         in
        (case assessSemver version existingVersions of
           Inl e \<Rightarrow> (w1, catch_response e)
         | Inr (Rejected message) \<Rightarrow> (w1, ErrorResponse 400 message)
         | Inr Allowed \<Rightarrow>
        (let checksum = sha256 x raw;
             w2 = w1\<lparr>af_templates :=
                       (if templateId \<in> set (af_templates w1) then af_templates w1
                        else af_templates w1 @ [templateId])\<rparr>
         in
         if \<exists>r \<in> set (af_versions w2). v_template_id r = templateId \<and> v_version r = version
         then (w2, ErrorResponse 409 ''Version already exists'')
         else
        (let w3 = w2\<lparr>af_versions := af_versions w2 @
                       [\<lparr> v_template_id = templateId, v_version = version, v_af_source = raw,
                          v_checksum = checksum, v_is_latest = True,
                          v_published_by = publishedBy validation \<rparr>]\<rparr>;
             w4 = w3\<lparr>af_versions :=
                       map (\<lambda>r. if v_template_id r = templateId \<and> v_version r \<noteq> version
                                then r\<lparr>v_is_latest := False\<rparr> else r)
                           (af_versions w3)\<rparr>;
             w5 = cacheAgentFile w4 templateId version raw
         in (w5, PublishResponse format templateId version checksum True))))))"

definition handlePublishTemplate ::
  "ext \<Rightarrow> world \<Rightarrow> string \<Rightarrow> string option \<Rightarrow> world \<times> response" where
  "handlePublishTemplate x w rawBody idempotencyKey =
     (if \<not> supabase_client w then (w, ErrorResponse 500 ''Supabase client not initialised'')
      else
        (case parseAgentFile x rawBody of
           Inl e \<Rightarrow> (w, catch_response e)
         | Inr (raw, agentFile, format) \<Rightarrow>
             (case ensureIdempotency x w idempotencyKey rawBody of
                Inl e \<Rightarrow> (w, catch_response e)
              | Inr w1 \<Rightarrow> publishAfterGuard x w1 raw agentFile format)))"

subsection \<open>handleCreateAgent\<close>

text \<open>
  \<^verbatim>\<open>key in variables\<close> also holds for the names every object inherits from
  \<^verbatim>\<open>Object.prototype\<close>.
\<close>

definition object_prototype_keys :: "string list" where
  "object_prototype_keys =
     [''constructor'', ''__defineGetter__'', ''__defineSetter__'', ''hasOwnProperty'',
      ''__lookupGetter__'', ''__lookupSetter__'', ''isPrototypeOf'', ''propertyIsEnumerable'',
      ''toString'', ''valueOf'', ''__proto__'', ''toLocaleString'']"

fun join :: "string \<Rightarrow> string list \<Rightarrow> string" where
  "join sep [] = []"
| "join sep [s] = s"
| "join sep (s # t # ss) = s @ sep @ join sep (t # ss)"

definition validateTemplateVariables ::
  "AgentFile \<Rightarrow> (string \<times> json) list \<Rightarrow> error + unit" where
  "validateTemplateVariables agentFile variables =
     (case persona_variables_required agentFile of
        None \<Rightarrow> Inr ()
      | Some required \<Rightarrow>
          (let missing = filter (\<lambda>key. key \<notin> set (map fst variables)
                                       \<and> key \<notin> set object_prototype_keys) required
           in if missing \<noteq> []
              then Inl (Error (''Missing required variables: '' @ join '', '' missing))
              else Inr ()))"

text \<open>\<^verbatim>\<open>value ?? fallback\<close>\<close>

definition json_or :: "json option \<Rightarrow> json \<Rightarrow> json" where
  "json_or v fallback = (case v of None \<Rightarrow> fallback | Some JNull \<Rightarrow> fallback | Some j \<Rightarrow> j)"

definition buildAgentConfigFromTemplate :: "world \<Rightarrow> AgentFile \<Rightarrow> string \<Rightarrow> error + config" where
  "buildAgentConfigFromTemplate w agentFile userId =
     (if \<not> truthy (ZUPLO_BASE_URL w) then Inl (Error ''Missing Zuplo base URL'')
      else
        (let endpoint = billing_endpoint (ZUPLO_BASE_URL w) userId
         in Inr [(''model'', JStr (engine_model agentFile)),
                 (''embedding'', JStr (engine_embedding agentFile)),
                 (''model_endpoint'', JStr endpoint),
                 (''embedding_endpoint'', JStr endpoint),
                 (''hyperparams'', json_or (engine_hyperparams agentFile) (JObj [])),
                 (''system_prompt'', JStr (persona_system_prompt agentFile)),
                 (''tools'', json_or (tools agentFile) (JArr [])),
                 (''init_messages'', json_or (init_messages agentFile) (JArr []))]))"

definition createLettaAgent ::
  "ext \<Rightarrow> world \<Rightarrow> config \<Rightarrow> world \<times> (error + string \<times> json)" where
  "createLettaAgent x w cfg =
     (if \<not> truthy (LETTA_API_KEY w) then (w, Inl (Error ''Missing Letta API key''))
      else
        (let w' = w\<lparr>letta_creates := letta_creates w @ [cfg]\<rparr>
         in (case letta_post x cfg of
               HttpFailed m \<Rightarrow> (w', Inl (Error m))
             | HttpNotOk status body \<Rightarrow>
                 (w', Inl (Error (''Letta create agent failed: '' @ string_of_nat status
                                  @ '' '' @ body)))
             | HttpOk agent \<Rightarrow> (w', Inr agent))))"

text \<open>
  The upsert into \<^verbatim>\<open>agent_instances\<close>: the row with the agent's id is replaced, or the
  row is appended. The table refers to \<^verbatim>\<open>af_templates\<close> by \<open>template_id\<close>.
\<close>

definition upsertAgentInstance :: "world \<Rightarrow> instance_row \<Rightarrow> error + world" where
  \<open>upsertAgentInstance w row =
     (if i_template_id row \<notin> set (af_templates w)
      then Inl (Error (''insert or update on table "agent_instances" violates foreign key ''
                       @ ''constraint "agent_instances_template_id_fkey"''))
      else if \<exists>r \<in> set (agent_instances w). i_agent_id r = i_agent_id row
      then Inr (w\<lparr>agent_instances :=
                    map (\<lambda>r. if i_agent_id r = i_agent_id row then row else r)
                        (agent_instances w)\<rparr>)
      else Inr (w\<lparr>agent_instances := agent_instances w @ [row]\<rparr>))\<close>

text \<open>
  \<^verbatim>\<open>user_profiles\<close> has the primary key \<open>id\<close>, which refers to \<^verbatim>\<open>auth.users\<close>, and a
  unique \<open>letta_agent_id\<close>.
\<close>

definition upsertUserProfileAgent :: "world \<Rightarrow> string \<Rightarrow> string \<Rightarrow> error + world" where
  \<open>upsertUserProfileAgent w userId agentId =
     (if \<not> supabase_client w then Inr w
      else if \<exists>r \<in> set (user_profiles w). u_id r \<noteq> userId \<and> u_letta_agent_id r = Some agentId
      then Inl (Error (''duplicate key value violates unique constraint ''
                       @ ''"user_profiles_letta_agent_id_key"''))
      else
        (case find (\<lambda>r. u_id r = userId) (user_profiles w) of
           Some existing \<Rightarrow>
             Inr (w\<lparr>user_profiles :=
                      map (\<lambda>r. if u_id r = userId then r\<lparr>u_letta_agent_id := Some agentId\<rparr> else r)
                          (user_profiles w)\<rparr>)
         | None \<Rightarrow>
             (if userId \<notin> set (auth_users w)
              then Inl (Error (''insert or update on table "user_profiles" violates foreign key ''
                               @ ''constraint "user_profiles_id_fkey"''))
              else Inr (w\<lparr>user_profiles := user_profiles w @
                             [\<lparr> u_id = userId, u_letta_agent_id = Some agentId \<rparr>]\<rparr>))))\<close>

text \<open>The part of \<^verbatim>\<open>handleCreateAgent\<close> that follows the idempotency guard.\<close>

definition createAfterGuard ::
  "ext \<Rightarrow> world \<Rightarrow> CreateAgentInput \<Rightarrow> string \<Rightarrow> world \<times> response" where
  "createAfterGuard x w1 payload userId =
     (case resolveTemplateVersion x w1 (p_template_id payload) (p_version payload)
             (case p_use_latest payload of None \<Rightarrow> False | Some b \<Rightarrow> b) of
        Inl e \<Rightarrow> (w1, catch_response e)
      | Inr (template, raw) \<Rightarrow>
     (let variables = (case p_variables payload of None \<Rightarrow> [] | Some vs \<Rightarrow> vs) in
     (case validateTemplateVariables template variables of
        Inl e \<Rightarrow> (w1, catch_response e)
      | Inr u \<Rightarrow>
     (case buildAgentConfigFromTemplate w1 template userId of
        Inl e \<Rightarrow> (w1, catch_response e)
      | Inr built \<Rightarrow>
     (let cfg = (if truthy (p_agent_name payload)
                 then AList.update ''name'' (JStr (the (p_agent_name payload))) built
                 else built) in
     (case createLettaAgent x w1 cfg of
        (w2, Inl e) \<Rightarrow> (w2, catch_response e)
      | (w2, Inr (agentId, agent)) \<Rightarrow>
     (case upsertAgentInstance w2
             \<lparr> i_agent_id = agentId, i_user_id = userId,
               i_template_id = template_id template, i_version = template_version template,
               i_variables = JObj variables \<rparr> of
        Inl e \<Rightarrow> (w2, catch_response e)
      | Inr w3 \<Rightarrow>
     (case upsertUserProfileAgent w3 userId agentId of
        Inl e \<Rightarrow> (w3, catch_response e)
      | Inr w4 \<Rightarrow> (w4, CreateResponse agent (sha256 x raw))))))))))"

definition handleCreateAgent ::
  "ext \<Rightarrow> world \<Rightarrow> CreateAgentInput \<Rightarrow> string \<Rightarrow> string option \<Rightarrow> world \<times> response" where
  "handleCreateAgent x w payload userId idempotencyKey =
     (if \<not> supabase_client w then (w, ErrorResponse 500 ''Supabase client not initialised'')
      else if \<not> truthy (ZUPLO_BASE_URL w) then (w, ErrorResponse 500 ''Missing Zuplo base URL'')
      else
        (case ensureIdempotency x w idempotencyKey (JSON_stringify_create x payload userId) of
           Inl e \<Rightarrow> (w, catch_response e)
         | Inr w1 \<Rightarrow> createAfterGuard x w1 payload userId))"

subsection \<open>UpgradeDispatcher: handleUpgradeAgent\<close>

definition fetchLettaAgent :: "ext \<Rightarrow> world \<Rightarrow> string \<Rightarrow> error + config" where
  "fetchLettaAgent x w agentId =
     (if \<not> truthy (LETTA_API_KEY w) then Inl (Error ''Missing Letta API key'')
      else
        (case letta_get x agentId of
           HttpFailed m \<Rightarrow> Inl (Error m)
         | HttpNotOk status body \<Rightarrow>
             Inl (Error (''Failed to fetch agent '' @ agentId @ '': '' @ string_of_nat status
                         @ '' '' @ body))
         | HttpOk cfg \<Rightarrow> Inr cfg))"

definition updateLettaAgent ::
  "ext \<Rightarrow> world \<Rightarrow> string \<Rightarrow> config \<Rightarrow> world \<times> (error + json)" where
  "updateLettaAgent x w agentId cfg =
     (if \<not> truthy (LETTA_API_KEY w) then (w, Inl (Error ''Missing Letta API key''))
      else
        (let w' = w\<lparr>letta_updates := letta_updates w @ [(agentId, cfg)]\<rparr>
         in (case letta_patch x agentId cfg of
               HttpFailed m \<Rightarrow> (w', Inl (Error m))
             | HttpNotOk status body \<Rightarrow>
                 (w', Inl (Error (''Failed to update agent '' @ agentId @ '': ''
                                  @ string_of_nat status @ '' '' @ body)))
             | HttpOk agent \<Rightarrow> (w', Inr agent))))"

definition logMigration ::
  "world \<Rightarrow> string \<Rightarrow> string \<Rightarrow> string \<Rightarrow> bool \<Rightarrow> MigrationStep list \<Rightarrow> json list \<Rightarrow> world" where
  "logMigration w agentId fromVersion toVersion dryRun plan d =
     (if \<not> supabase_client w then w
      else w\<lparr>agent_migrations := agent_migrations w @
               [\<lparr> g_agent_id = agentId, g_from_version = fromVersion, g_to_version = toVersion,
                  g_dry_run = dryRun, g_plan = plan, g_diff = d,
                  g_status = (if dryRun then ''dry_run'' else ''applied''),
                  g_error = None \<rparr>]\<rparr>)"

definition enqueueUpgradeJob :: "world \<Rightarrow> upgrade_job \<Rightarrow> error + world" where
  "enqueueUpgradeJob w job =
     (if \<not> supabase_client w then Inl (Error ''Supabase not initialised'')
      else Inr (w\<lparr>upgrade_jobs := upgrade_jobs w @ [job]\<rparr>))"

text \<open>
  The last part of \<^verbatim>\<open>handleUpgradeAgent\<close>, from the test of \<^verbatim>\<open>payload.dry_run ?? true\<close>
  on: the choice between answering the dry run, queueing the job and applying the
  update.
\<close>

definition dispatchUpgrade ::
  "ext \<Rightarrow> world \<Rightarrow> string \<Rightarrow> UpgradeAgentInput \<Rightarrow> instance_row \<Rightarrow> AgentFile
     \<Rightarrow> MigrationStep list \<Rightarrow> DryRunResult \<Rightarrow> world \<times> response" where
  "dispatchUpgrade x w1 agentId payload agentRecord template plan dryRunResult =
     (if (case dry_run payload of None \<Rightarrow> True | Some b \<Rightarrow> b)
      then (logMigration w1 agentId (i_version agentRecord) (template_version template)
              True plan (diff dryRunResult),
            DryRunResponse plan (diff dryRunResult) (warnings dryRunResult))
      else if use_queue payload = Some True
      then (case enqueueUpgradeJob w1
                   \<lparr> j_agent_id = agentId, j_user_id = i_user_id agentRecord,
                     j_from_version = i_version agentRecord,
                     j_to_version = template_version template, j_plan = plan \<rparr> of
              Inl e \<Rightarrow> (w1, catch_response e)
            | Inr w2 \<Rightarrow> (w2, QueuedResponse plan))
      else
        (case updateLettaAgent x w1 agentId (updatedConfig dryRunResult) of
           (w2, Inl e) \<Rightarrow> (w2, catch_response e)
         | (w2, Inr applied) \<Rightarrow>
             (let w3 = w2\<lparr>agent_instances :=
                            map (\<lambda>r. if i_agent_id r = agentId
                                     then r\<lparr>i_version := template_version template\<rparr> else r)
                                (agent_instances w2)\<rparr>
              in (logMigration w3 agentId (i_version agentRecord) (template_version template)
                    False plan (diff dryRunResult),
                  AppliedResponse applied plan (diff dryRunResult)))))"

definition handleUpgradeAgent ::
  "ext \<Rightarrow> world \<Rightarrow> string \<Rightarrow> UpgradeAgentInput \<Rightarrow> string option \<Rightarrow> string option
     \<Rightarrow> world \<times> response" where
  "handleUpgradeAgent x w agentId payload userId idempotencyKey =
     (if \<not> supabase_client w then (w, ErrorResponse 500 ''Supabase client not initialised'')
      else if \<not> truthy (ZUPLO_BASE_URL w) then (w, ErrorResponse 500 ''Missing Zuplo base URL'')
      else
        (case ensureIdempotency x w idempotencyKey (JSON_stringify_upgrade x payload agentId) of
           Inl e \<Rightarrow> (w, catch_response e)
         | Inr w1 \<Rightarrow>
        (case find (\<lambda>r. i_agent_id r = agentId) (agent_instances w1) of
           None \<Rightarrow> (w1, ErrorResponse 404 ''Agent not found'')
         | Some agentRecord \<Rightarrow>
        (if truthy userId \<and> the userId \<noteq> i_user_id agentRecord
         then (w1, ErrorResponse 403 ''Forbidden'')
         else
        (case resolveTemplateVersion x w1 (i_template_id agentRecord) (target_version payload)
                (case use_latest payload of None \<Rightarrow> True | Some b \<Rightarrow> b) of
           Inl e \<Rightarrow> (w1, catch_response e)
         | Inr (template, raw) \<Rightarrow>
        (case buildMigrationPlan (i_version agentRecord) (template_version template)
                (case migrations template of None \<Rightarrow> [] | Some ms \<Rightarrow> ms) of
           Inl e \<Rightarrow> (w1, catch_response e)
         | Inr plan \<Rightarrow>
        (case fetchLettaAgent x w1 agentId of
           Inl e \<Rightarrow> (w1, catch_response e)
         | Inr currentConfig \<Rightarrow>
        (case performDryRun (applyPatch x) (ZUPLO_BASE_URL w1) plan currentConfig
                (i_user_id agentRecord) of
           Inl e \<Rightarrow> (w1, catch_response e)
         | Inr dryRunResult \<Rightarrow>
             dispatchUpgrade x w1 agentId payload agentRecord template plan dryRunResult))))))))"

text \<open>Two states that differ at most in the table \<^verbatim>\<open>request_dedup\<close>.\<close>

definition same_but_dedup :: "world \<Rightarrow> world \<Rightarrow> bool" where
  "same_but_dedup w w' = (w' = w\<lparr>request_dedup := request_dedup w'\<rparr>)"

section \<open>The specification's reading of the diff\<close>

text \<open>
  Following the specification's words (section 4.4), not the source: the diff is the
  ordered list of entries applied, one per operation of every \<open>json_patch\<close> step of the
  plan, followed by the entries of the forced endpoint override. It is compared with
  \<open>performDryRun\<close> below.
\<close>

fun patch_operations :: "json \<Rightarrow> json list" where
  "patch_operations (JArr ops) = ops"
| "patch_operations j = []"

definition spec_diff :: "MigrationStep list \<Rightarrow> string \<Rightarrow> json list" where
  "spec_diff plan endpoint =
     concat (map (\<lambda>step. if step_type step = json_patch
                          then patch_operations (patch_or_empty (step_patch step)) else [])
                 plan)
     @ [set_entry ''/model_endpoint'' endpoint, set_entry ''/embedding_endpoint'' endpoint]"

section \<open>Sequences of publish requests\<close>

fun publish_all :: "ext \<Rightarrow> world \<Rightarrow> (string \<times> string option) list \<Rightarrow> world" where
  "publish_all x w [] = w"
| "publish_all x w ((rawBody, key) # reqs) =
     publish_all x (fst (handlePublishTemplate x w rawBody key)) reqs"

text \<open>At most one version of each template is flagged as the latest.\<close>

definition latest_rows :: "world \<Rightarrow> string \<Rightarrow> version_row list" where
  "latest_rows w t = filter (\<lambda>r. v_template_id r = t \<and> v_is_latest r) (af_versions w)"

definition one_latest :: "world \<Rightarrow> bool" where
  "one_latest w = (\<forall>t. length (latest_rows w t) \<le> 1)"

section \<open>A concrete instance of the external services\<close>

text \<open>
  The examples below are evaluated with the following stand-ins for the imports: a
  JSON patch interpreter for \<open>add\<close>, \<open>replace\<close> and \<open>remove\<close> on top-level members, a
  parser that knows the sample agent file in the versions the examples publish, a
  rendering of JSON values as text, a digest that is the identity, and a remote agent API
  that holds one agent.
\<close>

fun sample_operation :: "config \<Rightarrow> json \<Rightarrow> error + config" where
  "sample_operation cfg (JObj operation) =
     (case (map_of operation ''op'', map_of operation ''path'') of
        (Some (JStr name), Some (JStr (c # member))) \<Rightarrow>
          (if c \<noteq> CHR ''/'' \<or> CHR ''/'' \<in> set member then Inl (Error ''unsupported path'')
           else if name = ''add'' \<or> name = ''replace'' then
             (case map_of operation ''value'' of
                None \<Rightarrow> Inl (Error ''missing value'')
              | Some v \<Rightarrow> Inr (AList.update member v cfg))
           else if name = ''remove'' then Inr (AList.delete member cfg)
           else Inl (Error ''unsupported operation''))
      | _ \<Rightarrow> Inl (Error ''malformed operation''))"
| "sample_operation cfg j = Inl (Error ''malformed operation'')"

fun sample_operations :: "config \<Rightarrow> json list \<Rightarrow> error + config" where
  "sample_operations cfg [] = Inr cfg"
| "sample_operations cfg (operation # rest) =
     (case sample_operation cfg operation of
        Inl e \<Rightarrow> Inl e
      | Inr cfg' \<Rightarrow> sample_operations cfg' rest)"

fun sample_applyPatch :: "config \<Rightarrow> json \<Rightarrow> error + config" where
  "sample_applyPatch cfg (JArr ops) = sample_operations cfg ops"
| "sample_applyPatch cfg j = Inl (Error ''malformed patch'')"

definition sample_file :: "string \<Rightarrow> AgentFile" where
  "sample_file v =
     \<lparr> af_version = ''1.0'', template_id = ''sample-support-agent'',
       template_name = ''Sample Support Agent'', template_version = v,
       engine_model = ''gpt-4o'', engine_embedding = ''text-embedding-3-large'',
       engine_hyperparams = None,
       persona_system_prompt = ''You are a helpful assistant.'',
       persona_variables_required = Some [''customer''],
       tools = None, init_messages = Some (JArr []), migrations = None \<rparr>"

definition sample_source :: "string \<Rightarrow> string" where
  \<open>sample_source v =
     ''{"af_version":"1.0","template":{"id":"sample-support-agent","name":"Sample Support Agent","version":"''
     @ v @
     ''"},"compat":{"letta_min":"0.1.0"},"engine":{"model":"gpt-4o","embedding":"text-embedding-3-large"},"persona":{"system_prompt":"You are a helpful assistant.","variables_schema":{"type":"object","required":["customer"]}},"init_messages":[]}''\<close>

definition sample_JSON_parse :: "string \<Rightarrow> AgentFile option option" where
  "sample_JSON_parse s =
     (if s = sample_source ''1.0.0'' then Some (Some (sample_file ''1.0.0''))
      else if s = sample_source ''1.0.1'' then Some (Some (sample_file ''1.0.1''))
      else if s = sample_source ''latest'' then Some (Some (sample_file ''latest''))
      else if s = sample_source ''0.9.0'' then Some (Some (sample_file ''0.9.0''))
      else None)"

fun sample_render :: "json \<Rightarrow> string" where
  "sample_render JNull = ''null''"
| "sample_render (JBool b) = (if b then ''true'' else ''false'')"
| "sample_render (JNum n) =
     (if n < 0 then ''-'' @ string_of_nat (nat (- n)) else string_of_nat (nat n))"
| \<open>sample_render (JStr s) = ''"'' @ s @ ''"''\<close>
| "sample_render (JArr xs) = ''['' @ join '','' (map sample_render xs) @ '']''"
| \<open>sample_render (JObj kvs) =
     ''{'' @ join '','' (map (\<lambda>kv. ''"'' @ fst kv @ ''":'' @ sample_render (snd kv)) kvs) @ ''}''\<close>

definition sample_stringify :: "UpgradeAgentInput \<Rightarrow> string \<Rightarrow> string" where
  "sample_stringify payload agentId =
     sample_render (JObj [(''payload'', u_body payload), (''agentId'', JStr agentId)])"

definition sample_stringify_create :: "CreateAgentInput \<Rightarrow> string \<Rightarrow> string" where
  "sample_stringify_create payload userId =
     sample_render (JObj [(''payload'', p_body payload), (''userId'', JStr userId)])"

definition create_payload :: CreateAgentInput where
  "create_payload =
     \<lparr> p_body = JObj [(''template_id'', JStr ''sample-support-agent''),
                      (''version'', JStr ''1.0.0'')],
       p_template_id = ''sample-support-agent'', p_version = Some ''1.0.0'',
       p_use_latest = None, p_variables = None, p_agent_name = None \<rparr>"

definition create_payload_customer :: CreateAgentInput where
  "create_payload_customer =
     \<lparr> p_body = JObj [(''template_id'', JStr ''sample-support-agent''),
                      (''version'', JStr ''1.0.0''),
                      (''variables'', JObj [(''customer'', JStr ''ACME'')])],
       p_template_id = ''sample-support-agent'', p_version = Some ''1.0.0'',
       p_use_latest = None, p_variables = Some [(''customer'', JStr ''ACME'')],
       p_agent_name = None \<rparr>"

definition sample_config :: config where
  "sample_config =
     [(''id'', JStr ''agent-1''), (''model'', JStr ''gpt-4o''),
      (''embedding'', JStr ''text-embedding-3-large''),
      (''model_endpoint'', JStr ''https://gateway.example.com/api/v1/agents/user-1/messages''),
      (''embedding_endpoint'', JStr ''https://gateway.example.com/api/v1/agents/user-1/messages''),
      (''system_prompt'', JStr ''You are a helpful assistant.'')]"

definition sample_ext :: ext where
  "sample_ext =
     \<lparr> sha256 = (\<lambda>s. s),
       JSON_parse = sample_JSON_parse,
       YAML_parse = (\<lambda>s. Inr None),
       JSON_stringify = sample_render,
       applyPatch = sample_applyPatch,
       letta_post = (\<lambda>cfg. HttpOk (''agent-1'', JObj ((''id'', JStr ''agent-1'') # cfg))),
       letta_get = (\<lambda>agentId. if agentId = ''agent-1'' then HttpOk sample_config
                               else HttpNotOk 404 ''not found''),
       letta_patch = (\<lambda>agentId cfg. if agentId = ''agent-1'' then HttpOk (JObj cfg)
                                     else HttpNotOk 404 ''not found'') \<rparr>"

text \<open>The same services with a remote agent API that refuses every update.\<close>

definition failing_ext :: ext where
  "failing_ext = sample_ext\<lparr> letta_patch := (\<lambda>agentId cfg. HttpNotOk 500 ''boom'') \<rparr>"

definition empty_world :: world where
  "empty_world =
     \<lparr> supabase_client = True, ZUPLO_BASE_URL = Some ''https://gateway.example.com'',
       LETTA_API_KEY = Some ''secret'', af_templates = [], af_versions = [],
       agent_instances = [], agent_migrations = [], request_dedup = [], upgrade_jobs = [],
       af_cache = [], user_profiles = [], auth_users = [''user-1''], letta_creates = [],
       letta_updates = [] \<rparr>"

text \<open>
  The store after version \<open>1.0.0\<close> of the sample template was published, and after the
  agent \<open>agent-1\<close> of user \<open>user-1\<close> was then created from it.
\<close>

definition published_world :: world where
  "published_world =
     empty_world
       \<lparr> af_templates := [''sample-support-agent''],
         af_versions :=
           [\<lparr> v_template_id = ''sample-support-agent'', v_version = ''1.0.0'',
              v_af_source = sample_source ''1.0.0'', v_checksum = sample_source ''1.0.0'',
              v_is_latest = True, v_published_by = None \<rparr>],
         af_cache := [(''sample-support-agent/1.0.0.af'', sample_source ''1.0.0'')] \<rparr>"

definition sample_world :: world where
  "sample_world =
     published_world
       \<lparr> agent_instances :=
           [\<lparr> i_agent_id = ''agent-1'', i_user_id = ''user-1'',
              i_template_id = ''sample-support-agent'', i_version = ''1.0.0'',
              i_variables = JObj [] \<rparr>] \<rparr>"

definition replace_model_step :: MigrationStep where
  "replace_model_step =
     \<lparr> step_type = json_patch, step_description = None,
       step_patch = Some (JArr [JObj [(''op'', JStr ''replace''), (''path'', JStr ''/model''),
                                     (''value'', JStr ''gpt-5'')]]),
       step_script = None \<rparr>"

text \<open>Upgrade payloads: every field omitted; queued execution; synchronous apply.\<close>

definition omitted_payload :: UpgradeAgentInput where
  "omitted_payload =
     \<lparr> u_body = JObj [], target_version = None, use_latest = None, allow_minor_auto = None,
       dry_run = None, use_queue = None \<rparr>"

definition queue_payload :: UpgradeAgentInput where
  "queue_payload =
     \<lparr> u_body = JObj [(''dry_run'', JBool False), (''use_queue'', JBool True)],
       target_version = None, use_latest = None, allow_minor_auto = None,
       dry_run = Some False, use_queue = Some True \<rparr>"

definition apply_payload :: UpgradeAgentInput where
  "apply_payload =
     \<lparr> u_body = JObj [(''dry_run'', JBool False)],
       target_version = None, use_latest = None, allow_minor_auto = None,
       dry_run = Some False, use_queue = None \<rparr>"

definition sample_endpoint :: string where
  "sample_endpoint = ''https://gateway.example.com/api/v1/agents/user-1/messages''"

declare plan_loop.simps [simp del]

section \<open>The outcomes of the planner\<close>

inductive_cases follow_NilE: "follow migs t v [] s u"
























section \<open>The diff of a dry run\<close>

text \<open>
  Claim C1, as amended. Whenever \<open>performDryRun\<close> returns, its diff is exactly the two
  entries of the forced endpoint override, \<open>/model_endpoint\<close> then
  \<open>/embedding_endpoint\<close>, whatever the plan: the operations of the plan's
  \<open>json_patch\<close> steps change \<open>updatedConfig\<close> only and are not recorded in the diff.
\<close>

theorem performDryRun_diff:
  assumes "performDryRun ap z plan cfg uid = Inr r"
  shows "diff r = [set_entry ''/model_endpoint'' (billing_endpoint z uid),
                   set_entry ''/embedding_endpoint'' (billing_endpoint z uid)]"
  using assms by (auto simp: performDryRun_def Let_def split: sum.splits)

theorem performDryRun_diff_witness:
  "performDryRun sample_applyPatch (Some ''https://gateway.example.com'')
       [replace_model_step] sample_config ''user-1''
   = Inr \<lparr> diff = [set_entry ''/model_endpoint''
                      ''https://gateway.example.com/api/v1/agents/user-1/messages'',
                    set_entry ''/embedding_endpoint''
                      ''https://gateway.example.com/api/v1/agents/user-1/messages''],
            warnings = [],
            updatedConfig = AList.update ''model'' (JStr ''gpt-5'') sample_config \<rparr>
   \<and> diff \<lparr> diff = [set_entry ''/model_endpoint''
                      ''https://gateway.example.com/api/v1/agents/user-1/messages'',
                    set_entry ''/embedding_endpoint''
                      ''https://gateway.example.com/api/v1/agents/user-1/messages''],
            warnings = [],
            updatedConfig = AList.update ''model'' (JStr ''gpt-5'') sample_config \<rparr>
     = [set_entry ''/model_endpoint'' (billing_endpoint (Some ''https://gateway.example.com'') ''user-1''),
        set_entry ''/embedding_endpoint'' (billing_endpoint (Some ''https://gateway.example.com'') ''user-1'')]"
proof -
  have run: "performDryRun sample_applyPatch (Some ''https://gateway.example.com'')
       [replace_model_step] sample_config ''user-1''
   = Inr \<lparr> diff = [set_entry ''/model_endpoint''
                      ''https://gateway.example.com/api/v1/agents/user-1/messages'',
                    set_entry ''/embedding_endpoint''
                      ''https://gateway.example.com/api/v1/agents/user-1/messages''],
            warnings = [],
            updatedConfig = AList.update ''model'' (JStr ''gpt-5'') sample_config \<rparr>"
    by (simp add: performDryRun_def replace_model_step_def sample_config_def patch_or_empty_def
      billing_endpoint_def Let_def)
  from performDryRun_diff[OF run] run show ?thesis by simp
qed


text \<open>
  The claim as stated fails: for a plan with one \<open>json_patch\<close> step that replaces
  \<open>/model\<close>, the diff returned holds the two override entries only, while the
  specification's diff also holds the \<open>replace\<close> operation.
\<close>

theorem performDryRun_diff_counterexample:
  "performDryRun sample_applyPatch (Some ''https://gateway.example.com'')
       [replace_model_step] sample_config ''user-1''
   = Inr \<lparr> diff = [set_entry ''/model_endpoint''
                      ''https://gateway.example.com/api/v1/agents/user-1/messages'',
                    set_entry ''/embedding_endpoint''
                      ''https://gateway.example.com/api/v1/agents/user-1/messages''],
            warnings = [],
            updatedConfig =
              [(''id'', JStr ''agent-1''), (''model'', JStr ''gpt-5''),
               (''embedding'', JStr ''text-embedding-3-large''),
               (''model_endpoint'', JStr ''https://gateway.example.com/api/v1/agents/user-1/messages''),
               (''embedding_endpoint'', JStr ''https://gateway.example.com/api/v1/agents/user-1/messages''),
               (''system_prompt'', JStr ''You are a helpful assistant.'')] \<rparr>
   \<and> [set_entry ''/model_endpoint''
                      ''https://gateway.example.com/api/v1/agents/user-1/messages'',
                    set_entry ''/embedding_endpoint''
                      ''https://gateway.example.com/api/v1/agents/user-1/messages'']
     \<noteq> spec_diff [replace_model_step] ''https://gateway.example.com/api/v1/agents/user-1/messages''
   \<and> JObj [(''op'', JStr ''replace''), (''path'', JStr ''/model''), (''value'', JStr ''gpt-5'')]
       \<in> set (spec_diff [replace_model_step] ''https://gateway.example.com/api/v1/agents/user-1/messages'')"
  by (simp add: performDryRun_def replace_model_step_def sample_config_def patch_or_empty_def
      billing_endpoint_def spec_diff_def set_entry_def Let_def)

section \<open>The idempotency guard\<close>

text \<open>
  Claim C8. Without a key the guard proceeds and leaves the store as it is. With the
  store client initialised and a key that has no record yet, the guard proceeds and
  appends the record of the key with the fingerprint of the payload; a second request
  with that key and the same payload then fails with the duplicate-request error, and one
  with that key and a payload of a different fingerprint fails with the error for a key
  re-used with a different payload.
\<close>

theorem ensureIdempotency_guard:
  assumes "supabase_client w" and "k \<noteq> []" and "map_of (request_dedup w) k = None"
    and "sha256 x p' \<noteq> sha256 x p"
  shows "ensureIdempotency x w0 None p0 = Inr w0
    \<and> ensureIdempotency x w (Some k) p
        = Inr (w\<lparr>request_dedup := request_dedup w @ [(k, sha256 x p)]\<rparr>)
    \<and> ensureIdempotency x (w\<lparr>request_dedup := request_dedup w @ [(k, sha256 x p)]\<rparr>) (Some k) p
        = Inl (IdempotencyError ''Duplicate request'')
    \<and> ensureIdempotency x (w\<lparr>request_dedup := request_dedup w @ [(k, sha256 x p)]\<rparr>) (Some k) p'
        = Inl (IdempotencyError ''Idempotency key re-used with different payload'')"
  using assms by (simp add: ensureIdempotency_def Let_def map_add_def split: option.splits)

theorem ensureIdempotency_guard_witness:
  "ensureIdempotency sample_ext empty_world None ''publish'' = Inr empty_world
    \<and> ensureIdempotency sample_ext empty_world (Some ''key-1'') ''publish''
        = Inr (empty_world\<lparr>request_dedup := [(''key-1'', ''publish'')]\<rparr>)
    \<and> ensureIdempotency sample_ext (empty_world\<lparr>request_dedup := [(''key-1'', ''publish'')]\<rparr>)
          (Some ''key-1'') ''publish''
        = Inl (IdempotencyError ''Duplicate request'')
    \<and> ensureIdempotency sample_ext (empty_world\<lparr>request_dedup := [(''key-1'', ''publish'')]\<rparr>)
          (Some ''key-1'') ''upgrade''
        = Inl (IdempotencyError ''Idempotency key re-used with different payload'')"
  using ensureIdempotency_guard[of empty_world "''key-1''" sample_ext "''upgrade''" "''publish''"
          empty_world "''publish''"]
  by (simp add: empty_world_def sample_ext_def)

section \<open>Resolving a template version\<close>

text \<open>
  Claim C3, as amended. With the store client initialised, a version that is supplied
  (and not empty) is the selector in use whether or not \<open>use_latest\<close> is set as well, so
  both selectors together are accepted and the version wins; without a version,
  \<open>use_latest\<close> is the selector in use, and the selector error is returned when it is
  false. When no row matches the selector in use, the call fails with the not-found
  error; when exactly one row matches, the call returns the agent file parsed from the
  source of that row, together with the source, or the error of the parser; and when
  several rows match, it fails with the error of the store.
\<close>

theorem resolveTemplateVersion_selector:
  assumes "supabase_client w"
  shows "(truthy version \<longrightarrow>
            resolveTemplateVersion x w t version True = resolveTemplateVersion x w t version False)
    \<and> (\<not> truthy version \<longrightarrow>
            resolveTemplateVersion x w t version False
            = Inl (Error ''Either version or use_latest must be provided''))
    \<and> (truthy version \<and> (\<forall>r \<in> set (af_versions w).
                             \<not> (v_template_id r = t \<and> v_version r = the version)) \<longrightarrow>
            resolveTemplateVersion x w t version useLatest
            = Inl (Error ''Template version not found''))
    \<and> (\<not> truthy version \<and> (\<forall>r \<in> set (af_versions w).
                             \<not> (v_template_id r = t \<and> v_is_latest r)) \<longrightarrow>
            resolveTemplateVersion x w t version True
            = Inl (Error ''Template version not found''))
    \<and> (truthy version
        \<and> filter (\<lambda>r. v_template_id r = t \<and> v_version r = the version) (af_versions w) = [row]
        \<and> parseAgentFile x (v_af_source row) = Inr (raw, parsed, format) \<longrightarrow>
            resolveTemplateVersion x w t version useLatest = Inr (parsed, v_af_source row))
    \<and> (\<not> truthy version
        \<and> filter (\<lambda>r. v_template_id r = t \<and> v_is_latest r) (af_versions w) = [row]
        \<and> parseAgentFile x (v_af_source row) = Inr (raw, parsed, format) \<longrightarrow>
            resolveTemplateVersion x w t version True = Inr (parsed, v_af_source row))
    \<and> (truthy version
        \<and> filter (\<lambda>r. v_template_id r = t \<and> v_version r = the version) (af_versions w) = [row]
        \<and> parseAgentFile x (v_af_source row) = Inl e \<longrightarrow>
            resolveTemplateVersion x w t version useLatest = Inl e)
    \<and> (\<not> truthy version
        \<and> filter (\<lambda>r. v_template_id r = t \<and> v_is_latest r) (af_versions w) = [row]
        \<and> parseAgentFile x (v_af_source row) = Inl e \<longrightarrow>
            resolveTemplateVersion x w t version True = Inl e)
    \<and> (truthy version
        \<and> filter (\<lambda>r. v_template_id r = t \<and> v_version r = the version) (af_versions w)
            = row # row' # rows \<longrightarrow>
            resolveTemplateVersion x w t version useLatest
            = Inl (Error ''JSON object requested, multiple (or no) rows returned''))
    \<and> (\<not> truthy version
        \<and> filter (\<lambda>r. v_template_id r = t \<and> v_is_latest r) (af_versions w)
            = row # row' # rows \<longrightarrow>
            resolveTemplateVersion x w t version True
            = Inl (Error ''JSON object requested, multiple (or no) rows returned''))"
proof -
  have none: "filter P xs = []" if "\<forall>r \<in> set xs. \<not> P r" for P and xs :: "version_row list"
    using that by (simp add: filter_empty_conv)
  have 1: "truthy version \<longrightarrow>
            resolveTemplateVersion x w t version True = resolveTemplateVersion x w t version False"
    by (simp add: resolveTemplateVersion_def)
  have 2: "\<not> truthy version \<longrightarrow>
            resolveTemplateVersion x w t version False
            = Inl (Error ''Either version or use_latest must be provided'')"
    using assms by (simp add: resolveTemplateVersion_def)
  have 3: "truthy version \<and> (\<forall>r \<in> set (af_versions w).
                             \<not> (v_template_id r = t \<and> v_version r = the version)) \<longrightarrow>
            resolveTemplateVersion x w t version useLatest
            = Inl (Error ''Template version not found'')"
    using assms by (auto simp: resolveTemplateVersion_def none)
  have 4: "\<not> truthy version \<and> (\<forall>r \<in> set (af_versions w).
                             \<not> (v_template_id r = t \<and> v_is_latest r)) \<longrightarrow>
            resolveTemplateVersion x w t version True
            = Inl (Error ''Template version not found'')"
    using assms by (auto simp: resolveTemplateVersion_def none)
  have 5: "truthy version
        \<and> filter (\<lambda>r. v_template_id r = t \<and> v_version r = the version) (af_versions w) = [row]
        \<and> parseAgentFile x (v_af_source row) = Inr (raw, parsed, format) \<longrightarrow>
            resolveTemplateVersion x w t version useLatest = Inr (parsed, v_af_source row)"
    using assms by (simp add: resolveTemplateVersion_def)
  have 6: "\<not> truthy version
        \<and> filter (\<lambda>r. v_template_id r = t \<and> v_is_latest r) (af_versions w) = [row]
        \<and> parseAgentFile x (v_af_source row) = Inr (raw, parsed, format) \<longrightarrow>
            resolveTemplateVersion x w t version True = Inr (parsed, v_af_source row)"
    using assms by (simp add: resolveTemplateVersion_def)
  have 7: "truthy version
        \<and> filter (\<lambda>r. v_template_id r = t \<and> v_version r = the version) (af_versions w) = [row]
        \<and> parseAgentFile x (v_af_source row) = Inl e \<longrightarrow>
            resolveTemplateVersion x w t version useLatest = Inl e"
    using assms by (simp add: resolveTemplateVersion_def)
  have 8: "\<not> truthy version
        \<and> filter (\<lambda>r. v_template_id r = t \<and> v_is_latest r) (af_versions w) = [row]
        \<and> parseAgentFile x (v_af_source row) = Inl e \<longrightarrow>
            resolveTemplateVersion x w t version True = Inl e"
    using assms by (simp add: resolveTemplateVersion_def)
  have 9: "truthy version
        \<and> filter (\<lambda>r. v_template_id r = t \<and> v_version r = the version) (af_versions w)
            = row # row' # rows \<longrightarrow>
            resolveTemplateVersion x w t version useLatest
            = Inl (Error ''JSON object requested, multiple (or no) rows returned'')"
    using assms by (simp add: resolveTemplateVersion_def)
  have 10: "\<not> truthy version
        \<and> filter (\<lambda>r. v_template_id r = t \<and> v_is_latest r) (af_versions w)
            = row # row' # rows \<longrightarrow>
            resolveTemplateVersion x w t version True
            = Inl (Error ''JSON object requested, multiple (or no) rows returned'')"
    using assms by (simp add: resolveTemplateVersion_def)
  from 1 2 3 4 5 6 7 8 9 10 show ?thesis by (intro conjI)
qed


theorem resolveTemplateVersion_selector_witness:
  "resolveTemplateVersion sample_ext sample_world ''sample-support-agent'' (Some ''1.0.0'') True
     = resolveTemplateVersion sample_ext sample_world ''sample-support-agent'' (Some ''1.0.0'') False
   \<and> resolveTemplateVersion sample_ext sample_world ''sample-support-agent'' None False
     = Inl (Error ''Either version or use_latest must be provided'')
   \<and> resolveTemplateVersion sample_ext sample_world ''sample-support-agent'' (Some ''9.9.9'') True
     = Inl (Error ''Template version not found'')
   \<and> resolveTemplateVersion sample_ext sample_world ''other-template'' None True
     = Inl (Error ''Template version not found'')
   \<and> resolveTemplateVersion sample_ext sample_world ''sample-support-agent'' (Some ''1.0.0'') False
     = Inr (sample_file ''1.0.0'', sample_source ''1.0.0'')
   \<and> resolveTemplateVersion sample_ext sample_world ''sample-support-agent'' None True
     = Inr (sample_file ''1.0.0'', sample_source ''1.0.0'')
   \<and> resolveTemplateVersion sample_ext
        (sample_world\<lparr>af_versions :=
           [\<lparr> v_template_id = ''sample-support-agent'', v_version = ''1.0.0'',
              v_af_source = ''{'', v_checksum = ''{'', v_is_latest = True,
              v_published_by = None \<rparr>]\<rparr>)
        ''sample-support-agent'' (Some ''1.0.0'') False
     = Inl (Error ''Invalid Agent File content'')
   \<and> resolveTemplateVersion sample_ext
        (sample_world\<lparr>af_versions := af_versions sample_world @ af_versions sample_world\<rparr>)
        ''sample-support-agent'' None True
     = Inl (Error ''JSON object requested, multiple (or no) rows returned'')"
proof -
  let ?row = "\<lparr> v_template_id = ''sample-support-agent'', v_version = ''1.0.0'',
              v_af_source = sample_source ''1.0.0'', v_checksum = sample_source ''1.0.0'',
              v_is_latest = True, v_published_by = None \<rparr>"
  let ?bad = "\<lparr> v_template_id = ''sample-support-agent'', v_version = ''1.0.0'',
              v_af_source = ''{'', v_checksum = ''{'', v_is_latest = True,
              v_published_by = None \<rparr>"
  have sup: "supabase_client sample_world"
    by (simp add: sample_world_def published_world_def empty_world_def)
  have rows: "af_versions sample_world = [?row]"
    by (simp add: sample_world_def published_world_def empty_world_def)
  have parse: "parseAgentFile sample_ext (v_af_source ?row)
      = Inr (sample_source ''1.0.0'', sample_file ''1.0.0'', ''json'')"
    by (simp add: parseAgentFile_def sample_ext_def sample_JSON_parse_def sample_source_def)
  have bad: "parseAgentFile sample_ext (v_af_source ?bad) = Inl (Error ''Invalid Agent File content'')"
    by (simp add: parseAgentFile_def sample_ext_def sample_JSON_parse_def sample_source_def)
  have a: "\<forall>r \<in> set (af_versions sample_world).
             \<not> (v_template_id r = ''sample-support-agent'' \<and> v_version r = the (Some ''9.9.9''))"
    by (simp add: rows)
  have b: "\<forall>r \<in> set (af_versions sample_world).
             \<not> (v_template_id r = ''other-template'' \<and> v_is_latest r)"
    by (simp add: rows)
  have c1: "resolveTemplateVersion sample_ext sample_world ''sample-support-agent'' (Some ''1.0.0'') True
     = resolveTemplateVersion sample_ext sample_world ''sample-support-agent'' (Some ''1.0.0'') False"
    using resolveTemplateVersion_selector[OF sup, of "Some ''1.0.0''" sample_ext "''sample-support-agent''"]
    by simp
  have c2: "resolveTemplateVersion sample_ext sample_world ''sample-support-agent'' None False
     = Inl (Error ''Either version or use_latest must be provided'')"
    using resolveTemplateVersion_selector[OF sup, of None sample_ext "''sample-support-agent''"]
    by simp
  have c3: "resolveTemplateVersion sample_ext sample_world ''sample-support-agent'' (Some ''9.9.9'') True
     = Inl (Error ''Template version not found'')"
    using resolveTemplateVersion_selector[OF sup, of "Some ''9.9.9''" sample_ext "''sample-support-agent''" True] a
    by auto
  have c4: "resolveTemplateVersion sample_ext sample_world ''other-template'' None True
     = Inl (Error ''Template version not found'')"
    using resolveTemplateVersion_selector[OF sup, of None sample_ext "''other-template''"] b
    by simp
  have c5: "resolveTemplateVersion sample_ext sample_world ''sample-support-agent'' (Some ''1.0.0'') False
     = Inr (sample_file ''1.0.0'', sample_source ''1.0.0'')"
    using resolveTemplateVersion_selector[OF sup, where version = "Some ''1.0.0''" and x = sample_ext
        and t = "''sample-support-agent''" and useLatest = False and row = ?row
        and raw = "sample_source ''1.0.0''" and parsed = "sample_file ''1.0.0''"
        and format = "''json''"] parse
    by (simp add: rows)
  have c6: "resolveTemplateVersion sample_ext sample_world ''sample-support-agent'' None True
     = Inr (sample_file ''1.0.0'', sample_source ''1.0.0'')"
    using resolveTemplateVersion_selector[OF sup, where version = None and x = sample_ext
        and t = "''sample-support-agent''" and row = ?row
        and raw = "sample_source ''1.0.0''" and parsed = "sample_file ''1.0.0''"
        and format = "''json''"] parse
    by (simp add: rows)
  have sup7: "supabase_client (sample_world\<lparr>af_versions := [?bad]\<rparr>)"
    using sup by simp
  have c7: "resolveTemplateVersion sample_ext (sample_world\<lparr>af_versions := [?bad]\<rparr>)
        ''sample-support-agent'' (Some ''1.0.0'') False
     = Inl (Error ''Invalid Agent File content'')"
    using resolveTemplateVersion_selector[OF sup7, where version = "Some ''1.0.0''"
        and x = sample_ext and t = "''sample-support-agent''" and useLatest = False
        and row = ?bad and e = "Error ''Invalid Agent File content''"] bad
    by simp
  have sup8: "supabase_client
      (sample_world\<lparr>af_versions := af_versions sample_world @ af_versions sample_world\<rparr>)"
    using sup by simp
  have c8: "resolveTemplateVersion sample_ext
        (sample_world\<lparr>af_versions := af_versions sample_world @ af_versions sample_world\<rparr>)
        ''sample-support-agent'' None True
     = Inl (Error ''JSON object requested, multiple (or no) rows returned'')"
    using resolveTemplateVersion_selector[OF sup8, where version = None and x = sample_ext
        and t = "''sample-support-agent''" and row = ?row and row' = ?row and rows = "[]"]
    by (simp add: rows)
  from c1 c2 c3 c4 c5 c6 c7 c8 show ?thesis by (intro conjI)
qed


text \<open>
  The claim as stated fails: with both a version and \<open>use_latest = true\<close> supplied, the
  call returns the version's row instead of failing.
\<close>

theorem resolveTemplateVersion_selector_counterexample:
  "resolveTemplateVersion sample_ext sample_world ''sample-support-agent'' (Some ''1.0.0'') True
   = Inr (sample_file ''1.0.0'', sample_source ''1.0.0'')"
  by (simp add: resolveTemplateVersion_def sample_world_def published_world_def empty_world_def
      sample_ext_def
      parseAgentFile_def sample_JSON_parse_def sample_source_def)

section \<open>The upgrade handler\<close>


lemma same_but_dedup_refl: "same_but_dedup w w"
  by (simp add: same_but_dedup_def)

lemma same_but_dedupD:
  assumes "same_but_dedup w w1"
  shows "supabase_client w1 = supabase_client w" "ZUPLO_BASE_URL w1 = ZUPLO_BASE_URL w"
    "LETTA_API_KEY w1 = LETTA_API_KEY w" "af_templates w1 = af_templates w"
    "af_versions w1 = af_versions w" "agent_instances w1 = agent_instances w"
    "agent_migrations w1 = agent_migrations w" "upgrade_jobs w1 = upgrade_jobs w"
    "af_cache w1 = af_cache w" "letta_updates w1 = letta_updates w"
proof -
  from assms have eq: "w1 = w\<lparr>request_dedup := request_dedup w1\<rparr>"
    by (simp add: same_but_dedup_def)
  show "supabase_client w1 = supabase_client w" by (subst eq) simp
  show "ZUPLO_BASE_URL w1 = ZUPLO_BASE_URL w" by (subst eq) simp
  show "LETTA_API_KEY w1 = LETTA_API_KEY w" by (subst eq) simp
  show "af_templates w1 = af_templates w" by (subst eq) simp
  show "af_versions w1 = af_versions w" by (subst eq) simp
  show "agent_instances w1 = agent_instances w" by (subst eq) simp
  show "agent_migrations w1 = agent_migrations w" by (subst eq) simp
  show "upgrade_jobs w1 = upgrade_jobs w" by (subst eq) simp
  show "af_cache w1 = af_cache w" by (subst eq) simp
  show "letta_updates w1 = letta_updates w" by (subst eq) simp
qed

lemma ensureIdempotency_same:
  assumes "ensureIdempotency x w key p = Inr w1"
  shows "same_but_dedup w w1"
  using assms
  by (auto simp: ensureIdempotency_def same_but_dedup_def Let_def split: if_splits option.splits)

lemma catch_response_error: "\<exists>status message. catch_response e = ErrorResponse status message"
  by (cases e) (simp_all add: catch_response_def)

lemma handleUpgradeAgent_guarded_cases:
  assumes "handleUpgradeAgent x w agentId payload userId key = (w', r)"
  shows "((\<exists>status message. r = ErrorResponse status message) \<and> same_but_dedup w w'
          \<and> ((w' = w \<and> (\<not> supabase_client w \<or> \<not> truthy (ZUPLO_BASE_URL w)
                         \<or> (\<exists>e. ensureIdempotency x w key
                                    (JSON_stringify_upgrade x payload agentId) = Inl e)))
              \<or> ensureIdempotency x w key (JSON_stringify_upgrade x payload agentId) = Inr w'))
    \<or> (\<exists>w1 agentRecord template plan dryRunResult.
          dispatchUpgrade x w1 agentId payload agentRecord template plan dryRunResult = (w', r)
          \<and> supabase_client w1 \<and> same_but_dedup w w1
          \<and> ensureIdempotency x w key (JSON_stringify_upgrade x payload agentId) = Inr w1)"
proof (cases "supabase_client w \<and> truthy (ZUPLO_BASE_URL w)")
  case False
  with assms show ?thesis
    by (auto simp: handleUpgradeAgent_def same_but_dedup_refl split: if_splits)
next
  case ok: True
  show ?thesis
  proof (cases "ensureIdempotency x w key (JSON_stringify_upgrade x payload agentId)")
    case (Inl e)
    with assms ok catch_response_error[of e] show ?thesis
      by (auto simp: handleUpgradeAgent_def same_but_dedup_refl)
  next
    case (Inr w1)
    note guard = Inr
    note same = ensureIdempotency_same[OF Inr]
    with ok have sup: "supabase_client w1" by (simp add: same_but_dedupD)
    from assms ok Inr have tail:
      "(case find (\<lambda>r. i_agent_id r = agentId) (agent_instances w1) of
           None \<Rightarrow> (w1, ErrorResponse 404 ''Agent not found'')
         | Some agentRecord \<Rightarrow>
        (if truthy userId \<and> the userId \<noteq> i_user_id agentRecord
         then (w1, ErrorResponse 403 ''Forbidden'')
         else
        (case resolveTemplateVersion x w1 (i_template_id agentRecord) (target_version payload)
                (case use_latest payload of None \<Rightarrow> True | Some b \<Rightarrow> b) of
           Inl e \<Rightarrow> (w1, catch_response e)
         | Inr (template, raw) \<Rightarrow>
        (case buildMigrationPlan (i_version agentRecord) (template_version template)
                (case migrations template of None \<Rightarrow> [] | Some ms \<Rightarrow> ms) of
           Inl e \<Rightarrow> (w1, catch_response e)
         | Inr plan \<Rightarrow>
        (case fetchLettaAgent x w1 agentId of
           Inl e \<Rightarrow> (w1, catch_response e)
         | Inr currentConfig \<Rightarrow>
        (case performDryRun (applyPatch x) (ZUPLO_BASE_URL w1) plan currentConfig
                (i_user_id agentRecord) of
           Inl e \<Rightarrow> (w1, catch_response e)
         | Inr dryRunResult \<Rightarrow>
             dispatchUpgrade x w1 agentId payload agentRecord template plan dryRunResult)))))) = (w', r)"
      by (simp add: handleUpgradeAgent_def)
    show ?thesis
    proof (cases "find (\<lambda>r. i_agent_id r = agentId) (agent_instances w1)")
      case None
      with tail same guard show ?thesis by auto
    next
      case (Some agentRecord)
      show ?thesis
      proof (cases "truthy userId \<and> the userId \<noteq> i_user_id agentRecord")
        case True
        with tail Some same guard show ?thesis by auto
      next
        case allowed: False
        show ?thesis
        proof (cases "resolveTemplateVersion x w1 (i_template_id agentRecord) (target_version payload)
                (case use_latest payload of None \<Rightarrow> True | Some b \<Rightarrow> b)")
          case (Inl e)
          with tail Some allowed same guard catch_response_error[of e] show ?thesis by auto
        next
          case resolved: (Inr tr)
          obtain template raw where tr: "tr = (template, raw)" by (cases tr)
          show ?thesis
          proof (cases "buildMigrationPlan (i_version agentRecord) (template_version template)
                (case migrations template of None \<Rightarrow> [] | Some ms \<Rightarrow> ms)")
            case (Inl e)
            with tail Some allowed resolved tr same guard catch_response_error[of e] show ?thesis by auto
          next
            case planned: (Inr plan)
            show ?thesis
            proof (cases "fetchLettaAgent x w1 agentId")
              case (Inl e)
              with tail Some allowed resolved tr planned same guard catch_response_error[of e]
              show ?thesis by auto
            next
              case fetched: (Inr currentConfig)
              show ?thesis
              proof (cases "performDryRun (applyPatch x) (ZUPLO_BASE_URL w1) plan currentConfig
                (i_user_id agentRecord)")
                case (Inl e)
                with tail Some allowed resolved tr planned fetched same guard catch_response_error[of e]
                show ?thesis by auto
              next
                case (Inr dryRunResult)
                with tail Some allowed resolved tr planned fetched
                have "dispatchUpgrade x w1 agentId payload agentRecord template plan dryRunResult
                      = (w', r)"
                  by simp
                with sup same guard show ?thesis by blast
              qed
            qed
          qed
        qed
      qed
    qed
  qed
qed


lemma handleUpgradeAgent_cases:
  assumes "handleUpgradeAgent x w agentId payload userId key = (w', r)"
  shows "((\<exists>status message. r = ErrorResponse status message) \<and> same_but_dedup w w')
    \<or> (\<exists>w1 agentRecord template plan dryRunResult.
          dispatchUpgrade x w1 agentId payload agentRecord template plan dryRunResult = (w', r)
          \<and> supabase_client w1 \<and> same_but_dedup w w1)"
  using handleUpgradeAgent_guarded_cases[OF assms] by blast



lemma fst_updateLettaAgent:
  "fst (updateLettaAgent x w1 agentId cfg)
   = (if truthy (LETTA_API_KEY w1)
      then w1\<lparr>letta_updates := letta_updates w1 @ [(agentId, cfg)]\<rparr> else w1)"
  by (cases "letta_patch x agentId cfg") (simp_all add: updateLettaAgent_def Let_def)

lemma updateLettaAgent_keeps:
  assumes "updateLettaAgent x w1 agentId cfg = (w2, res)"
  shows "agent_migrations w2 = agent_migrations w1" "supabase_client w2 = supabase_client w1"
proof -
  from assms have "w2 = fst (updateLettaAgent x w1 agentId cfg)" by simp
  then show "agent_migrations w2 = agent_migrations w1" "supabase_client w2 = supabase_client w1"
    by (simp_all add: fst_updateLettaAgent)
qed

lemma dispatchUpgrade_cases:
  assumes d: "dispatchUpgrade x w1 agentId payload agentRecord template plan dr = (w', r)"
    and sup: "supabase_client w1"
  shows "(r = DryRunResponse plan (diff dr) (warnings dr)
          \<and> agent_migrations w' = agent_migrations w1 @
                [\<lparr> g_agent_id = agentId, g_from_version = i_version agentRecord,
                   g_to_version = template_version template, g_dry_run = True,
                   g_plan = plan, g_diff = diff dr, g_status = ''dry_run'', g_error = None \<rparr>])
    \<or> (\<exists>applied. r = AppliedResponse applied plan (diff dr)
          \<and> agent_migrations w' = agent_migrations w1 @
                [\<lparr> g_agent_id = agentId, g_from_version = i_version agentRecord,
                   g_to_version = template_version template, g_dry_run = False,
                   g_plan = plan, g_diff = diff dr, g_status = ''applied'', g_error = None \<rparr>])
    \<or> ((r = QueuedResponse plan \<or> (\<exists>status message. r = ErrorResponse status message))
          \<and> agent_migrations w' = agent_migrations w1)"
proof (cases "case dry_run payload of None \<Rightarrow> True | Some b \<Rightarrow> b")
  case True
  with d have "w' = logMigration w1 agentId (i_version agentRecord) (template_version template)
                 True plan (diff dr)"
    and "r = DryRunResponse plan (diff dr) (warnings dr)"
    by (simp_all add: dispatchUpgrade_def)
  with sup show ?thesis by (simp add: logMigration_def)
next
  case wet: False
  show ?thesis
  proof (cases "use_queue payload = Some True")
    case True
    with d wet sup have "r = QueuedResponse plan" "agent_migrations w' = agent_migrations w1"
      by (auto simp: dispatchUpgrade_def enqueueUpgradeJob_def)
    then show ?thesis by simp
  next
    case direct: False
    obtain w2 res where upd: "updateLettaAgent x w1 agentId (updatedConfig dr) = (w2, res)"
      by (cases "updateLettaAgent x w1 agentId (updatedConfig dr)")
    note w2 = updateLettaAgent_keeps[OF upd]
    show ?thesis
    proof (cases res)
      case (Inl e)
      with d wet direct upd have "w' = w2" "r = catch_response e"
        by (simp_all add: dispatchUpgrade_def)
      with w2 catch_response_error[of e] show ?thesis by auto
    next
      case (Inr applied)
      with d wet direct upd have "r = AppliedResponse applied plan (diff dr)"
        and "w' = logMigration
                   (w2\<lparr>agent_instances :=
                            map (\<lambda>r. if i_agent_id r = agentId
                                     then r\<lparr>i_version := template_version template\<rparr> else r)
                                (agent_instances w2)\<rparr>)
                   agentId (i_version agentRecord) (template_version template)
                    False plan (diff dr)"
        by (simp_all add: dispatchUpgrade_def Let_def)
      with w2 sup show ?thesis by (simp add: logMigration_def)
    qed
  qed
qed



text \<open>
  Claim C2, as amended. The handler appends one audit record exactly when it answers a
  dry run (status \<open>dry_run\<close>) or a synchronous success (status \<open>applied\<close>), with the
  plan and diff of the answer and no error text. With every other answer, the queued one
  and every error among them, the table of audit records is unchanged.
\<close>

theorem upgrade_audit_record:
  assumes run: "handleUpgradeAgent x w agentId payload userId key = (w', r)"
  shows "case r of
           DryRunResponse plan d ws \<Rightarrow>
             (\<exists>fromVersion toVersion.
                agent_migrations w' = agent_migrations w @
                  [\<lparr> g_agent_id = agentId, g_from_version = fromVersion,
                     g_to_version = toVersion, g_dry_run = True, g_plan = plan, g_diff = d,
                     g_status = ''dry_run'', g_error = None \<rparr>])
         | AppliedResponse agent plan d \<Rightarrow>
             (\<exists>fromVersion toVersion.
                agent_migrations w' = agent_migrations w @
                  [\<lparr> g_agent_id = agentId, g_from_version = fromVersion,
                     g_to_version = toVersion, g_dry_run = False, g_plan = plan, g_diff = d,
                     g_status = ''applied'', g_error = None \<rparr>])
         | _ \<Rightarrow> agent_migrations w' = agent_migrations w"
  using handleUpgradeAgent_cases[OF run]
proof (elim disjE conjE exE)
  fix status message
  assume "r = ErrorResponse status message" "same_but_dedup w w'"
  then show ?thesis by (simp add: same_but_dedupD)
next
  fix w1 agentRecord template plan dr
  assume d: "dispatchUpgrade x w1 agentId payload agentRecord template plan dr = (w', r)"
    and sup: "supabase_client w1" and s: "same_but_dedup w w1"
  from s have m: "agent_migrations w1 = agent_migrations w" by (simp add: same_but_dedupD)
  from dispatchUpgrade_cases[OF d sup] show ?thesis
  proof (elim disjE conjE exE)
    assume "r = DryRunResponse plan (diff dr) (warnings dr)"
      and "agent_migrations w' = agent_migrations w1 @
                [\<lparr> g_agent_id = agentId, g_from_version = i_version agentRecord,
                   g_to_version = template_version template, g_dry_run = True,
                   g_plan = plan, g_diff = diff dr, g_status = ''dry_run'', g_error = None \<rparr>]"
    with m show ?thesis by simp
  next
    fix applied
    assume "r = AppliedResponse applied plan (diff dr)"
      and "agent_migrations w' = agent_migrations w1 @
                [\<lparr> g_agent_id = agentId, g_from_version = i_version agentRecord,
                   g_to_version = template_version template, g_dry_run = False,
                   g_plan = plan, g_diff = diff dr, g_status = ''applied'', g_error = None \<rparr>]"
    with m show ?thesis by simp
  next
    assume "r = QueuedResponse plan" "agent_migrations w' = agent_migrations w1"
    with m show ?thesis by simp
  next
    fix status message
    assume "r = ErrorResponse status message" "agent_migrations w' = agent_migrations w1"
    with m show ?thesis by simp
  qed
qed

theorem upgrade_audit_record_witness:
  "handleUpgradeAgent sample_ext sample_world ''agent-1'' apply_payload (Some ''user-1'') None
     = (sample_world
          \<lparr> agent_migrations :=
              [\<lparr> g_agent_id = ''agent-1'', g_from_version = ''1.0.0'',
                 g_to_version = ''1.0.0'', g_dry_run = False, g_plan = [],
                 g_diff = [set_entry ''/model_endpoint'' sample_endpoint,
                           set_entry ''/embedding_endpoint'' sample_endpoint],
                 g_status = ''applied'', g_error = None \<rparr>],
            letta_updates := [(''agent-1'', sample_config)] \<rparr>,
        AppliedResponse (JObj sample_config) []
          [set_entry ''/model_endpoint'' sample_endpoint,
           set_entry ''/embedding_endpoint'' sample_endpoint])
   \<and> (\<exists>fromVersion toVersion.
         [\<lparr> g_agent_id = ''agent-1'', g_from_version = ''1.0.0'',
            g_to_version = ''1.0.0'', g_dry_run = False, g_plan = [],
            g_diff = [set_entry ''/model_endpoint'' sample_endpoint,
                      set_entry ''/embedding_endpoint'' sample_endpoint],
            g_status = ''applied'', g_error = None \<rparr>]
         = agent_migrations sample_world @
           [\<lparr> g_agent_id = ''agent-1'', g_from_version = fromVersion,
              g_to_version = toVersion, g_dry_run = False, g_plan = [],
              g_diff = [set_entry ''/model_endpoint'' sample_endpoint,
                        set_entry ''/embedding_endpoint'' sample_endpoint],
              g_status = ''applied'', g_error = None \<rparr>])"
proof -
  have run: "handleUpgradeAgent sample_ext sample_world ''agent-1'' apply_payload
       (Some ''user-1'') None
     = (sample_world
          \<lparr> agent_migrations :=
              [\<lparr> g_agent_id = ''agent-1'', g_from_version = ''1.0.0'',
                 g_to_version = ''1.0.0'', g_dry_run = False, g_plan = [],
                 g_diff = [set_entry ''/model_endpoint'' sample_endpoint,
                           set_entry ''/embedding_endpoint'' sample_endpoint],
                 g_status = ''applied'', g_error = None \<rparr>],
            letta_updates := [(''agent-1'', sample_config)] \<rparr>,
        AppliedResponse (JObj sample_config) []
          [set_entry ''/model_endpoint'' sample_endpoint,
           set_entry ''/embedding_endpoint'' sample_endpoint])"
    by code_simp
  from upgrade_audit_record[OF run] run show ?thesis
    by simp
qed

text \<open>
  The claim as stated fails twice. A request for queued execution is answered as queued
  with the job in the queue and no audit record; and when the remote API refuses the
  update, the handler answers with the error and writes no audit record.
\<close>

theorem upgrade_audit_record_counterexample:
  "handleUpgradeAgent sample_ext sample_world ''agent-1'' queue_payload (Some ''user-1'') None
     = (sample_world
          \<lparr> upgrade_jobs :=
              [\<lparr> j_agent_id = ''agent-1'', j_user_id = ''user-1'', j_from_version = ''1.0.0'',
                 j_to_version = ''1.0.0'', j_plan = [] \<rparr>] \<rparr>,
        QueuedResponse [])
   \<and> agent_migrations
         (sample_world
            \<lparr> upgrade_jobs :=
                [\<lparr> j_agent_id = ''agent-1'', j_user_id = ''user-1'', j_from_version = ''1.0.0'',
                   j_to_version = ''1.0.0'', j_plan = [] \<rparr>] \<rparr>) = []
   \<and> handleUpgradeAgent failing_ext sample_world ''agent-1'' apply_payload (Some ''user-1'') None
     = (sample_world\<lparr> letta_updates := [(''agent-1'', sample_config)] \<rparr>,
        ErrorResponse 500 ''Failed to update agent agent-1: 500 boom'')
   \<and> agent_migrations (sample_world\<lparr> letta_updates := [(''agent-1'', sample_config)] \<rparr>) = []"
  by code_simp

section \<open>Publishing versions\<close>


lemma assessSemver_Allowed_fresh:
  "assessSemver v existing = Inr Allowed \<Longrightarrow> v \<notin> set existing"
  by (auto simp: assessSemver_def split: if_splits)

lemma assessSemver_present:
  "v \<in> set existing \<Longrightarrow> assessSemver v existing = Inr (Rejected ''Version already published'')"
  by (simp add: assessSemver_def)

lemma cacheAgentFile_keeps:
  "af_versions (cacheAgentFile w t v raw) = af_versions w"
  "request_dedup (cacheAgentFile w t v raw) = request_dedup w"
  "supabase_client (cacheAgentFile w t v raw) = supabase_client w"
  by (simp_all add: cacheAgentFile_def)

text \<open>The rows of \<open>af_versions\<close> after a successful publish.\<close>

lemma publishAfterGuard_cases:
  assumes run: "publishAfterGuard x w1 raw af format = (w', r)"
  shows "(w' = w1 \<and> \<not> valid (validateAgentFile af)
            \<and> r = ValidationFailed (errors (validateAgentFile af)))
    \<or> (w' = w1 \<and> valid (validateAgentFile af)
            \<and> (\<exists>status message. r = ErrorResponse status message))
    \<or> (valid (validateAgentFile af)
        \<and> r = PublishResponse format (template_id af) (template_version af) (sha256 x raw) True
        \<and> (\<forall>row \<in> set (af_versions w1).
              \<not> (v_template_id row = template_id af \<and> v_version row = template_version af))
        \<and> af_versions w'
            = map (\<lambda>r. if v_template_id r = template_id af \<and> v_version r \<noteq> template_version af
                       then r\<lparr>v_is_latest := False\<rparr> else r) (af_versions w1)
              @ [\<lparr> v_template_id = template_id af, v_version = template_version af,
                   v_af_source = raw, v_checksum = sha256 x raw, v_is_latest = True,
                   v_published_by = None \<rparr>]
        \<and> request_dedup w' = request_dedup w1 \<and> supabase_client w' = supabase_client w1)"
proof (cases "valid (validateAgentFile af)")
  case False
  with run show ?thesis by (simp add: publishAfterGuard_def Let_def)
next
  case ok: True
  let ?existing = "map v_version (filter (\<lambda>r. v_template_id r = template_id af) (af_versions w1))"
  show ?thesis
  proof (cases "assessSemver (template_version af) ?existing")
    case (Inl e)
    with run ok catch_response_error[of e] show ?thesis
      by (auto simp: publishAfterGuard_def Let_def)
  next
    case (Inr a)
    show ?thesis
    proof (cases a)
      case (Rejected message)
      with run ok Inr show ?thesis by (auto simp: publishAfterGuard_def Let_def)
    next
      case Allowed
      with Inr have "assessSemver (template_version af) ?existing = Inr Allowed"
        by simp
      then have "template_version af \<notin> set ?existing"
        by (rule assessSemver_Allowed_fresh)
      then have fresh: "\<forall>row \<in> set (af_versions w1).
              \<not> (v_template_id row = template_id af \<and> v_version row = template_version af)"
        by (force simp: image_iff)
      then have nodup: "\<not> (\<exists>r \<in> set (af_versions w1).
              v_template_id r = template_id af \<and> v_version r = template_version af)"
        by blast
      have pb: "publishedBy (validateAgentFile af) = None"
        by (simp add: validateAgentFile_def Let_def)
      from run ok Inr Allowed nodup fresh pb show ?thesis
        by (auto simp: publishAfterGuard_def Let_def cacheAgentFile_keeps)
    qed
  qed
qed

lemma publishAfterGuard_keeps:
  assumes "publishAfterGuard x w1 raw af format = (w', r)"
  shows "request_dedup w' = request_dedup w1" "supabase_client w' = supabase_client w1"
  using publishAfterGuard_cases[OF assms] by auto

lemma handlePublishTemplate_cases:
  assumes run: "handlePublishTemplate x w rawBody key = (w', r)"
  shows "(w' = w \<and> (\<exists>status message. r = ErrorResponse status message))
    \<or> (\<exists>w1 af format.
          supabase_client w \<and> parseAgentFile x rawBody = Inr (rawBody, af, format)
          \<and> ensureIdempotency x w key rawBody = Inr w1
          \<and> publishAfterGuard x w1 rawBody af format = (w', r))"
proof (cases "supabase_client w")
  case False
  with run show ?thesis by (auto simp: handlePublishTemplate_def)
next
  case sup: True
  show ?thesis
  proof (cases "parseAgentFile x rawBody")
    case (Inl e)
    with run sup catch_response_error[of e] show ?thesis
      by (auto simp: handlePublishTemplate_def)
  next
    case (Inr p)
    obtain raw af format where p: "p = (raw, af, format)" by (cases p)
    with Inr have raw: "raw = rawBody"
      by (auto simp: parseAgentFile_def split: if_splits option.splits sum.splits prod.splits)
    show ?thesis
    proof (cases "ensureIdempotency x w key rawBody")
      case (Inl e)
      with run sup Inr p catch_response_error[of e] show ?thesis
        by (auto simp: handlePublishTemplate_def)
    next
      case guard: (Inr w1)
      with run sup Inr p raw show ?thesis
        by (simp add: handlePublishTemplate_def)
    qed
  qed
qed


lemma one_latest_same:
  "af_versions w' = af_versions w \<Longrightarrow> one_latest w' = one_latest w"
  by (simp add: one_latest_def latest_rows_def)

lemma length_filter_map: "length (filter P (map f xs)) = length (filter (\<lambda>x. P (f x)) xs)"
  by (induction xs) simp_all

lemma one_latest_published:
  assumes inv: "one_latest w1"
    and fresh: "\<forall>row \<in> set (af_versions w1). \<not> (v_template_id row = tid \<and> v_version row = ver)"
    and rows: "af_versions w'
            = map (\<lambda>r. if v_template_id r = tid \<and> v_version r \<noteq> ver
                       then r\<lparr>v_is_latest := False\<rparr> else r) (af_versions w1)
              @ [\<lparr> v_template_id = tid, v_version = ver, v_af_source = raw,
                   v_checksum = c, v_is_latest = True, v_published_by = pb \<rparr>]"
  shows "one_latest w'"
  unfolding one_latest_def
proof
  fix t
  let ?reset = "\<lambda>r. if v_template_id r = tid \<and> v_version r \<noteq> ver
                       then r\<lparr>v_is_latest := False\<rparr> else r"
  let ?P = "\<lambda>r. v_template_id r = t \<and> v_is_latest r"
  show "length (latest_rows w' t) \<le> 1"
  proof (cases "t = tid")
    case True
    have "filter (\<lambda>r. ?P (?reset r)) (af_versions w1) = []"
      using fresh True by (auto simp: filter_empty_conv)
    then have "length (filter ?P (map ?reset (af_versions w1))) = 0"
      by (simp only: length_filter_map list.size)
    then show ?thesis by (simp add: latest_rows_def rows True)
  next
    case False
    have "filter (\<lambda>r. ?P (?reset r)) (af_versions w1) = filter ?P (af_versions w1)"
      using False by (intro filter_cong) auto
    then have "length (filter ?P (map ?reset (af_versions w1))) = length (latest_rows w1 t)"
      by (simp only: length_filter_map latest_rows_def)
    moreover from inv have "length (latest_rows w1 t) \<le> 1" by (simp add: one_latest_def)
    ultimately show ?thesis using False by (simp add: latest_rows_def rows)
  qed
qed

lemma publishAfterGuard_one_latest:
  assumes inv1: "one_latest w1" and tail: "publishAfterGuard x w1 rawBody af format = (w', r)"
  shows "one_latest w'"
proof -
  from publishAfterGuard_cases[OF tail]
  consider (same) "w' = w1"
    | (stored) "\<forall>row \<in> set (af_versions w1).
              \<not> (v_template_id row = template_id af \<and> v_version row = template_version af)"
      "af_versions w'
            = map (\<lambda>r. if v_template_id r = template_id af \<and> v_version r \<noteq> template_version af
                       then r\<lparr>v_is_latest := False\<rparr> else r) (af_versions w1)
              @ [\<lparr> v_template_id = template_id af, v_version = template_version af,
                   v_af_source = rawBody, v_checksum = sha256 x rawBody, v_is_latest = True,
                   v_published_by = None \<rparr>]"
    by blast
  then show ?thesis
  proof cases
    case same
    with inv1 show ?thesis by simp
  next
    case stored
    from inv1 stored(1) stored(2) show ?thesis by (rule one_latest_published)
  qed
qed

lemma handlePublishTemplate_one_latest:
  assumes inv: "one_latest w" and run: "handlePublishTemplate x w rawBody key = (w', r)"
  shows "one_latest w'"
proof -
  from handlePublishTemplate_cases[OF run]
  consider (early) "w' = w"
    | (late) w1 af format where "ensureIdempotency x w key rawBody = Inr w1"
        "publishAfterGuard x w1 rawBody af format = (w', r)"
    by blast
  then show ?thesis
  proof cases
    case early
    with inv show ?thesis by simp
  next
    case late
    from ensureIdempotency_same[OF late(1)] have "af_versions w1 = af_versions w"
      by (rule same_but_dedupD)
    from one_latest_same[OF this] inv have "one_latest w1" by simp
    then show ?thesis using late(2) by (rule publishAfterGuard_one_latest)
  qed
qed

lemma publish_all_one_latest:
  "one_latest w \<Longrightarrow> one_latest (publish_all x w reqs)"
proof (induction reqs arbitrary: w)
  case Nil
  then show ?case by simp
next
  case (Cons req reqs)
  obtain rawBody key where req: "req = (rawBody, key)" by (cases req)
  obtain w' r where run: "handlePublishTemplate x w rawBody key = (w', r)"
    by (cases "handlePublishTemplate x w rawBody key")
  from handlePublishTemplate_one_latest[OF Cons.prems run] have "one_latest w'" .
  with Cons.IH[of w'] req run show ?case by simp
qed

lemma handlePublishTemplate_success:
  assumes run: "handlePublishTemplate x w rawBody key = (w', PublishResponse f t v c l)"
  obtains w1 af where "parseAgentFile x rawBody = Inr (rawBody, af, f)"
      "ensureIdempotency x w key rawBody = Inr w1" "supabase_client w"
      "valid (validateAgentFile af)" "t = template_id af" "v = template_version af"
      "c = sha256 x rawBody" "l"
      "\<forall>row \<in> set (af_versions w). \<not> (v_template_id row = t \<and> v_version row = v)"
      "af_versions w'
            = map (\<lambda>r. if v_template_id r = t \<and> v_version r \<noteq> v
                       then r\<lparr>v_is_latest := False\<rparr> else r) (af_versions w)
              @ [\<lparr> v_template_id = t, v_version = v, v_af_source = rawBody,
                   v_checksum = sha256 x rawBody, v_is_latest = True, v_published_by = None \<rparr>]"
      "request_dedup w' = request_dedup w1" "supabase_client w'"
proof -
  from handlePublishTemplate_cases[OF run]
  obtain w1 af format where sup: "supabase_client w"
    and parse: "parseAgentFile x rawBody = Inr (rawBody, af, format)"
    and guard: "ensureIdempotency x w key rawBody = Inr w1"
    and tail: "publishAfterGuard x w1 rawBody af format = (w', PublishResponse f t v c l)"
    by auto
  note same = same_but_dedupD[OF ensureIdempotency_same[OF guard]]
  from publishAfterGuard_cases[OF tail]
  have ok: "valid (validateAgentFile af)"
    and resp: "PublishResponse f t v c l
        = PublishResponse format (template_id af) (template_version af) (sha256 x rawBody) True"
    and fresh: "\<forall>row \<in> set (af_versions w1).
              \<not> (v_template_id row = template_id af \<and> v_version row = template_version af)"
    and rows: "af_versions w'
            = map (\<lambda>r. if v_template_id r = template_id af \<and> v_version r \<noteq> template_version af
                       then r\<lparr>v_is_latest := False\<rparr> else r) (af_versions w1)
              @ [\<lparr> v_template_id = template_id af, v_version = template_version af,
                   v_af_source = rawBody, v_checksum = sha256 x rawBody, v_is_latest = True,
                   v_published_by = None \<rparr>]"
    and keep: "request_dedup w' = request_dedup w1" "supabase_client w' = supabase_client w1"
    by simp_all
  from resp have eqs: "f = format" "t = template_id af" "v = template_version af"
    "c = sha256 x rawBody" "l"
    by simp_all
  show thesis
  proof (rule that[of af w1])
    show "parseAgentFile x rawBody = Inr (rawBody, af, f)" using parse eqs by simp
    show "ensureIdempotency x w key rawBody = Inr w1" by (rule guard)
    show "supabase_client w" by (rule sup)
    show "valid (validateAgentFile af)" by (rule ok)
    show "t = template_id af" "v = template_version af" "c = sha256 x rawBody" "l"
      by (rule eqs)+
    show "\<forall>row \<in> set (af_versions w). \<not> (v_template_id row = t \<and> v_version row = v)"
      using fresh same(5) eqs by simp
    show "af_versions w'
            = map (\<lambda>r. if v_template_id r = t \<and> v_version r \<noteq> v
                       then r\<lparr>v_is_latest := False\<rparr> else r) (af_versions w)
              @ [\<lparr> v_template_id = t, v_version = v, v_af_source = rawBody,
                   v_checksum = sha256 x rawBody, v_is_latest = True, v_published_by = None \<rparr>]"
      using rows same(5) eqs by simp
    show "request_dedup w' = request_dedup w1" by (rule keep)
    show "supabase_client w'" using keep same(1) sup by simp
  qed
qed

lemma published_rows:
  assumes fresh: "\<forall>row \<in> set rows. \<not> (v_template_id row = t \<and> v_version row = v)"
    and rows': "rows'
            = map (\<lambda>r. if v_template_id r = t \<and> v_version r \<noteq> v
                       then r\<lparr>v_is_latest := False\<rparr> else r) rows
              @ [\<lparr> v_template_id = t, v_version = v, v_af_source = raw,
                   v_checksum = c, v_is_latest = True, v_published_by = None \<rparr>]"
  shows "\<forall>row \<in> set rows'. v_template_id row = t \<longrightarrow> (v_is_latest row \<longleftrightarrow> v_version row = v)"
    and "\<exists>row \<in> set rows'. v_template_id row = t \<and> v_version row = v"
proof -
  show "\<exists>row \<in> set rows'. v_template_id row = t \<and> v_version row = v"
    by (simp add: rows')
  show "\<forall>row \<in> set rows'. v_template_id row = t \<longrightarrow> (v_is_latest row \<longleftrightarrow> v_version row = v)"
  proof
    fix row assume "row \<in> set rows'"
    then consider "row = \<lparr> v_template_id = t, v_version = v, v_af_source = raw,
                   v_checksum = c, v_is_latest = True, v_published_by = None \<rparr>"
      | old where "old \<in> set rows"
          "row = (if v_template_id old = t \<and> v_version old \<noteq> v
                  then old\<lparr>v_is_latest := False\<rparr> else old)"
      by (auto simp: rows')
    then show "v_template_id row = t \<longrightarrow> (v_is_latest row \<longleftrightarrow> v_version row = v)"
    proof cases
      case 1
      then show ?thesis by simp
    next
      case 2
      with fresh have "\<not> (v_template_id old = t \<and> v_version old = v)" by blast
      with 2 show ?thesis by (cases "v_template_id old = t") simp_all
    qed
  qed
qed

text \<open>
  Claim C5. If at most one version of every template is flagged as the latest (as in the
  empty store), the same holds after any finite sequence of publish requests. A
  successful publish answers \<open>is_latest = true\<close> and leaves the store with the new version
  present and flagged, and with the flag cleared on every other version of its template.
\<close>

theorem publish_one_latest:
  assumes "one_latest w"
  shows "one_latest (publish_all x w reqs)
    \<and> (handlePublishTemplate x w rawBody key = (w', PublishResponse f t v c l) \<longrightarrow>
         l \<and> one_latest w'
         \<and> (\<forall>row \<in> set (af_versions w').
               v_template_id row = t \<longrightarrow> (v_is_latest row \<longleftrightarrow> v_version row = v))
         \<and> (\<exists>row \<in> set (af_versions w'). v_template_id row = t \<and> v_version row = v))"
proof (intro conjI impI)
  from assms show "one_latest (publish_all x w reqs)" by (rule publish_all_one_latest)
next
  assume run: "handlePublishTemplate x w rawBody key = (w', PublishResponse f t v c l)"
  from assms run show "one_latest w'" by (rule handlePublishTemplate_one_latest)
  show l by (rule handlePublishTemplate_success[OF run])
  show "\<forall>row \<in> set (af_versions w').
               v_template_id row = t \<longrightarrow> (v_is_latest row \<longleftrightarrow> v_version row = v)"
    by (rule handlePublishTemplate_success[OF run]) (rule published_rows(1))
  show "\<exists>row \<in> set (af_versions w'). v_template_id row = t \<and> v_version row = v"
    by (rule handlePublishTemplate_success[OF run]) (rule published_rows(2))
qed


theorem publish_one_latest_witness:
  "one_latest empty_world
   \<and> one_latest (publish_all sample_ext empty_world
        [(sample_source ''1.0.0'', None), (sample_source ''1.0.1'', Some ''key-1''),
         (sample_source ''1.0.0'', None)])
   \<and> map (\<lambda>row. (v_version row, v_is_latest row))
        (af_versions (publish_all sample_ext empty_world
           [(sample_source ''1.0.0'', None), (sample_source ''1.0.1'', Some ''key-1''),
            (sample_source ''1.0.0'', None)]))
      = [(''1.0.0'', False), (''1.0.1'', True)]
   \<and> handlePublishTemplate sample_ext empty_world (sample_source ''1.0.0'') None
      = (published_world,
         PublishResponse ''json'' ''sample-support-agent'' ''1.0.0'' (sample_source ''1.0.0'') True)
   \<and> one_latest published_world
   \<and> map (\<lambda>row. (v_template_id row, v_version row, v_is_latest row))
        (af_versions published_world)
      = [(''sample-support-agent'', ''1.0.0'', True)]"
proof -
  have start: "one_latest empty_world"
    by (simp add: one_latest_def latest_rows_def empty_world_def)
  have run: "handlePublishTemplate sample_ext empty_world (sample_source ''1.0.0'') None
      = (published_world,
         PublishResponse ''json'' ''sample-support-agent'' ''1.0.0'' (sample_source ''1.0.0'') True)"
    by code_simp
  have rows: "map (\<lambda>row. (v_version row, v_is_latest row))
        (af_versions (publish_all sample_ext empty_world
           [(sample_source ''1.0.0'', None), (sample_source ''1.0.1'', Some ''key-1''),
            (sample_source ''1.0.0'', None)]))
      = [(''1.0.0'', False), (''1.0.1'', True)]"
    by code_simp
  note main = publish_one_latest[OF start, where x = sample_ext
        and reqs = "[(sample_source ''1.0.0'', None), (sample_source ''1.0.1'', Some ''key-1''),
                     (sample_source ''1.0.0'', None)]"
        and rawBody = "sample_source ''1.0.0''" and key = None and w' = published_world
        and f = "''json''" and t = "''sample-support-agent''" and v = "''1.0.0''"
        and c = "sample_source ''1.0.0''" and l = True]
  from main have seq: "one_latest (publish_all sample_ext empty_world
        [(sample_source ''1.0.0'', None), (sample_source ''1.0.1'', Some ''key-1''),
         (sample_source ''1.0.0'', None)])"
    by (rule conjunct1)
  from main run have inv: "one_latest published_world" by simp
  have stored: "map (\<lambda>row. (v_template_id row, v_version row, v_is_latest row))
        (af_versions published_world)
      = [(''sample-support-agent'', ''1.0.0'', True)]"
    by (simp add: published_world_def empty_world_def)
  from start seq rows run inv stored show ?thesis
    by (intro conjI)
qed

section \<open>Publishing a version twice\<close>


lemma publishAfterGuard_present:
  assumes ok: "valid (validateAgentFile af)"
    and present: "\<exists>row \<in> set (af_versions w1).
                    v_template_id row = template_id af \<and> v_version row = template_version af"
  shows "publishAfterGuard x w1 raw af format
         = (w1, ErrorResponse 400 ''Version already published'')"
proof -
  from present have "template_version af
      \<in> set (map v_version (filter (\<lambda>r. v_template_id r = template_id af) (af_versions w1)))"
    by (force simp: image_iff)
  then have "assessSemver (template_version af)
       (map v_version (filter (\<lambda>r. v_template_id r = template_id af) (af_versions w1)))
     = Inr (Rejected ''Version already published'')"
    by (rule assessSemver_present)
  with ok show ?thesis by (simp add: publishAfterGuard_def Let_def)
qed

lemma publishAfterGuard_present_unchanged:
  assumes present: "\<exists>row \<in> set (af_versions w1).
                    v_template_id row = template_id af \<and> v_version row = template_version af"
    and run: "publishAfterGuard x w1 raw af format = (w', r)"
  shows "w' = w1"
    and "(\<exists>status message. r = ErrorResponse status message) \<or> (\<exists>es. r = ValidationFailed es)"
  using publishAfterGuard_cases[OF run] present by blast+

lemma publishAfterGuard_allowed:
  assumes ok: "valid (validateAgentFile af)"
    and gate: "assessSemver (template_version af)
        (map v_version (filter (\<lambda>r. v_template_id r = template_id af) (af_versions w1)))
      = Inr Allowed"
  shows "snd (publishAfterGuard x w1 raw af format)
         = PublishResponse format (template_id af) (template_version af) (sha256 x raw) True"
proof -
  from gate have "template_version af
      \<notin> set (map v_version (filter (\<lambda>r. v_template_id r = template_id af) (af_versions w1)))"
    by (rule assessSemver_Allowed_fresh)
  then have fresh: "\<not> (\<exists>r \<in> set (af_versions w1).
      v_template_id r = template_id af \<and> v_version r = template_version af)"
    by (force simp: image_iff)
  from ok gate fresh show ?thesis by (simp add: publishAfterGuard_def Let_def)
qed

lemma map_of_snoc_fresh: "map_of xs k = None \<Longrightarrow> map_of (xs @ [(k, v)]) k = Some v"
  by (simp add: map_add_def)

text \<open>
  Claim C4, as amended. With the store client initialised, a publish request succeeds
  when its body parses, its idempotency key (if it has one) has no record yet, the agent
  file is valid and the SemVer gate allows the version: the answer carries the template,
  the version and the SHA-256 of the body, and the store then holds the row of that
  version with the published content and its checksum. Publishing the same body again
  without a key is rejected with the error that the version is already published;
  publishing it again with the key of the first request is rejected with the
  duplicate-request error of the guard. Every later publish request for the same
  template and version, whatever its body and key, fails and leaves all stored versions
  as they were; it fails with the already-published error whenever it passes the
  idempotency guard and validation.
\<close>

theorem publish_twice:
  assumes sup: "supabase_client w"
    and parse: "parseAgentFile x b = Inr (b, af, f)"
    and fresh: "truthy k \<longrightarrow> map_of (request_dedup w) (the k) = None"
    and ok: "valid (validateAgentFile af)"
    and gate: "assessSemver (template_version af)
        (map v_version (filter (\<lambda>r. v_template_id r = template_id af) (af_versions w)))
      = Inr Allowed"
  shows "\<exists>w1. handlePublishTemplate x w b k
        = (w1, PublishResponse f (template_id af) (template_version af) (sha256 x b) True)
    \<and> \<lparr> v_template_id = template_id af, v_version = template_version af, v_af_source = b,
          v_checksum = sha256 x b, v_is_latest = True, v_published_by = None \<rparr>
        \<in> set (af_versions w1)
    \<and> handlePublishTemplate x w1 b None = (w1, ErrorResponse 400 ''Version already published'')
    \<and> (truthy k \<longrightarrow>
          handlePublishTemplate x w1 b k = (w1, ErrorResponse 409 ''Duplicate request''))
    \<and> (\<forall>b2 k2 af2 f2 w2 r2.
          parseAgentFile x b2 = Inr (b2, af2, f2) \<and> template_id af2 = template_id af
          \<and> template_version af2 = template_version af
          \<and> handlePublishTemplate x w1 b2 k2 = (w2, r2)
          \<longrightarrow> af_versions w2 = af_versions w1
              \<and> ((\<exists>status message. r2 = ErrorResponse status message)
                  \<or> (\<exists>es. r2 = ValidationFailed es))
              \<and> (valid (validateAgentFile af2) \<and> (\<exists>wg. ensureIdempotency x w1 k2 b2 = Inr wg)
                   \<longrightarrow> r2 = ErrorResponse 400 ''Version already published''))"
proof -
  let ?t = "template_id af" and ?v = "template_version af"
  let ?wg = "if truthy k then w\<lparr>request_dedup := request_dedup w @ [(the k, sha256 x b)]\<rparr> else w"
  have guard: "ensureIdempotency x w k b = Inr ?wg"
    using sup fresh by (simp add: ensureIdempotency_def Let_def)
  have versions: "af_versions ?wg = af_versions w" by simp
  have handler: "handlePublishTemplate x w b k = publishAfterGuard x ?wg b af f"
    using sup parse guard by (simp add: handlePublishTemplate_def)
  from gate versions have gate': "assessSemver ?v
        (map v_version (filter (\<lambda>r. v_template_id r = ?t) (af_versions ?wg))) = Inr Allowed"
    by simp
  obtain w1 where first: "handlePublishTemplate x w b k
      = (w1, PublishResponse f ?t ?v (sha256 x b) True)"
    using publishAfterGuard_allowed[OF ok gate', of x b f] handler
    by (metis prod.collapse)
  from first obtain w0 af' where parse': "parseAgentFile x b = Inr (b, af', f)"
    and guard': "ensureIdempotency x w k b = Inr w0"
    and rows: "af_versions w1
            = map (\<lambda>r. if v_template_id r = ?t \<and> v_version r \<noteq> ?v
                       then r\<lparr>v_is_latest := False\<rparr> else r) (af_versions w)
              @ [\<lparr> v_template_id = ?t, v_version = ?v, v_af_source = b,
                   v_checksum = sha256 x b, v_is_latest = True, v_published_by = None \<rparr>]"
    and dedup: "request_dedup w1 = request_dedup w0"
    and sup1: "supabase_client w1"
    by (rule handlePublishTemplate_success)
  from guard guard' have w0: "w0 = ?wg" by simp
  have stored: "\<lparr> v_template_id = ?t, v_version = ?v, v_af_source = b, v_checksum = sha256 x b,
          v_is_latest = True, v_published_by = None \<rparr> \<in> set (af_versions w1)"
    by (simp add: rows)
  then have present: "\<exists>row \<in> set (af_versions w1). v_template_id row = ?t \<and> v_version row = ?v"
    by (intro bexI[of _ "\<lparr> v_template_id = ?t, v_version = ?v, v_af_source = b,
          v_checksum = sha256 x b, v_is_latest = True, v_published_by = None \<rparr>"]) simp_all
  have again: "handlePublishTemplate x w1 b None
       = (w1, ErrorResponse 400 ''Version already published'')"
    using sup1 parse ok present
    by (simp add: handlePublishTemplate_def ensureIdempotency_def publishAfterGuard_present)
  have retry: "handlePublishTemplate x w1 b k = (w1, ErrorResponse 409 ''Duplicate request'')"
    if key: "truthy k"
  proof -
    from key fresh have "map_of (request_dedup w) (the k) = None" by simp
    then have "map_of (request_dedup w @ [(the k, sha256 x b)]) (the k) = Some (sha256 x b)"
      by (rule map_of_snoc_fresh)
    moreover from key have "request_dedup w1 = request_dedup w @ [(the k, sha256 x b)]"
      by (simp add: dedup w0)
    ultimately have "map_of (request_dedup w1) (the k) = Some (sha256 x b)"
      by simp
    with sup1 key have "ensureIdempotency x w1 k b = Inl (IdempotencyError ''Duplicate request'')"
      by (simp add: ensureIdempotency_def Let_def)
    with sup1 parse show ?thesis
      by (simp add: handlePublishTemplate_def catch_response_def)
  qed
  have other: "af_versions w2 = af_versions w1
              \<and> ((\<exists>status message. r2 = ErrorResponse status message)
                  \<or> (\<exists>es. r2 = ValidationFailed es))
              \<and> (valid (validateAgentFile af2) \<and> (\<exists>wg. ensureIdempotency x w1 k2 b2 = Inr wg)
                   \<longrightarrow> r2 = ErrorResponse 400 ''Version already published'')"
    if p2: "parseAgentFile x b2 = Inr (b2, af2, f2)" and t2: "template_id af2 = ?t"
      and v2: "template_version af2 = ?v" and run2: "handlePublishTemplate x w1 b2 k2 = (w2, r2)"
    for b2 k2 af2 f2 w2 r2
  proof -
    show ?thesis
    proof (cases "ensureIdempotency x w1 k2 b2")
      case (Inl e)
      with run2 sup1 p2 have "w2 = w1" "r2 = catch_response e"
        by (simp_all add: handlePublishTemplate_def)
      with Inl catch_response_error[of e] show ?thesis by auto
    next
      case (Inr wg)
      with run2 sup1 p2 have late: "ensureIdempotency x w1 k2 b2 = Inr wg"
        "publishAfterGuard x wg b2 af2 f2 = (w2, r2)"
        by (simp_all add: handlePublishTemplate_def)
      from ensureIdempotency_same[OF late(1)] have same: "af_versions wg = af_versions w1"
        by (rule same_but_dedupD)
      with present t2 v2 have present2: "\<exists>row \<in> set (af_versions wg).
          v_template_id row = template_id af2 \<and> v_version row = template_version af2"
        by simp
      from publishAfterGuard_present_unchanged[OF present2 late(2)] same
      have "af_versions w2 = af_versions w1"
        and "(\<exists>status message. r2 = ErrorResponse status message) \<or> (\<exists>es. r2 = ValidationFailed es)"
        by simp_all
      moreover have "r2 = ErrorResponse 400 ''Version already published''"
        if "valid (validateAgentFile af2)"
        using publishAfterGuard_present[OF that present2, of x b2 f2] late(2) by simp
      ultimately show ?thesis by blast
    qed
  qed
  from first stored again retry other show ?thesis by blast
qed


theorem publish_twice_witness:
  "handlePublishTemplate sample_ext empty_world (sample_source ''1.0.0'') (Some ''key-1'')
     = (published_world\<lparr>request_dedup := [(''key-1'', sample_source ''1.0.0'')]\<rparr>,
        PublishResponse ''json'' ''sample-support-agent'' ''1.0.0'' (sample_source ''1.0.0'') True)
   \<and> \<lparr> v_template_id = ''sample-support-agent'', v_version = ''1.0.0'',
        v_af_source = sample_source ''1.0.0'', v_checksum = sample_source ''1.0.0'',
        v_is_latest = True, v_published_by = None \<rparr>
       \<in> set (af_versions (published_world\<lparr>request_dedup := [(''key-1'', sample_source ''1.0.0'')]\<rparr>))
   \<and> handlePublishTemplate sample_ext
        (published_world\<lparr>request_dedup := [(''key-1'', sample_source ''1.0.0'')]\<rparr>)
        (sample_source ''1.0.0'') None
     = (published_world\<lparr>request_dedup := [(''key-1'', sample_source ''1.0.0'')]\<rparr>,
        ErrorResponse 400 ''Version already published'')
   \<and> handlePublishTemplate sample_ext
        (published_world\<lparr>request_dedup := [(''key-1'', sample_source ''1.0.0'')]\<rparr>)
        (sample_source ''1.0.0'') (Some ''key-1'')
     = (published_world\<lparr>request_dedup := [(''key-1'', sample_source ''1.0.0'')]\<rparr>,
        ErrorResponse 409 ''Duplicate request'')
   \<and> handlePublishTemplate sample_ext
        (published_world\<lparr>request_dedup := [(''key-1'', sample_source ''1.0.0'')]\<rparr>)
        (sample_source ''1.0.0'') (Some ''key-2'')
     = (published_world\<lparr>request_dedup := [(''key-1'', sample_source ''1.0.0''),
                                            (''key-2'', sample_source ''1.0.0'')]\<rparr>,
        ErrorResponse 400 ''Version already published'')
   \<and> af_versions (published_world\<lparr>request_dedup := [(''key-1'', sample_source ''1.0.0''),
                                            (''key-2'', sample_source ''1.0.0'')]\<rparr>)
     = af_versions (published_world\<lparr>request_dedup := [(''key-1'', sample_source ''1.0.0'')]\<rparr>)"
proof -
  let ?w1 = "published_world\<lparr>request_dedup := [(''key-1'', sample_source ''1.0.0'')]\<rparr>"
  let ?w2 = "published_world\<lparr>request_dedup := [(''key-1'', sample_source ''1.0.0''),
                                            (''key-2'', sample_source ''1.0.0'')]\<rparr>"
  have sup: "supabase_client empty_world" by (simp add: empty_world_def)
  have parse: "parseAgentFile sample_ext (sample_source ''1.0.0'')
     = Inr (sample_source ''1.0.0'', sample_file ''1.0.0'', ''json'')"
    by code_simp
  have fresh: "truthy (Some ''key-1'') \<longrightarrow> map_of (request_dedup empty_world) (the (Some ''key-1'')) = None"
    by (simp add: empty_world_def)
  have ok: "valid (validateAgentFile (sample_file ''1.0.0''))"
    by code_simp
  have gate: "assessSemver (template_version (sample_file ''1.0.0''))
        (map v_version (filter (\<lambda>r. v_template_id r = template_id (sample_file ''1.0.0''))
           (af_versions empty_world)))
      = Inr Allowed"
    by code_simp
  have ids: "template_id (sample_file ''1.0.0'') = ''sample-support-agent''"
    "template_version (sample_file ''1.0.0'') = ''1.0.0''"
    by (simp_all add: sample_file_def)
  have digest: "sha256 sample_ext (sample_source ''1.0.0'') = sample_source ''1.0.0''"
    by (simp add: sample_ext_def)
  have key: "truthy (Some ''key-1'')" by simp
  have first: "handlePublishTemplate sample_ext empty_world (sample_source ''1.0.0'') (Some ''key-1'')
     = (?w1, PublishResponse ''json'' ''sample-support-agent'' ''1.0.0'' (sample_source ''1.0.0'') True)"
    by code_simp
  have second: "handlePublishTemplate sample_ext ?w1 (sample_source ''1.0.0'') (Some ''key-2'')
     = (?w2, ErrorResponse 400 ''Version already published'')"
    by code_simp
  from publish_twice[OF sup parse fresh ok gate] obtain w1
    where run: "handlePublishTemplate sample_ext empty_world (sample_source ''1.0.0'') (Some ''key-1'')
        = (w1, PublishResponse ''json'' ''sample-support-agent'' ''1.0.0'' (sample_source ''1.0.0'') True)"
      and stored: "\<lparr> v_template_id = ''sample-support-agent'', v_version = ''1.0.0'',
          v_af_source = sample_source ''1.0.0'', v_checksum = sample_source ''1.0.0'',
          v_is_latest = True, v_published_by = None \<rparr> \<in> set (af_versions w1)"
      and again: "handlePublishTemplate sample_ext w1 (sample_source ''1.0.0'') None
          = (w1, ErrorResponse 400 ''Version already published'')"
      and retry: "handlePublishTemplate sample_ext w1 (sample_source ''1.0.0'') (Some ''key-1'')
          = (w1, ErrorResponse 409 ''Duplicate request'')"
      and other: "\<And>b2 k2 af2 f2 w2 r2.
          parseAgentFile sample_ext b2 = Inr (b2, af2, f2) \<Longrightarrow> template_id af2 = ''sample-support-agent''
          \<Longrightarrow> template_version af2 = ''1.0.0''
          \<Longrightarrow> handlePublishTemplate sample_ext w1 b2 k2 = (w2, r2)
          \<Longrightarrow> af_versions w2 = af_versions w1"
    unfolding ids digest using key by blast
  from run first have w1: "w1 = ?w1" by simp
  from other[OF parse ids, of "Some ''key-2''" ?w2] second w1
  have same: "af_versions ?w2 = af_versions ?w1" by simp
  from first stored[unfolded w1] again[unfolded w1] retry[unfolded w1] second same
  show ?thesis by (intro conjI)
qed

text \<open>
  The claim as stated fails twice: a second publish that repeats the idempotency key of
  the first is answered with the duplicate-request error of the guard, not with the
  error that the version is already published; and the first publish of a pair does not
  succeed when the SemVer gate rejects the version.
\<close>

theorem publish_twice_counterexample:
  "handlePublishTemplate sample_ext empty_world (sample_source ''1.0.0'') (Some ''key-1'')
     = (published_world\<lparr>request_dedup := [(''key-1'', sample_source ''1.0.0'')]\<rparr>,
        PublishResponse ''json'' ''sample-support-agent'' ''1.0.0'' (sample_source ''1.0.0'') True)
   \<and> handlePublishTemplate sample_ext
        (published_world\<lparr>request_dedup := [(''key-1'', sample_source ''1.0.0'')]\<rparr>)
        (sample_source ''1.0.0'') (Some ''key-1'')
     = (published_world\<lparr>request_dedup := [(''key-1'', sample_source ''1.0.0'')]\<rparr>,
        ErrorResponse 409 ''Duplicate request'')
   \<and> handlePublishTemplate sample_ext published_world (sample_source ''0.9.0'') None
     = (published_world, ErrorResponse 400 ''Version 0.9.0 is lower than latest 1.0.0'')"
proof -
  have a: "handlePublishTemplate sample_ext empty_world (sample_source ''1.0.0'') (Some ''key-1'')
     = (published_world\<lparr>request_dedup := [(''key-1'', sample_source ''1.0.0'')]\<rparr>,
        PublishResponse ''json'' ''sample-support-agent'' ''1.0.0'' (sample_source ''1.0.0'') True)"
    by code_simp
  have b: "handlePublishTemplate sample_ext
        (published_world\<lparr>request_dedup := [(''key-1'', sample_source ''1.0.0'')]\<rparr>)
        (sample_source ''1.0.0'') (Some ''key-1'')
     = (published_world\<lparr>request_dedup := [(''key-1'', sample_source ''1.0.0'')]\<rparr>,
        ErrorResponse 409 ''Duplicate request'')"
    by code_simp
  have c: "handlePublishTemplate sample_ext published_world (sample_source ''0.9.0'') None
     = (published_world, ErrorResponse 400 ''Version 0.9.0 is lower than latest 1.0.0'')"
    by code_simp
  from a b c show ?thesis by (intro conjI)
qed

section \<open>Retrying a request whose processing failed after the guard\<close>

lemma dispatchUpgrade_keeps:
  assumes d: "dispatchUpgrade x w1 agentId payload agentRecord template plan dr = (w', r)"
  shows "request_dedup w' = request_dedup w1" "supabase_client w' = supabase_client w1"
    "ZUPLO_BASE_URL w' = ZUPLO_BASE_URL w1"
proof -
  have "request_dedup w' = request_dedup w1 \<and> supabase_client w' = supabase_client w1
    \<and> ZUPLO_BASE_URL w' = ZUPLO_BASE_URL w1"
  proof (cases "case dry_run payload of None \<Rightarrow> True | Some b \<Rightarrow> b")
    case True
    with d have "w' = logMigration w1 agentId (i_version agentRecord) (template_version template)
                 True plan (diff dr)"
      by (simp add: dispatchUpgrade_def)
    then show ?thesis by (simp add: logMigration_def)
  next
    case wet: False
    show ?thesis
    proof (cases "use_queue payload = Some True")
      case True
      with d wet show ?thesis
        by (auto simp: dispatchUpgrade_def enqueueUpgradeJob_def split: if_splits)
    next
      case direct: False
      obtain w2 res where upd: "updateLettaAgent x w1 agentId (updatedConfig dr) = (w2, res)"
        by (cases "updateLettaAgent x w1 agentId (updatedConfig dr)")
      then have "w2 = fst (updateLettaAgent x w1 agentId (updatedConfig dr))" by simp
      then have w2: "request_dedup w2 = request_dedup w1" "supabase_client w2 = supabase_client w1"
        "ZUPLO_BASE_URL w2 = ZUPLO_BASE_URL w1"
        by (simp_all add: fst_updateLettaAgent)
      show ?thesis
      proof (cases res)
        case (Inl e)
        with d wet direct upd have "w' = w2" by (simp add: dispatchUpgrade_def)
        with w2 show ?thesis by simp
      next
        case (Inr applied)
        with d wet direct upd have "w' = logMigration
                   (w2\<lparr>agent_instances :=
                            map (\<lambda>r. if i_agent_id r = agentId
                                     then r\<lparr>i_version := template_version template\<rparr> else r)
                                (agent_instances w2)\<rparr>)
                   agentId (i_version agentRecord) (template_version template)
                    False plan (diff dr)"
          by (simp add: dispatchUpgrade_def Let_def)
        with w2 show ?thesis by (simp add: logMigration_def)
      qed
    qed
  qed
  then show "request_dedup w' = request_dedup w1" "supabase_client w' = supabase_client w1"
    "ZUPLO_BASE_URL w' = ZUPLO_BASE_URL w1"
    by simp_all
qed

lemma ensureIdempotency_fresh:
  assumes "supabase_client w" "k \<noteq> []" "map_of (request_dedup w) k = None"
  shows "ensureIdempotency x w (Some k) p
         = Inr (w\<lparr>request_dedup := request_dedup w @ [(k, sha256 x p)]\<rparr>)"
  using assms by (simp add: ensureIdempotency_def Let_def)

lemma ensureIdempotency_repeat:
  assumes "supabase_client w" "k \<noteq> []" "map_of (request_dedup w) k = Some (sha256 x p)"
  shows "ensureIdempotency x w (Some k) p = Inl (IdempotencyError ''Duplicate request'')"
  using assms by (simp add: ensureIdempotency_def Let_def)

lemma fst_createLettaAgent:
  "fst (createLettaAgent x w cfg)
   = (if truthy (LETTA_API_KEY w) then w\<lparr>letta_creates := letta_creates w @ [cfg]\<rparr> else w)"
  by (cases "letta_post x cfg") (simp_all add: createLettaAgent_def Let_def)

lemma upsertAgentInstance_keeps:
  assumes "upsertAgentInstance w row = Inr w'"
  shows "request_dedup w' = request_dedup w \<and> supabase_client w' = supabase_client w
    \<and> ZUPLO_BASE_URL w' = ZUPLO_BASE_URL w"
proof (cases "\<exists>r \<in> set (agent_instances w). i_agent_id r = i_agent_id row")
  case True
  with assms have "w' = w\<lparr>agent_instances :=
                    map (\<lambda>r. if i_agent_id r = i_agent_id row then row else r)
                        (agent_instances w)\<rparr>"
    by (simp add: upsertAgentInstance_def split: if_splits)
  then show ?thesis by simp
next
  case False
  with assms have "w' = w\<lparr>agent_instances := agent_instances w @ [row]\<rparr>"
    by (simp add: upsertAgentInstance_def split: if_splits)
  then show ?thesis by simp
qed

lemma upsertUserProfileAgent_keeps:
  assumes "upsertUserProfileAgent w userId agentId = Inr w'"
  shows "request_dedup w' = request_dedup w \<and> supabase_client w' = supabase_client w
    \<and> ZUPLO_BASE_URL w' = ZUPLO_BASE_URL w"
proof (cases "supabase_client w")
  case False
  with assms show ?thesis by (simp add: upsertUserProfileAgent_def)
next
  case sup: True
  show ?thesis
  proof (cases "find (\<lambda>r. u_id r = userId) (user_profiles w)")
    case None
    with assms sup have "w' = w\<lparr>user_profiles := user_profiles w @
                             [\<lparr> u_id = userId, u_letta_agent_id = Some agentId \<rparr>]\<rparr>"
      by (simp add: upsertUserProfileAgent_def split: if_splits)
    then show ?thesis by simp
  next
    case (Some existing)
    with assms sup have "w' = w\<lparr>user_profiles :=
                      map (\<lambda>r. if u_id r = userId then r\<lparr>u_letta_agent_id := Some agentId\<rparr> else r)
                          (user_profiles w)\<rparr>"
      by (simp add: upsertUserProfileAgent_def split: if_splits)
    then show ?thesis by simp
  qed
qed

lemma createAfterGuard_keeps:
  assumes run: "createAfterGuard x w1 payload userId = (w', r)"
  shows "request_dedup w' = request_dedup w1 \<and> supabase_client w' = supabase_client w1
    \<and> ZUPLO_BASE_URL w' = ZUPLO_BASE_URL w1"
proof (cases "resolveTemplateVersion x w1 (p_template_id payload) (p_version payload)
             (case p_use_latest payload of None \<Rightarrow> False | Some b \<Rightarrow> b)")
  case (Inl e)
  with run show ?thesis by (simp add: createAfterGuard_def)
next
  case resolved: (Inr tr)
  obtain template raw where tr: "tr = (template, raw)" by (cases tr)
  let ?variables = "case p_variables payload of None \<Rightarrow> [] | Some vs \<Rightarrow> vs"
  show ?thesis
  proof (cases "validateTemplateVariables template ?variables")
    case (Inl e)
    with run resolved tr show ?thesis by (simp add: createAfterGuard_def)
  next
    case checked: (Inr u)
    show ?thesis
    proof (cases "buildAgentConfigFromTemplate w1 template userId")
      case (Inl e)
      with run resolved tr checked show ?thesis by (simp add: createAfterGuard_def)
    next
      case built: (Inr cfg0)
      let ?cfg = "if truthy (p_agent_name payload)
                 then AList.update ''name'' (JStr (the (p_agent_name payload))) cfg0
                 else cfg0"
      obtain w2 res where created: "createLettaAgent x w1 ?cfg = (w2, res)"
        by (cases "createLettaAgent x w1 ?cfg")
      then have "w2 = fst (createLettaAgent x w1 ?cfg)" by simp
      then have w2: "request_dedup w2 = request_dedup w1 \<and> supabase_client w2 = supabase_client w1
          \<and> ZUPLO_BASE_URL w2 = ZUPLO_BASE_URL w1"
        by (simp add: fst_createLettaAgent)
      show ?thesis
      proof (cases res)
        case (Inl e)
        with run resolved tr checked built created have "w' = w2"
          by (simp add: createAfterGuard_def Let_def)
        with w2 show ?thesis by simp
      next
        case ok: (Inr ia)
        obtain agentId agent where ia: "ia = (agentId, agent)" by (cases ia)
        let ?row = "\<lparr> i_agent_id = agentId, i_user_id = userId,
               i_template_id = template_id template, i_version = template_version template,
               i_variables = JObj ?variables \<rparr>"
        show ?thesis
        proof (cases "upsertAgentInstance w2 ?row")
          case (Inl e)
          with run resolved tr checked built created ok ia have "w' = w2"
            by (simp add: createAfterGuard_def Let_def)
          with w2 show ?thesis by simp
        next
          case recorded: (Inr w3)
          note w3 = upsertAgentInstance_keeps[OF recorded]
          show ?thesis
          proof (cases "upsertUserProfileAgent w3 userId agentId")
            case (Inl e)
            with run resolved tr checked built created ok ia recorded have "w' = w3"
              by (simp add: createAfterGuard_def Let_def)
            with w2 w3 show ?thesis by simp
          next
            case (Inr w4)
            with run resolved tr checked built created ok ia recorded have "w' = w4"
              by (simp add: createAfterGuard_def Let_def)
            with w2 w3 upsertUserProfileAgent_keeps[OF Inr] show ?thesis by simp
          qed
        qed
      qed
    qed
  qed
qed


lemma createLettaAgent_ok:
  "createLettaAgent x w cfg = (w2, Inr a) \<Longrightarrow> w2 = w\<lparr>letta_creates := letta_creates w @ [cfg]\<rparr>"
  by (cases "letta_post x cfg") (auto simp: createLettaAgent_def Let_def split: if_splits)

lemma upsertAgentInstance_instances:
  "upsertAgentInstance w row = Inr w' \<Longrightarrow> \<exists>rows. w' = w\<lparr>agent_instances := rows\<rparr>"
  by (auto simp: upsertAgentInstance_def split: if_splits)

text \<open>What a create request that is answered with an error leaves behind.\<close>

lemma createAfterGuard_error:
  assumes run: "createAfterGuard x w1 payload userId = (w', ErrorResponse status message)"
  shows "w' = w1\<lparr>letta_creates := letta_creates w', agent_instances := agent_instances w'\<rparr>
    \<and> (letta_creates w' = letta_creates w1 \<longrightarrow> w' = w1)"
proof (cases "resolveTemplateVersion x w1 (p_template_id payload) (p_version payload)
             (case p_use_latest payload of None \<Rightarrow> False | Some b \<Rightarrow> b)")
  case (Inl e)
  with run show ?thesis by (simp add: createAfterGuard_def)
next
  case resolved: (Inr tr)
  obtain template raw where tr: "tr = (template, raw)" by (cases tr)
  let ?variables = "case p_variables payload of None \<Rightarrow> [] | Some vs \<Rightarrow> vs"
  show ?thesis
  proof (cases "validateTemplateVariables template ?variables")
    case (Inl e)
    with run resolved tr show ?thesis by (simp add: createAfterGuard_def)
  next
    case checked: (Inr u)
    show ?thesis
    proof (cases "buildAgentConfigFromTemplate w1 template userId")
      case (Inl e)
      with run resolved tr checked show ?thesis by (simp add: createAfterGuard_def)
    next
      case built: (Inr cfg0)
      let ?cfg = "if truthy (p_agent_name payload)
                 then AList.update ''name'' (JStr (the (p_agent_name payload))) cfg0
                 else cfg0"
      obtain w2 res where created: "createLettaAgent x w1 ?cfg = (w2, res)"
        by (cases "createLettaAgent x w1 ?cfg")
      then have "w2 = fst (createLettaAgent x w1 ?cfg)" by simp
      then have w2: "w2 = (if truthy (LETTA_API_KEY w1)
          then w1\<lparr>letta_creates := letta_creates w1 @ [?cfg]\<rparr> else w1)"
        by (simp only: fst_createLettaAgent)
      show ?thesis
      proof (cases res)
        case (Inl e)
        with run resolved tr checked built created have "w' = w2"
          by (simp add: createAfterGuard_def Let_def)
        with w2 show ?thesis by (cases "truthy (LETTA_API_KEY w1)") simp_all
      next
        case ok: (Inr ia)
        obtain agentId agent where ia: "ia = (agentId, agent)" by (cases ia)
        from created ok ia have w2': "w2 = w1\<lparr>letta_creates := letta_creates w1 @ [?cfg]\<rparr>"
          by (simp only: createLettaAgent_ok)
        let ?row = "\<lparr> i_agent_id = agentId, i_user_id = userId,
               i_template_id = template_id template, i_version = template_version template,
               i_variables = JObj ?variables \<rparr>"
        show ?thesis
        proof (cases "upsertAgentInstance w2 ?row")
          case (Inl e)
          with run resolved tr checked built created ok ia have "w' = w2"
            by (simp add: createAfterGuard_def Let_def)
          with w2' show ?thesis by simp
        next
          case recorded: (Inr w3)
          from upsertAgentInstance_instances[OF recorded]
          obtain rows where w3: "w3 = w2\<lparr>agent_instances := rows\<rparr>" ..
          show ?thesis
          proof (cases "upsertUserProfileAgent w3 userId agentId")
            case (Inl e)
            with run resolved tr checked built created ok ia recorded have "w' = w3"
              by (simp add: createAfterGuard_def Let_def)
            with w2' w3 have "w' = w1\<lparr>letta_creates := letta_creates w1 @ [?cfg],
                agent_instances := rows\<rparr>"
              by simp
            then show ?thesis by simp
          next
            case (Inr w4)
            with run resolved tr checked built created ok ia recorded show ?thesis
              by (simp add: createAfterGuard_def Let_def)
          qed
        qed
      qed
    qed
  qed
qed


text \<open>What an upgrade request that is answered with an error leaves behind.\<close>

lemma dispatchUpgrade_error:
  assumes d: "dispatchUpgrade x w1 agentId payload agentRecord template plan dr
              = (w', ErrorResponse status message)"
  shows "\<exists>calls. w' = w1\<lparr>letta_updates := calls\<rparr>"
proof (cases "case dry_run payload of None \<Rightarrow> True | Some b \<Rightarrow> b")
  case True
  with d show ?thesis by (simp add: dispatchUpgrade_def)
next
  case wet: False
  show ?thesis
  proof (cases "use_queue payload = Some True")
    case True
    with d wet have "w' = w1"
      by (auto simp: dispatchUpgrade_def enqueueUpgradeJob_def split: if_splits)
    then have "w' = w1\<lparr>letta_updates := letta_updates w1\<rparr>" by simp
    then show ?thesis ..
  next
    case direct: False
    obtain w2 res where upd: "updateLettaAgent x w1 agentId (updatedConfig dr) = (w2, res)"
      by (cases "updateLettaAgent x w1 agentId (updatedConfig dr)")
    then have "w2 = fst (updateLettaAgent x w1 agentId (updatedConfig dr))" by simp
    then have "w2 = (if truthy (LETTA_API_KEY w1)
        then w1\<lparr>letta_updates := letta_updates w1 @ [(agentId, updatedConfig dr)]\<rparr> else w1)"
      by (simp only: fst_updateLettaAgent)
    then have w2: "\<exists>calls. w2 = w1\<lparr>letta_updates := calls\<rparr>"
    proof (cases "truthy (LETTA_API_KEY w1)")
      case True
      assume "w2 = (if truthy (LETTA_API_KEY w1)
        then w1\<lparr>letta_updates := letta_updates w1 @ [(agentId, updatedConfig dr)]\<rparr> else w1)"
      with True have "w2 = w1\<lparr>letta_updates := letta_updates w1 @ [(agentId, updatedConfig dr)]\<rparr>"
        by simp
      then show ?thesis ..
    next
      case False
      assume "w2 = (if truthy (LETTA_API_KEY w1)
        then w1\<lparr>letta_updates := letta_updates w1 @ [(agentId, updatedConfig dr)]\<rparr> else w1)"
      with False have "w2 = w1\<lparr>letta_updates := letta_updates w1\<rparr>" by simp
      then show ?thesis ..
    qed
    show ?thesis
    proof (cases res)
      case (Inl e)
      with d wet direct upd have "w' = w2" by (simp add: dispatchUpgrade_def)
      with w2 show ?thesis by simp
    next
      case (Inr applied)
      with d wet direct upd show ?thesis by (simp add: dispatchUpgrade_def Let_def)
    qed
  qed
qed

lemma handleCreateAgent_guarded:
  assumes sup: "supabase_client w" and zuplo: "truthy (ZUPLO_BASE_URL w)"
    and guard: "ensureIdempotency x w key (JSON_stringify_create x payload userId) = Inr wg"
  shows "handleCreateAgent x w payload userId key = createAfterGuard x wg payload userId"
  using assms by (simp add: handleCreateAgent_def)

text \<open>
  Claim C10, as amended. With the store client initialised and a key that has no record
  yet, each of the three handlers records the key with the fingerprint of the request
  before it validates or executes the operation, so the same request sent again with
  the key fails with the duplicate-request error, whatever the first answer was. The
  create and the upgrade handler call the guard first; the publish handler calls it
  after the body has been parsed, and before validation and the SemVer gate.

  \<^item> A publish request whose body parses and that is answered with a validation
    failure or any other error has changed nothing but that record.
  \<^item> An upgrade request that is answered with an error has changed nothing in the store
    but that record; the only other trace is the update that the remote agent API
    refused.
  \<^item> A create request that is answered with an error has changed nothing but that
    record, the calls made to the remote agent API and the table \<^verbatim>\<open>agent_instances\<close>;
    and nothing but that record when no call was made to the remote agent API.
\<close>

theorem retry_after_guard:
  assumes sup: "supabase_client w" and key: "k \<noteq> []"
    and fresh: "map_of (request_dedup w) k = None"
  shows "(parseAgentFile x b = Inr (b, af, f) \<and> handlePublishTemplate x w b (Some k) = (w1, r1)
          \<longrightarrow> map_of (request_dedup w1) k = Some (sha256 x b)
              \<and> handlePublishTemplate x w1 b (Some k) = (w1, ErrorResponse 409 ''Duplicate request'')
              \<and> ((\<exists>es. r1 = ValidationFailed es) \<or> (\<exists>status message. r1 = ErrorResponse status message)
                   \<longrightarrow> w1 = w\<lparr>request_dedup := request_dedup w @ [(k, sha256 x b)]\<rparr>))
    \<and> (truthy (ZUPLO_BASE_URL w) \<and> handleUpgradeAgent x w a p u (Some k) = (w2, r2)
          \<longrightarrow> map_of (request_dedup w2) k = Some (sha256 x (JSON_stringify_upgrade x p a))
              \<and> handleUpgradeAgent x w2 a p u (Some k) = (w2, ErrorResponse 409 ''Duplicate request'')
              \<and> ((\<exists>status message. r2 = ErrorResponse status message)
                   \<longrightarrow> w2 = w\<lparr>request_dedup := request_dedup w
                                   @ [(k, sha256 x (JSON_stringify_upgrade x p a))],
                                 letta_updates := letta_updates w2\<rparr>))
    \<and> (truthy (ZUPLO_BASE_URL w) \<and> handleCreateAgent x w c i (Some k) = (w3, r3)
          \<longrightarrow> map_of (request_dedup w3) k = Some (sha256 x (JSON_stringify_create x c i))
              \<and> handleCreateAgent x w3 c i (Some k) = (w3, ErrorResponse 409 ''Duplicate request'')
              \<and> ((\<exists>status message. r3 = ErrorResponse status message)
                   \<longrightarrow> w3 = w\<lparr>request_dedup := request_dedup w
                                   @ [(k, sha256 x (JSON_stringify_create x c i))],
                                 letta_creates := letta_creates w3,
                                 agent_instances := agent_instances w3\<rparr>
                       \<and> (letta_creates w3 = letta_creates w
                            \<longrightarrow> w3 = w\<lparr>request_dedup := request_dedup w
                                   @ [(k, sha256 x (JSON_stringify_create x c i))]\<rparr>)))"
proof (intro conjI impI)
  assume "parseAgentFile x b = Inr (b, af, f) \<and> handlePublishTemplate x w b (Some k) = (w1, r1)"
  then have parse: "parseAgentFile x b = Inr (b, af, f)"
    and run: "handlePublishTemplate x w b (Some k) = (w1, r1)" by simp_all
  let ?wg = "w\<lparr>request_dedup := request_dedup w @ [(k, sha256 x b)]\<rparr>"
  have guard: "ensureIdempotency x w (Some k) b = Inr ?wg"
    using sup key fresh by (rule ensureIdempotency_fresh)
  with run sup parse have tail: "publishAfterGuard x ?wg b af f = (w1, r1)"
    by (simp add: handlePublishTemplate_def)
  from publishAfterGuard_keeps[OF tail] sup
  have dedup: "request_dedup w1 = request_dedup w @ [(k, sha256 x b)]" and sup1: "supabase_client w1"
    by simp_all
  from dedup fresh show stored: "map_of (request_dedup w1) k = Some (sha256 x b)"
    by (simp add: map_add_def)
  from ensureIdempotency_repeat[OF sup1 key stored] sup1 parse
  show "handlePublishTemplate x w1 b (Some k) = (w1, ErrorResponse 409 ''Duplicate request'')"
    by (simp add: handlePublishTemplate_def catch_response_def)
  show "w1 = ?wg"
    if "(\<exists>es. r1 = ValidationFailed es) \<or> (\<exists>status message. r1 = ErrorResponse status message)"
    using publishAfterGuard_cases[OF tail] that by auto
next
  assume "truthy (ZUPLO_BASE_URL w) \<and> handleUpgradeAgent x w a p u (Some k) = (w2, r2)"
  then have zuplo: "truthy (ZUPLO_BASE_URL w)"
    and run: "handleUpgradeAgent x w a p u (Some k) = (w2, r2)" by simp_all
  let ?s = "JSON_stringify_upgrade x p a"
  let ?wg = "w\<lparr>request_dedup := request_dedup w @ [(k, sha256 x ?s)]\<rparr>"
  have guard: "ensureIdempotency x w (Some k) ?s = Inr ?wg"
    using sup key fresh by (rule ensureIdempotency_fresh)
  have kept: "request_dedup w2 = request_dedup ?wg \<and> supabase_client w2
      \<and> ZUPLO_BASE_URL w2 = ZUPLO_BASE_URL w"
    using handleUpgradeAgent_guarded_cases[OF run]
  proof (elim disjE conjE exE)
    assume "\<not> supabase_client w"
    with sup show ?thesis by simp
  next
    assume "\<not> truthy (ZUPLO_BASE_URL w)"
    with zuplo show ?thesis by simp
  next
    fix e assume "ensureIdempotency x w (Some k) ?s = Inl e"
    with guard show ?thesis by simp
  next
    assume "ensureIdempotency x w (Some k) ?s = Inr w2"
    with guard sup show ?thesis by simp
  next
    fix wd agentRecord template plan dr
    assume d: "dispatchUpgrade x wd a p agentRecord template plan dr = (w2, r2)"
      and "ensureIdempotency x w (Some k) ?s = Inr wd"
    with guard have "wd = ?wg" by simp
    with dispatchUpgrade_keeps[OF d] sup show ?thesis by simp
  qed
  with fresh show stored: "map_of (request_dedup w2) k = Some (sha256 x ?s)"
    by (simp add: map_add_def)
  from kept zuplo have "supabase_client w2" "truthy (ZUPLO_BASE_URL w2)" by simp_all
  with ensureIdempotency_repeat[OF _ key stored]
  show "handleUpgradeAgent x w2 a p u (Some k) = (w2, ErrorResponse 409 ''Duplicate request'')"
    by (simp add: handleUpgradeAgent_def catch_response_def)
  show "w2 = w\<lparr>request_dedup := request_dedup w @ [(k, sha256 x ?s)],
               letta_updates := letta_updates w2\<rparr>"
    if failed: "\<exists>status message. r2 = ErrorResponse status message"
  proof -
    from failed obtain status message where r2: "r2 = ErrorResponse status message" by blast
    have "\<exists>calls. w2 = ?wg\<lparr>letta_updates := calls\<rparr>"
      using handleUpgradeAgent_guarded_cases[OF run]
    proof (elim disjE conjE exE)
      assume "\<not> supabase_client w"
      with sup show ?thesis by simp
    next
      assume "\<not> truthy (ZUPLO_BASE_URL w)"
      with zuplo show ?thesis by simp
    next
      fix e assume "ensureIdempotency x w (Some k) ?s = Inl e"
      with guard show ?thesis by simp
    next
      assume "ensureIdempotency x w (Some k) ?s = Inr w2"
      with guard have "w2 = ?wg\<lparr>letta_updates := letta_updates ?wg\<rparr>" by simp
      then show ?thesis ..
    next
      fix wd agentRecord template plan dr
      assume d: "dispatchUpgrade x wd a p agentRecord template plan dr = (w2, r2)"
        and "ensureIdempotency x w (Some k) ?s = Inr wd"
      with guard have "wd = ?wg" by simp
      with dispatchUpgrade_error[OF d[unfolded r2]] show ?thesis by simp
    qed
    then obtain calls where "w2 = ?wg\<lparr>letta_updates := calls\<rparr>" ..
    then show ?thesis by simp
  qed
next
  assume "truthy (ZUPLO_BASE_URL w) \<and> handleCreateAgent x w c i (Some k) = (w3, r3)"
  then have zuplo: "truthy (ZUPLO_BASE_URL w)"
    and run: "handleCreateAgent x w c i (Some k) = (w3, r3)" by simp_all
  let ?s = "JSON_stringify_create x c i"
  let ?wg = "w\<lparr>request_dedup := request_dedup w @ [(k, sha256 x ?s)]\<rparr>"
  have guard: "ensureIdempotency x w (Some k) ?s = Inr ?wg"
    using sup key fresh by (rule ensureIdempotency_fresh)
  from handleCreateAgent_guarded[OF sup zuplo guard] run
  have tail: "createAfterGuard x ?wg c i = (w3, r3)" by simp
  from createAfterGuard_keeps[OF tail] sup zuplo
  have kept: "request_dedup w3 = request_dedup w @ [(k, sha256 x ?s)]" "supabase_client w3"
    "truthy (ZUPLO_BASE_URL w3)"
    by simp_all
  from kept(1) fresh show stored: "map_of (request_dedup w3) k = Some (sha256 x ?s)"
    by (simp add: map_add_def)
  from ensureIdempotency_repeat[OF kept(2) key stored] kept
  show "handleCreateAgent x w3 c i (Some k) = (w3, ErrorResponse 409 ''Duplicate request'')"
    by (simp add: handleCreateAgent_def catch_response_def)
  have effect: "w3 = w\<lparr>request_dedup := request_dedup w @ [(k, sha256 x ?s)],
               letta_creates := letta_creates w3, agent_instances := agent_instances w3\<rparr>
        \<and> (letta_creates w3 = letta_creates w \<longrightarrow> w3 = ?wg)"
    if failed: "\<exists>status message. r3 = ErrorResponse status message"
  proof -
    from failed obtain status message where r3: "r3 = ErrorResponse status message" by blast
    from createAfterGuard_error[OF tail[unfolded r3]]
    have "w3 = ?wg\<lparr>letta_creates := letta_creates w3, agent_instances := agent_instances w3\<rparr>"
      and "letta_creates w3 = letta_creates ?wg \<longrightarrow> w3 = ?wg"
      by simp_all
    then show ?thesis by simp
  qed
  show "w3 = w\<lparr>request_dedup := request_dedup w @ [(k, sha256 x ?s)],
               letta_creates := letta_creates w3, agent_instances := agent_instances w3\<rparr>"
    if "\<exists>status message. r3 = ErrorResponse status message"
    using effect[OF that] by (rule conjunct1)
  show "w3 = ?wg"
    if "\<exists>status message. r3 = ErrorResponse status message"
      and "letta_creates w3 = letta_creates w"
    using effect[OF that(1)] that(2) by blast
qed


theorem retry_after_guard_witness:
  "handlePublishTemplate sample_ext published_world (sample_source ''latest'') (Some ''key-1'')
     = (published_world\<lparr>request_dedup := [(''key-1'', sample_source ''latest'')]\<rparr>,
        ValidationFailed [''template.version latest is not valid SemVer''])
   \<and> handlePublishTemplate sample_ext
        (published_world\<lparr>request_dedup := [(''key-1'', sample_source ''latest'')]\<rparr>)
        (sample_source ''latest'') (Some ''key-1'')
     = (published_world\<lparr>request_dedup := [(''key-1'', sample_source ''latest'')]\<rparr>,
        ErrorResponse 409 ''Duplicate request'')
   \<and> handlePublishTemplate sample_ext published_world (sample_source ''0.9.0'') (Some ''key-1'')
     = (published_world\<lparr>request_dedup := [(''key-1'', sample_source ''0.9.0'')]\<rparr>,
        ErrorResponse 400 ''Version 0.9.0 is lower than latest 1.0.0'')
   \<and> handlePublishTemplate sample_ext
        (published_world\<lparr>request_dedup := [(''key-1'', sample_source ''0.9.0'')]\<rparr>)
        (sample_source ''0.9.0'') (Some ''key-1'')
     = (published_world\<lparr>request_dedup := [(''key-1'', sample_source ''0.9.0'')]\<rparr>,
        ErrorResponse 409 ''Duplicate request'')
   \<and> handleUpgradeAgent sample_ext published_world ''agent-1'' omitted_payload (Some ''user-1'')
        (Some ''key-1'')
     = (published_world
          \<lparr>request_dedup := [(''key-1'', sample_stringify omitted_payload ''agent-1'')]\<rparr>,
        ErrorResponse 404 ''Agent not found'')
   \<and> handleUpgradeAgent sample_ext
        (published_world
          \<lparr>request_dedup := [(''key-1'', sample_stringify omitted_payload ''agent-1'')]\<rparr>)
        ''agent-1'' omitted_payload (Some ''user-1'') (Some ''key-1'')
     = (published_world
          \<lparr>request_dedup := [(''key-1'', sample_stringify omitted_payload ''agent-1'')]\<rparr>,
        ErrorResponse 409 ''Duplicate request'')
   \<and> handleUpgradeAgent failing_ext sample_world ''agent-1'' apply_payload (Some ''user-1'')
        (Some ''key-1'')
     = (sample_world
          \<lparr>request_dedup := [(''key-1'', sample_stringify apply_payload ''agent-1'')],
           letta_updates := [(''agent-1'', sample_config)]\<rparr>,
        ErrorResponse 500 ''Failed to update agent agent-1: 500 boom'')
   \<and> handleUpgradeAgent failing_ext
        (sample_world
          \<lparr>request_dedup := [(''key-1'', sample_stringify apply_payload ''agent-1'')],
           letta_updates := [(''agent-1'', sample_config)]\<rparr>)
        ''agent-1'' apply_payload (Some ''user-1'') (Some ''key-1'')
     = (sample_world
          \<lparr>request_dedup := [(''key-1'', sample_stringify apply_payload ''agent-1'')],
           letta_updates := [(''agent-1'', sample_config)]\<rparr>,
        ErrorResponse 409 ''Duplicate request'')
   \<and> handleCreateAgent sample_ext published_world create_payload ''user-1'' (Some ''key-1'')
     = (published_world
          \<lparr>request_dedup := [(''key-1'', sample_stringify_create create_payload ''user-1'')]\<rparr>,
        ErrorResponse 500 ''Missing required variables: customer'')
   \<and> handleCreateAgent sample_ext
        (published_world
          \<lparr>request_dedup := [(''key-1'', sample_stringify_create create_payload ''user-1'')]\<rparr>)
        create_payload ''user-1'' (Some ''key-1'')
     = (published_world
          \<lparr>request_dedup := [(''key-1'', sample_stringify_create create_payload ''user-1'')]\<rparr>,
        ErrorResponse 409 ''Duplicate request'')"
proof -
  have sup: "supabase_client published_world" and key: "''key-1'' \<noteq> []"
    and fresh: "map_of (request_dedup published_world) ''key-1'' = None"
    and zuplo: "truthy (ZUPLO_BASE_URL published_world)"
    by (simp_all add: published_world_def empty_world_def)
  have sup': "supabase_client sample_world"
    and fresh': "map_of (request_dedup sample_world) ''key-1'' = None"
    and zuplo': "truthy (ZUPLO_BASE_URL sample_world)"
    by (simp_all add: sample_world_def published_world_def empty_world_def)
  have parse1: "parseAgentFile sample_ext (sample_source ''latest'')
     = Inr (sample_source ''latest'', sample_file ''latest'', ''json'')"
    and parse2: "parseAgentFile sample_ext (sample_source ''0.9.0'')
     = Inr (sample_source ''0.9.0'', sample_file ''0.9.0'', ''json'')"
    by code_simp+
  have run1: "handlePublishTemplate sample_ext published_world (sample_source ''latest'')
       (Some ''key-1'')
     = (published_world\<lparr>request_dedup := [(''key-1'', sample_source ''latest'')]\<rparr>,
        ValidationFailed [''template.version latest is not valid SemVer''])"
    by code_simp
  have run2: "handlePublishTemplate sample_ext published_world (sample_source ''0.9.0'')
       (Some ''key-1'')
     = (published_world\<lparr>request_dedup := [(''key-1'', sample_source ''0.9.0'')]\<rparr>,
        ErrorResponse 400 ''Version 0.9.0 is lower than latest 1.0.0'')"
    by code_simp
  have run3: "handleUpgradeAgent sample_ext published_world ''agent-1'' omitted_payload
        (Some ''user-1'') (Some ''key-1'')
     = (published_world
          \<lparr>request_dedup := [(''key-1'', sample_stringify omitted_payload ''agent-1'')]\<rparr>,
        ErrorResponse 404 ''Agent not found'')"
    by code_simp
  have run4: "handleUpgradeAgent failing_ext sample_world ''agent-1'' apply_payload (Some ''user-1'')
        (Some ''key-1'')
     = (sample_world
          \<lparr>request_dedup := [(''key-1'', sample_stringify apply_payload ''agent-1'')],
           letta_updates := [(''agent-1'', sample_config)]\<rparr>,
        ErrorResponse 500 ''Failed to update agent agent-1: 500 boom'')"
    by code_simp
  have run5: "handleCreateAgent sample_ext published_world create_payload ''user-1'' (Some ''key-1'')
     = (published_world
          \<lparr>request_dedup := [(''key-1'', sample_stringify_create create_payload ''user-1'')]\<rparr>,
        ErrorResponse 500 ''Missing required variables: customer'')"
    by code_simp
  from retry_after_guard[OF sup key fresh, of sample_ext "sample_source ''latest''"
         "sample_file ''latest''" "''json''"] parse1 run1
  have a: "handlePublishTemplate sample_ext
        (published_world\<lparr>request_dedup := [(''key-1'', sample_source ''latest'')]\<rparr>)
        (sample_source ''latest'') (Some ''key-1'')
     = (published_world\<lparr>request_dedup := [(''key-1'', sample_source ''latest'')]\<rparr>,
        ErrorResponse 409 ''Duplicate request'')"
    by blast
  from retry_after_guard[OF sup key fresh, of sample_ext "sample_source ''0.9.0''"
         "sample_file ''0.9.0''" "''json''"] parse2 run2
  have b: "handlePublishTemplate sample_ext
        (published_world\<lparr>request_dedup := [(''key-1'', sample_source ''0.9.0'')]\<rparr>)
        (sample_source ''0.9.0'') (Some ''key-1'')
     = (published_world\<lparr>request_dedup := [(''key-1'', sample_source ''0.9.0'')]\<rparr>,
        ErrorResponse 409 ''Duplicate request'')"
    by blast
  from retry_after_guard[OF sup key fresh, of sample_ext] zuplo run3
  have c: "handleUpgradeAgent sample_ext
        (published_world
          \<lparr>request_dedup := [(''key-1'', sample_stringify omitted_payload ''agent-1'')]\<rparr>)
        ''agent-1'' omitted_payload (Some ''user-1'') (Some ''key-1'')
     = (published_world
          \<lparr>request_dedup := [(''key-1'', sample_stringify omitted_payload ''agent-1'')]\<rparr>,
        ErrorResponse 409 ''Duplicate request'')"
    by blast
  from retry_after_guard[OF sup' key fresh', of failing_ext] zuplo' run4
  have d: "handleUpgradeAgent failing_ext
        (sample_world
          \<lparr>request_dedup := [(''key-1'', sample_stringify apply_payload ''agent-1'')],
           letta_updates := [(''agent-1'', sample_config)]\<rparr>)
        ''agent-1'' apply_payload (Some ''user-1'') (Some ''key-1'')
     = (sample_world
          \<lparr>request_dedup := [(''key-1'', sample_stringify apply_payload ''agent-1'')],
           letta_updates := [(''agent-1'', sample_config)]\<rparr>,
        ErrorResponse 409 ''Duplicate request'')"
    by blast
  from retry_after_guard[OF sup key fresh, of sample_ext] zuplo run5
  have e: "handleCreateAgent sample_ext
        (published_world
          \<lparr>request_dedup := [(''key-1'', sample_stringify_create create_payload ''user-1'')]\<rparr>)
        create_payload ''user-1'' (Some ''key-1'')
     = (published_world
          \<lparr>request_dedup := [(''key-1'', sample_stringify_create create_payload ''user-1'')]\<rparr>,
        ErrorResponse 409 ''Duplicate request'')"
    by blast
  from run1 a run2 b run3 c run4 d run5 e show ?thesis by (intro conjI)
qed

text \<open>
  The claim as stated fails twice. The publish handler parses the body before it calls
  the guard: a request with a key whose body does not parse is rejected without a record
  of the key. And a request that fails after the guard may have had an effect: a create
  request for a user without an account fails on the insert into \<^verbatim>\<open>user_profiles\<close>,
  after the remote agent was created and the row of \<^verbatim>\<open>agent_instances\<close> was written.
\<close>

theorem retry_after_guard_counterexample:
  \<open>handlePublishTemplate sample_ext published_world [] (Some ''key-1'')
     = (published_world, ErrorResponse 500 ''Empty body'')
   \<and> request_dedup published_world = []
   \<and> snd (handleCreateAgent sample_ext published_world create_payload_customer ''user-2''
            (Some ''key-1''))
     = ErrorResponse 500
         (''insert or update on table "user_profiles" violates foreign key ''
          @ ''constraint "user_profiles_id_fkey"'')
   \<and> agent_instances (fst (handleCreateAgent sample_ext published_world create_payload_customer
                              ''user-2'' (Some ''key-1'')))
     = [\<lparr> i_agent_id = ''agent-1'', i_user_id = ''user-2'',
          i_template_id = ''sample-support-agent'', i_version = ''1.0.0'',
          i_variables = JObj [(''customer'', JStr ''ACME'')] \<rparr>]
   \<and> length (letta_creates (fst (handleCreateAgent sample_ext published_world
                                     create_payload_customer ''user-2'' (Some ''key-1'')))) = 1
   \<and> agent_instances published_world = [] \<and> letta_creates published_world = []\<close>
proof -
  have a: "handlePublishTemplate sample_ext published_world [] (Some ''key-1'')
     = (published_world, ErrorResponse 500 ''Empty body'')"
    by code_simp
  have b: "request_dedup published_world = []" "agent_instances published_world = []"
    "letta_creates published_world = []"
    by (simp_all add: published_world_def empty_world_def)
  have c: \<open>snd (handleCreateAgent sample_ext published_world create_payload_customer ''user-2''
            (Some ''key-1''))
     = ErrorResponse 500
         (''insert or update on table "user_profiles" violates foreign key ''
          @ ''constraint "user_profiles_id_fkey"'')\<close>
    by code_simp
  have d: "agent_instances (fst (handleCreateAgent sample_ext published_world create_payload_customer
                              ''user-2'' (Some ''key-1'')))
     = [\<lparr> i_agent_id = ''agent-1'', i_user_id = ''user-2'',
          i_template_id = ''sample-support-agent'', i_version = ''1.0.0'',
          i_variables = JObj [(''customer'', JStr ''ACME'')] \<rparr>]"
    by code_simp
  have e: "length (letta_creates (fst (handleCreateAgent sample_ext published_world
                                     create_payload_customer ''user-2'' (Some ''key-1'')))) = 1"
    by code_simp
  from a b c d e show ?thesis by (intro conjI)
qed

section \<open>The SemVer gate\<close>

text \<open>
  SemVer precedence as computed by \<open>compare_sv\<close> is a total preorder: comparing in the
  other direction negates the result, and \<open>\<le>\<close> is transitive. On entries that are all
  valid, the stable sort by \<open>semver_rcompare\<close> therefore puts a maximum first.
\<close>


lemma str_lt_irrefl: "\<not> str_lt a a"
  by (induction a) simp_all

lemma str_lt_trans: "str_lt a b \<Longrightarrow> str_lt b c \<Longrightarrow> str_lt a c"
proof (induction a arbitrary: b c)
  case Nil
  then show ?case by (cases b; cases c) simp_all
next
  case (Cons x xs)
  from Cons.prems(1) obtain y ys where b: "b = y # ys" by (cases b) simp_all
  from Cons.prems(2) b obtain z zs where c: "c = z # zs" by (cases c) simp_all
  show ?case
  proof (cases "x = y")
    case xy: True
    show ?thesis
    proof (cases "y = z")
      case True
      with xy Cons.prems b c have "str_lt xs ys" "str_lt ys zs" by simp_all
      then have "str_lt xs zs" by (rule Cons.IH)
      with xy True b c show ?thesis by simp
    next
      case False
      with xy Cons.prems b c show ?thesis by simp
    qed
  next
    case xy: False
    with Cons.prems(1) b have lt: "(of_char x :: nat) < of_char y" by simp
    show ?thesis
    proof (cases "y = z")
      case True
      with xy lt c show ?thesis by simp
    next
      case False
      with Cons.prems(2) b c have "(of_char y :: nat) < of_char z" by simp
      with lt have "(of_char x :: nat) < of_char z" by simp
      moreover from this have "x \<noteq> z" by auto
      ultimately show ?thesis using c by simp
    qed
  qed
qed

lemma of_char_less_total:
  "x \<noteq> y \<Longrightarrow> (of_char x :: nat) < of_char y \<or> (of_char y :: nat) < of_char x"
proof -
  assume "x \<noteq> y"
  then have "(of_char x :: nat) \<noteq> of_char y" by simp
  then show ?thesis by arith
qed

lemma str_lt_total: "a \<noteq> b \<Longrightarrow> str_lt a b \<or> str_lt b a"
proof (induction a b rule: str_lt.induct)
  case (4 x xs y ys)
  show ?case
  proof (cases "x = y")
    case True
    with 4 show ?thesis by auto
  next
    case False
    with of_char_less_total[OF False] show ?thesis by auto
  qed
qed simp_all

lemma str_lt_asym: "str_lt a b \<Longrightarrow> \<not> str_lt b a"
  using str_lt_trans str_lt_irrefl by blast

lemma cmp_nat_simps:
  "cmp_nat a b = 0 \<longleftrightarrow> a = b" "cmp_nat a b < 0 \<longleftrightarrow> a < b" "cmp_nat a b \<le> 0 \<longleftrightarrow> a \<le> b"
  "cmp_nat a b \<noteq> 0 \<longleftrightarrow> a \<noteq> b"
  by (auto simp: cmp_nat_def)

lemma compareIdentifiers_zero: "compareIdentifiers a b = 0 \<longleftrightarrow> a = b"
  by (cases a; cases b) (auto simp: cmp_nat_def)

lemma compareIdentifiers_sym: "compareIdentifiers b a = - compareIdentifiers a b"
  using str_lt_total str_lt_asym
  by (cases a; cases b) (auto simp: cmp_nat_def)

lemma compareIdentifiers_le:
  "compareIdentifiers (Num m) (Num n) \<le> 0 \<longleftrightarrow> m \<le> n"
  "compareIdentifiers (Num m) (Alpha t) \<le> 0"
  "\<not> compareIdentifiers (Alpha s) (Num n) \<le> 0"
  "compareIdentifiers (Alpha s) (Alpha t) \<le> 0 \<longleftrightarrow> s = t \<or> str_lt s t"
  by (simp_all add: cmp_nat_def)

lemma compareIdentifiers_trans:
  assumes "compareIdentifiers a b \<le> 0" and "compareIdentifiers b c \<le> 0"
  shows "compareIdentifiers a c \<le> 0"
proof (cases a)
  case a: (Num m)
  show ?thesis
  proof (cases c)
    case c: (Num k)
    show ?thesis
    proof (cases b)
      case (Num n)
      with a c assms have "m \<le> n" "n \<le> k" by (simp_all add: cmp_nat_simps split: if_splits)
      then have "m \<le> k" by simp
      with a c show ?thesis by (simp add: cmp_nat_simps split: if_splits)
    next
      case (Alpha t)
      with c assms(2) show ?thesis by (simp add: cmp_nat_simps split: if_splits)
    qed
  next
    case (Alpha u)
    with a show ?thesis by (simp add: cmp_nat_simps split: if_splits)
  qed
next
  case a: (Alpha s)
  from a assms(1) obtain t where b: "b = Alpha t"
    by (cases b) (simp_all add: cmp_nat_simps split: if_splits)
  from b assms(2) obtain u where c: "c = Alpha u"
    by (cases c) (simp_all add: cmp_nat_simps split: if_splits)
  from assms a b c have "s = t \<or> str_lt s t" "t = u \<or> str_lt t u"
    by (simp_all add: cmp_nat_simps split: if_splits)
  then have "s = u \<or> str_lt s u" using str_lt_trans by blast
  with a c show ?thesis by auto
qed

lemma comparePreLoop_sym: "comparePreLoop ys xs = - comparePreLoop xs ys"
proof (induction xs ys rule: comparePreLoop.induct)
  case (4 a as b bs)
  show ?case
  proof (cases "a = b")
    case True
    with 4 show ?thesis by simp
  next
    case False
    with compareIdentifiers_sym[of b a] show ?thesis by auto
  qed
qed simp_all

lemma comparePreLoop_trans:
  "comparePreLoop xs ys \<le> 0 \<Longrightarrow> comparePreLoop ys zs \<le> 0 \<Longrightarrow> comparePreLoop xs zs \<le> 0"
proof (induction xs ys arbitrary: zs rule: comparePreLoop.induct)
  case 1
  then show ?case by simp
next
  case (2 a as)
  then show ?case by simp
next
  case (3 b bs)
  then show ?case by (cases zs) simp_all
next
  case (4 a as b bs)
  show ?case
  proof (cases zs)
    case Nil
    with 4 show ?thesis by simp
  next
    case (Cons c cs)
    show ?thesis
    proof (cases "a = b")
      case True
      with 4 Cons show ?thesis by (auto split: if_splits)
    next
      case ab: False
      with 4 have le_ab: "compareIdentifiers a b \<le> 0" by simp
      show ?thesis
      proof (cases "b = c")
        case True
        with 4 Cons ab show ?thesis by simp
      next
        case bc: False
        with 4 Cons have le_bc: "compareIdentifiers b c \<le> 0" by simp
        have "a \<noteq> c"
        proof
          assume "a = c"
          with le_bc have "compareIdentifiers b a \<le> 0" by simp
          with le_ab compareIdentifiers_sym[of b a] have "compareIdentifiers a b = 0" by simp
          with ab show False by (simp add: compareIdentifiers_zero)
        qed
        with Cons compareIdentifiers_trans[OF le_ab le_bc] show ?thesis by simp
      qed
    qed
  qed
qed

lemma comparePre_sym: "comparePre y x = - comparePre x y"
  using comparePreLoop_sym[of "prerelease y" "prerelease x"]
  by (simp add: comparePre_def)

lemma comparePre_trans:
  "comparePre x y \<le> 0 \<Longrightarrow> comparePre y z \<le> 0 \<Longrightarrow> comparePre x z \<le> 0"
  using comparePreLoop_trans[of "prerelease x" "prerelease y" "prerelease z"]
  by (auto simp: comparePre_def split: if_splits)

lemma compareMain_simps:
  "compareMain x y = 0 \<longleftrightarrow> major x = major y \<and> minor x = minor y \<and> patch x = patch y"
  "compareMain x y < 0 \<longleftrightarrow>
     major x < major y \<or> (major x = major y \<and> (minor x < minor y
       \<or> (minor x = minor y \<and> patch x < patch y)))"
  by (auto simp: compareMain_def cmp_nat_def)

lemma compareMain_sym: "compareMain y x = - compareMain x y"
  by (auto simp: compareMain_def cmp_nat_def)

lemma compare_sv_le:
  "compare_sv x y \<le> 0 \<longleftrightarrow> compareMain x y < 0 \<or> (compareMain x y = 0 \<and> comparePre x y \<le> 0)"
  by (auto simp: compare_sv_def compareMain_def cmp_nat_def)

lemma compare_sv_sym: "compare_sv y x = - compare_sv x y"
  using compareMain_sym[of y x] comparePre_sym[of y x]
  by (simp add: compare_sv_def)

lemma compare_sv_trans:
  assumes "compare_sv x y \<le> 0" and "compare_sv y z \<le> 0"
  shows "compare_sv x z \<le> 0"
  using assms comparePre_trans[of x y z]
  unfolding compare_sv_le compareMain_simps by auto

lemma compare_sv_lt_le:
  assumes "compare_sv x y < 0" and "compare_sv y z \<le> 0"
  shows "compare_sv x z < 0"
proof (rule ccontr)
  assume "\<not> compare_sv x z < 0"
  then have "compare_sv z x \<le> 0" using compare_sv_sym[of z x] by simp
  with assms(2) have "compare_sv y x \<le> 0" by (rule compare_sv_trans)
  with assms(1) compare_sv_sym[of y x] show False by simp
qed


lemma compare_sv_refl: "compare_sv x x = 0"
  using compare_sv_sym[of x x] by simp

lemma set_insert_by: "set (insert_by c x ys) = insert x (set ys)"
  by (induction ys) auto

lemma sorted_insert_by:
  assumes total: "\<And>a b. a \<in> A \<Longrightarrow> b \<in> A \<Longrightarrow> \<not> c a b < 0 \<Longrightarrow> c b a \<le> 0"
    and trans: "\<And>a b d. a \<in> A \<Longrightarrow> b \<in> A \<Longrightarrow> d \<in> A \<Longrightarrow> c a b \<le> 0 \<Longrightarrow> c b d \<le> 0 \<Longrightarrow> c a d \<le> 0"
    and x: "x \<in> A" and ys: "set ys \<subseteq> A" and sorted: "sorted_wrt (\<lambda>a b. c a b \<le> 0) ys"
  shows "sorted_wrt (\<lambda>a b. c a b \<le> 0) (insert_by c x ys)"
  using ys sorted
proof (induction ys)
  case Nil
  then show ?case by simp
next
  case (Cons y ys)
  show ?case
  proof (cases "c x y < 0")
    case True
    have "c x z \<le> 0" if "z \<in> set ys" for z
    proof -
      from Cons.prems that have "c y z \<le> 0" "z \<in> A" "y \<in> A" by auto
      with True x show ?thesis using trans[of x y z] by simp
    qed
    with True Cons.prems show ?thesis by auto
  next
    case False
    with x Cons.prems have "c y x \<le> 0" using total[of x y] by simp
    with False Cons show ?thesis by (auto simp: set_insert_by)
  qed
qed

lemma sorted_foldl_insert_by:
  assumes total: "\<And>a b. a \<in> A \<Longrightarrow> b \<in> A \<Longrightarrow> \<not> c a b < 0 \<Longrightarrow> c b a \<le> 0"
    and trans: "\<And>a b d. a \<in> A \<Longrightarrow> b \<in> A \<Longrightarrow> d \<in> A \<Longrightarrow> c a b \<le> 0 \<Longrightarrow> c b d \<le> 0 \<Longrightarrow> c a d \<le> 0"
  shows "set xs \<subseteq> A \<Longrightarrow> set acc \<subseteq> A \<Longrightarrow> sorted_wrt (\<lambda>a b. c a b \<le> 0) acc
    \<Longrightarrow> sorted_wrt (\<lambda>a b. c a b \<le> 0) (foldl (\<lambda>acc x. insert_by c x acc) acc xs)
        \<and> set (foldl (\<lambda>acc x. insert_by c x acc) acc xs) = set acc \<union> set xs"
proof (induction xs arbitrary: acc)
  case Nil
  then show ?case by simp
next
  case (Cons x xs)
  from Cons.prems have x: "x \<in> A" and xs: "set xs \<subseteq> A" by simp_all
  have "sorted_wrt (\<lambda>a b. c a b \<le> 0) (insert_by c x acc)"
    using total trans x Cons.prems(2) Cons.prems(3) by (rule sorted_insert_by)
  moreover from x Cons.prems(2) have "set (insert_by c x acc) \<subseteq> A"
    by (simp add: set_insert_by)
  ultimately have "sorted_wrt (\<lambda>a b. c a b \<le> 0) (foldl (\<lambda>acc x. insert_by c x acc) (insert_by c x acc) xs)
        \<and> set (foldl (\<lambda>acc x. insert_by c x acc) (insert_by c x acc) xs)
            = set (insert_by c x acc) \<union> set xs"
    using Cons.IH[OF xs] by simp
  then show ?case by (simp add: set_insert_by)
qed

lemma semver_rcompare_valid:
  "parse_semver a = Some x \<Longrightarrow> parse_semver b = Some y \<Longrightarrow> semver_rcompare a b = compare_sv y x"
  by (simp add: semver_rcompare_def semver_compare_def)

lemma semver_le_valid:
  "parse_semver a = Some x \<Longrightarrow> parse_semver b = Some y \<Longrightarrow> semver_le a b \<longleftrightarrow> compare_sv x y \<le> 0"
  by (simp add: semver_le_def semver_compare_def)

lemma semver_lt_valid:
  "parse_semver a = Some x \<Longrightarrow> parse_semver b = Some y
   \<Longrightarrow> semver_lt a b = Inr (compare_sv x y < 0)"
  by (simp add: semver_lt_def semver_compare_def)

text \<open>The first element of the sorted valid entries is a maximum of them.\<close>

lemma sort_by_rcompare_head:
  assumes valid: "\<forall>v \<in> set vs. semver_valid v" and sorted: "sort_by semver_rcompare vs = latest # rest"
  shows "latest \<in> set vs" and "\<forall>e \<in> set vs. semver_le e latest"
proof -
  let ?A = "{v. semver_valid v}"
  have total: "semver_rcompare b a \<le> 0" if "a \<in> ?A" "b \<in> ?A" "\<not> semver_rcompare a b < 0" for a b
  proof -
    from that obtain x y where "parse_semver a = Some x" "parse_semver b = Some y"
      by (auto simp: semver_valid_def)
    with that(3) compare_sv_sym[of x y] show ?thesis
      by (simp add: semver_rcompare_valid)
  qed
  have trans: "semver_rcompare a d \<le> 0"
    if "a \<in> ?A" "b \<in> ?A" "d \<in> ?A" "semver_rcompare a b \<le> 0" "semver_rcompare b d \<le> 0" for a b d
  proof -
    from that obtain x y z where p: "parse_semver a = Some x" "parse_semver b = Some y"
      "parse_semver d = Some z"
      by (auto simp: semver_valid_def)
    with that have "compare_sv z y \<le> 0" "compare_sv y x \<le> 0"
      by (simp_all add: semver_rcompare_valid)
    then have "compare_sv z x \<le> 0" by (rule compare_sv_trans)
    with p show ?thesis by (simp add: semver_rcompare_valid)
  qed
  from valid have sub: "set vs \<subseteq> ?A" by auto
  have "sorted_wrt (\<lambda>a b. semver_rcompare a b \<le> 0) (sort_by semver_rcompare vs)
        \<and> set (sort_by semver_rcompare vs) = set [] \<union> set vs"
    unfolding sort_by_def
    by (rule sorted_foldl_insert_by[where A = ?A, OF total trans sub]) simp_all
  with sorted have head: "\<forall>e \<in> set rest. semver_rcompare latest e \<le> 0"
    and elems: "insert latest (set rest) = set vs"
    by simp_all
  from elems show in_vs: "latest \<in> set vs" by auto
  show "\<forall>e \<in> set vs. semver_le e latest"
  proof
    fix e assume e: "e \<in> set vs"
    from in_vs e valid have "semver_valid latest" "semver_valid e" by blast+
    then obtain x y where p: "parse_semver latest = Some x" "parse_semver e = Some y"
      by (auto simp: semver_valid_def)
    from e elems have "e = latest \<or> e \<in> set rest" by auto
    then have "compare_sv y x \<le> 0"
    proof
      assume "e = latest"
      with p show ?thesis by (simp add: compare_sv_refl)
    next
      assume "e \<in> set rest"
      with head have "semver_rcompare latest e \<le> 0" by blast
      with p show ?thesis by (simp add: semver_rcompare_valid)
    qed
    with p show "semver_le e latest" by (simp add: semver_le_valid)
  qed
qed

lemma set_foldl_insert_by:
  "set (foldl (\<lambda>acc x. insert_by c x acc) acc xs) = set acc \<union> set xs"
  by (induction xs arbitrary: acc) (simp_all add: set_insert_by)

lemma set_sort_by: "set (sort_by c xs) = set xs"
  by (simp add: sort_by_def set_foldl_insert_by)

lemma sort_by_Nil: "sort_by c xs = [] \<longleftrightarrow> xs = []"
proof -
  have "sort_by c xs = [] \<longleftrightarrow> set (sort_by c xs) = {}" by simp
  also have "\<dots> \<longleftrightarrow> xs = []" by (simp only: set_sort_by set_empty)
  finally show ?thesis .
qed

text \<open>
  Claim C6, as amended. \<open>assessSemver\<close> does not test the syntax of the proposed version
  itself (the publish handler does, in \<open>validateAgentFile\<close>, before it calls the gate). It
  applies these rules in order: a proposed version that is already present is rejected as
  already published; otherwise, when no existing entry is valid SemVer, the proposed
  version is allowed; otherwise, for a proposed version that is valid SemVer, the gate
  takes a maximum of the valid existing entries under SemVer precedence (invalid entries
  are ignored) and rejects the proposed version as lower than the latest exactly when it
  compares less than that maximum, which is the case exactly when it compares less than
  some valid existing entry; else it allows. The three examples of the specification
  hold.
\<close>

theorem assessSemver_rules:
  "(proposed \<in> set existing \<longrightarrow>
      assessSemver proposed existing = Inr (Rejected ''Version already published''))
   \<and> (proposed \<notin> set existing \<and> (\<forall>e \<in> set existing. \<not> semver_valid e) \<longrightarrow>
      assessSemver proposed existing = Inr Allowed)
   \<and> (proposed \<notin> set existing \<and> semver_valid proposed \<and> (\<exists>e \<in> set existing. semver_valid e) \<longrightarrow>
      (\<exists>latest \<in> set existing. semver_valid latest
          \<and> (\<forall>e \<in> set existing. semver_valid e \<longrightarrow> semver_le e latest)
          \<and> assessSemver proposed existing
              = (if semver_lt proposed latest = Inr True
                 then Inr (Rejected (''Version '' @ proposed @ '' is lower than latest '' @ latest))
                 else Inr Allowed)))
   \<and> (proposed \<notin> set existing \<and> semver_valid proposed \<longrightarrow>
      (assessSemver proposed existing = Inr Allowed
       \<longleftrightarrow> \<not> (\<exists>e \<in> set existing. semver_valid e \<and> semver_lt proposed e = Inr True)))
   \<and> assessSemver ''1.2.0'' [''1.3.0''] = Inr (Rejected ''Version 1.2.0 is lower than latest 1.3.0'')
   \<and> assessSemver ''1.4.0'' [''1.3.0''] = Inr Allowed
   \<and> assessSemver ''2.0.0-rc.1'' [] = Inr Allowed"
proof -
  let ?valid = "filter semver_valid existing"
  have dup: "assessSemver proposed existing = Inr (Rejected ''Version already published'')"
    if "proposed \<in> set existing"
    using that by (simp add: assessSemver_def)
  have none: "assessSemver proposed existing = Inr Allowed"
    if "proposed \<notin> set existing" "\<forall>e \<in> set existing. \<not> semver_valid e"
  proof -
    from that(2) have "?valid = []" by (simp add: filter_empty_conv)
    then have "sort_by semver_rcompare ?valid = []" by (simp add: sort_by_def)
    with that(1) show ?thesis by (simp add: assessSemver_def)
  qed
  have some: "\<exists>latest \<in> set existing. semver_valid latest
          \<and> (\<forall>e \<in> set existing. semver_valid e \<longrightarrow> semver_le e latest)
          \<and> assessSemver proposed existing
              = (if semver_lt proposed latest = Inr True
                 then Inr (Rejected (''Version '' @ proposed @ '' is lower than latest '' @ latest))
                 else Inr Allowed)"
    if fresh: "proposed \<notin> set existing" and ok: "semver_valid proposed"
      and ex: "\<exists>e \<in> set existing. semver_valid e"
  proof -
    from ex have "?valid \<noteq> []" by (simp add: filter_empty_conv)
    then have "sort_by semver_rcompare ?valid \<noteq> []" by (simp add: sort_by_Nil)
    then obtain latest rest where sorted: "sort_by semver_rcompare ?valid = latest # rest"
      by (cases "sort_by semver_rcompare ?valid") simp_all
    have all: "\<forall>v \<in> set ?valid. semver_valid v" by simp
    from sort_by_rcompare_head[OF all sorted]
    have latest: "latest \<in> set existing" "semver_valid latest"
      and max: "\<forall>e \<in> set existing. semver_valid e \<longrightarrow> semver_le e latest"
      by auto
    from ok latest(2) obtain x y where p: "parse_semver proposed = Some x" "parse_semver latest = Some y"
      by (auto simp: semver_valid_def)
    from fresh sorted semver_lt_valid[OF p]
    have "assessSemver proposed existing
              = (if semver_lt proposed latest = Inr True
                 then Inr (Rejected (''Version '' @ proposed @ '' is lower than latest '' @ latest))
                 else Inr Allowed)"
      by (simp add: assessSemver_def)
    with latest max show ?thesis by blast
  qed
  have iff: "assessSemver proposed existing = Inr Allowed
       \<longleftrightarrow> \<not> (\<exists>e \<in> set existing. semver_valid e \<and> semver_lt proposed e = Inr True)"
    if fresh: "proposed \<notin> set existing" and ok: "semver_valid proposed"
  proof (cases "\<exists>e \<in> set existing. semver_valid e")
    case False
    with none[OF fresh] show ?thesis by auto
  next
    case True
    from some[OF fresh ok True] obtain latest where latest: "latest \<in> set existing" "semver_valid latest"
      and max: "\<forall>e \<in> set existing. semver_valid e \<longrightarrow> semver_le e latest"
      and res: "assessSemver proposed existing
              = (if semver_lt proposed latest = Inr True
                 then Inr (Rejected (''Version '' @ proposed @ '' is lower than latest '' @ latest))
                 else Inr Allowed)"
      by blast
    from ok obtain x where px: "parse_semver proposed = Some x" by (auto simp: semver_valid_def)
    have "semver_lt proposed latest = Inr True"
      if e: "e \<in> set existing" "semver_valid e" "semver_lt proposed e = Inr True" for e
    proof -
      from e(2) latest(2) obtain y z where p: "parse_semver e = Some y" "parse_semver latest = Some z"
        by (auto simp: semver_valid_def)
      from e(3) px p have lt: "compare_sv x y < 0" by (simp add: semver_lt_valid)
      from max e have "semver_le e latest" by blast
      with p have "compare_sv y z \<le> 0" by (simp add: semver_le_valid)
      with lt have "compare_sv x z < 0" by (rule compare_sv_lt_le)
      with px p show ?thesis by (simp add: semver_lt_valid)
    qed
    with latest res show ?thesis by auto
  qed
  have ex1: "assessSemver ''1.2.0'' [''1.3.0'']
      = Inr (Rejected ''Version 1.2.0 is lower than latest 1.3.0'')"
    by code_simp
  have ex2: "assessSemver ''1.4.0'' [''1.3.0''] = Inr Allowed"
    by code_simp
  have ex3: "assessSemver ''2.0.0-rc.1'' [] = Inr Allowed"
    by code_simp
  from dup none some iff ex1 ex2 ex3 show ?thesis by blast
qed

theorem assessSemver_rules_witness:
  "assessSemver ''1.3.0'' [''1.3.0'', ''broken''] = Inr (Rejected ''Version already published'')
   \<and> assessSemver ''1.0.0'' [''broken''] = Inr Allowed
   \<and> (\<exists>latest \<in> set [''1.1.0'', ''broken'', ''1.3.0''].
         semver_valid latest
         \<and> (\<forall>e \<in> set [''1.1.0'', ''broken'', ''1.3.0'']. semver_valid e \<longrightarrow> semver_le e latest)
         \<and> assessSemver ''1.2.0'' [''1.1.0'', ''broken'', ''1.3.0'']
             = (if semver_lt ''1.2.0'' latest = Inr True
                then Inr (Rejected (''Version '' @ ''1.2.0'' @ '' is lower than latest '' @ latest))
                else Inr Allowed))
   \<and> (assessSemver ''1.2.0'' [''1.1.0'', ''broken'', ''1.3.0''] = Inr Allowed
       \<longleftrightarrow> \<not> (\<exists>e \<in> set [''1.1.0'', ''broken'', ''1.3.0''].
                semver_valid e \<and> semver_lt ''1.2.0'' e = Inr True))
   \<and> assessSemver ''1.2.0'' [''1.1.0'', ''broken'', ''1.3.0'']
       = Inr (Rejected ''Version 1.2.0 is lower than latest 1.3.0'')"
proof -
  have h1: "''1.3.0'' \<in> set [''1.3.0'', ''broken'']" by simp
  have h2: "''1.0.0'' \<notin> set [''broken''] \<and> (\<forall>e \<in> set [''broken'']. \<not> semver_valid e)"
    by code_simp
  have h3: "''1.2.0'' \<notin> set [''1.1.0'', ''broken'', ''1.3.0''] \<and> semver_valid ''1.2.0''
      \<and> (\<exists>e \<in> set [''1.1.0'', ''broken'', ''1.3.0'']. semver_valid e)"
    by code_simp
  have run: "assessSemver ''1.2.0'' [''1.1.0'', ''broken'', ''1.3.0'']
       = Inr (Rejected ''Version 1.2.0 is lower than latest 1.3.0'')"
    by code_simp
  from assessSemver_rules[of "''1.3.0''" "[''1.3.0'', ''broken'']"] h1
  have a: "assessSemver ''1.3.0'' [''1.3.0'', ''broken''] = Inr (Rejected ''Version already published'')"
    by blast
  from assessSemver_rules[of "''1.0.0''" "[''broken'']"] h2
  have b: "assessSemver ''1.0.0'' [''broken''] = Inr Allowed"
    by blast
  from assessSemver_rules[of "''1.2.0''" "[''1.1.0'', ''broken'', ''1.3.0'']"] h3
  have c: "\<exists>latest \<in> set [''1.1.0'', ''broken'', ''1.3.0''].
         semver_valid latest
         \<and> (\<forall>e \<in> set [''1.1.0'', ''broken'', ''1.3.0'']. semver_valid e \<longrightarrow> semver_le e latest)
         \<and> assessSemver ''1.2.0'' [''1.1.0'', ''broken'', ''1.3.0'']
             = (if semver_lt ''1.2.0'' latest = Inr True
                then Inr (Rejected (''Version '' @ ''1.2.0'' @ '' is lower than latest '' @ latest))
                else Inr Allowed)"
    and d: "assessSemver ''1.2.0'' [''1.1.0'', ''broken'', ''1.3.0''] = Inr Allowed
       \<longleftrightarrow> \<not> (\<exists>e \<in> set [''1.1.0'', ''broken'', ''1.3.0''].
                semver_valid e \<and> semver_lt ''1.2.0'' e = Inr True)"
    by blast+
  from a b c d run show ?thesis by (intro conjI)
qed


text \<open>
  The claim as stated fails in its first rule: a proposed version that is not valid SemVer
  is allowed when no existing entry is valid.
\<close>

theorem assessSemver_rules_counterexample:
  "\<not> semver_valid ''not-a-version''
   \<and> assessSemver ''not-a-version'' [] = Inr Allowed
   \<and> assessSemver ''not-a-version'' [''also-not-a-version''] = Inr Allowed"
  by code_simp

end
